theory Spec2Isabelle
  imports Complex_Main "HOL-Library.Signed_Division" "HOL-Library.Word"
begin

section \<open>Machine integers, durations and times\<close>

text \<open>
  Go's \<open>int\<close> (on the 64-bit targets the gateway runs on) and \<open>time.Duration\<close> are
  64-bit two's complement integers; a duration counts nanoseconds. They are modelled as
  \<open>int\<close> with the wrap-around of every addition, multiplication and quotient written
  out by \<open>wrap64\<close>. Go's \<open>/\<close> and \<open>%\<close> truncate towards zero (\<open>sdiv\<close>, \<open>smod\<close>) and
  panic on a zero divisor.

  A \<open>time.Time\<close> is modelled as the number of nanoseconds since Go's zero time
  (January 1, year 1, 00:00:00 UTC, a Monday), read in the UTC location. Go keeps seconds
  and nanoseconds apart, with a range far beyond 64-bit nanoseconds, so times are unbounded
  here; \<open>Time.Sub\<close> saturates at the bounds of \<open>Duration\<close> as the library does.
\<close>

type_synonym Duration = int
type_synonym Time = int

datatype panic =
    IntegerDivideByZero
  | MakesliceLenOutOfRange
  | IndexOutOfRange

definition minInt64 :: int where
  "minInt64 = - (2 ^ 63)"

definition maxInt64 :: int where
  "maxInt64 = 2 ^ 63 - 1"

definition wrap64 :: "int \<Rightarrow> int" where
  "wrap64 x = (x + 2 ^ 63) mod 2 ^ 64 - 2 ^ 63"

definition is_int64 :: "int \<Rightarrow> bool" where
  "is_int64 x \<longleftrightarrow> minInt64 \<le> x \<and> x \<le> maxInt64"

definition go_div :: "int \<Rightarrow> int \<Rightarrow> panic + int" where
  "go_div a b = (if b = 0 then Inl IntegerDivideByZero else Inr (wrap64 (a sdiv b)))"

definition go_rem :: "int \<Rightarrow> int \<Rightarrow> panic + int" where
  "go_rem a b = (if b = 0 then Inl IntegerDivideByZero else Inr (a smod b))"

definition Nanosecond :: Duration where
  "Nanosecond = 1"

definition Second :: Duration where
  "Second = 1000000000"

definition Minute :: Duration where
  "Minute = 60 * Second"

definition Hour :: Duration where
  "Hour = 60 * Minute"

definition Time_Sub :: "Time \<Rightarrow> Time \<Rightarrow> Duration" where
  "Time_Sub t u =
     (let d = t - u in
      if d < minInt64 then minInt64 else if maxInt64 < d then maxInt64 else d)"

definition Time_Add :: "Time \<Rightarrow> Duration \<Rightarrow> Time" where
  "Time_Add t d = t + d"

definition Time_Before :: "Time \<Rightarrow> Time \<Rightarrow> bool" where
  "Time_Before t u = (t < u)"

definition Time_Truncate :: "Time \<Rightarrow> Duration \<Rightarrow> Time" where
  "Time_Truncate t d = (if d \<le> 0 then t else t - t mod d)"

definition Time_Weekday :: "Time \<Rightarrow> int" where
  "Time_Weekday t = (t div (24 * Hour) + 1) mod 7"

definition Time_AddDays :: "Time \<Rightarrow> int \<Rightarrow> Time" where
  "Time_AddDays t days = t + days * (24 * Hour)"

section \<open>Usage tracker: configuration and device data\<close>

datatype UsageTrackerMode = ModeMonitor | ModeAllow | ModeBlock

record TrackerConfig =
  Granularity :: Duration
  Retention :: Duration
  Threshold :: Duration
  StartDayInt :: int
  StartDuration :: Duration
  SampleFilePath :: string
  SampleFileSaveInterval :: Duration
  SampleSize :: int
  Mode :: UsageTrackerMode
  ModeEndTime :: Time

record deviceData =
  config :: TrackerConfig
  samples :: "bool list"
  windowStartTime :: Time

text \<open>
  The integer fields of a configuration are 64-bit in the program; the model states it
  where a result depends on it.
\<close>

definition int64_config :: "TrackerConfig \<Rightarrow> bool" where
  "int64_config c \<longleftrightarrow>
     is_int64 (Granularity c) \<and> is_int64 (Retention c) \<and> is_int64 (Threshold c)
     \<and> is_int64 (StartDayInt c) \<and> is_int64 (StartDuration c)
     \<and> is_int64 (SampleFileSaveInterval c) \<and> is_int64 (SampleSize c)"

text \<open>
  \<open>make([]bool, n)\<close> panics when \<open>n\<close> is negative or beyond the runtime's allocation
  limit, which is \<open>2 ^ 48\<close> bytes on 64-bit Linux.
\<close>

definition maxAlloc :: int where
  "maxAlloc = 2 ^ 48"

definition make_bools :: "int \<Rightarrow> panic + bool list" where
  "make_bools n =
     (if n < 0 \<or> maxAlloc < n then Inl MakesliceLenOutOfRange
      else Inr (replicate (nat n) False))"

definition getSampleSize :: "TrackerConfig \<Rightarrow> panic + int" where
  "getSampleSize cfg = go_div (Retention cfg) (Granularity cfg)"

text \<open>
  \<open>calculateWindow\<close> returns the start of the last window and of the next one. The weekly
  branch moves the Monday that \<open>Truncate\<close> yields by \<open>StartDayInt - Weekday now\<close>
  days (\<open>AddDate\<close>, whole days of 24 hours in UTC).
\<close>

definition calculateWindow :: "deviceData \<Rightarrow> Time \<Rightarrow> Time \<times> Time" where
  "calculateWindow d now =
     (let c = config d in
      if 7 * 24 * Hour \<le> Retention c then
        (let startOfWeek =
               Time_AddDays (Time_Truncate now (7 * 24 * Hour)) (StartDayInt c - Time_Weekday now);
             lastWindowStart0 =
               Time_Truncate (Time_Add startOfWeek (StartDuration c)) (Granularity c);
             lastWindowStart =
               (if Time_Before now lastWindowStart0
                then Time_Truncate (Time_Add lastWindowStart0 (- (7 * 24 * Hour))) (Granularity c)
                else lastWindowStart0)
         in (lastWindowStart,
             Time_Truncate (Time_Add lastWindowStart (7 * 24 * Hour)) (Granularity c)))
      else if 24 * Hour \<le> Retention c then
        (let startOfDay = Time_Truncate now (24 * Hour);
             lastWindowStart0 = Time_Add startOfDay (StartDuration c);
             lastWindowStart =
               (if Time_Before now lastWindowStart0
                then Time_Truncate (Time_Add lastWindowStart0 (- (24 * Hour))) (Granularity c)
                else lastWindowStart0)
         in (lastWindowStart,
             Time_Truncate (Time_Add lastWindowStart (24 * Hour)) (Granularity c)))
      else
        (let baseWindowStart0 = Time_Truncate now (Retention c);
             lastWindowStart0 =
               Time_Truncate (Time_Add baseWindowStart0 (StartDuration c)) (Granularity c);
             lastWindowStart =
               (if Time_Before now lastWindowStart0
                then Time_Truncate
                       (Time_Add (Time_Add baseWindowStart0 (- Retention c)) (StartDuration c))
                       (Granularity c)
                else lastWindowStart0)
         in (lastWindowStart,
             Time_Truncate (Time_Add lastWindowStart (Retention c)) (Granularity c))))"

definition newDeviceData :: "Time \<Rightarrow> TrackerConfig \<Rightarrow> panic + deviceData" where
  "newDeviceData now cfg =
     (let cfg1 = (if 7 * 24 * Hour < Retention cfg then cfg\<lparr>Retention := 7 * 24 * Hour\<rparr> else cfg);
          cfg2 = (if Retention cfg1 < 24 * Hour then cfg1\<lparr>StartDayInt := 0\<rparr> else cfg1);
          cfg3 = (if Threshold cfg2 = 0 then cfg2\<lparr>Threshold := 1 * Minute\<rparr> else cfg2);
          cfg4 = (if Granularity cfg3 = 0 then cfg3\<lparr>Granularity := 1 * Minute\<rparr> else cfg3)
      in case getSampleSize cfg4 of
           Inl e \<Rightarrow> Inl e
         | Inr n \<Rightarrow>
             (let cfg5 = cfg4\<lparr>SampleSize := n\<rparr> in
              case make_bools n of
                Inl e \<Rightarrow> Inl e
              | Inr s \<Rightarrow>
                  (let dd = \<lparr>config = cfg5, samples = s, windowStartTime = 0\<rparr>
                   in Inr (dd\<lparr>windowStartTime := fst (calculateWindow dd now)\<rparr>))))"

definition elapsedSlices :: "deviceData \<Rightarrow> Time \<Rightarrow> Time \<Rightarrow> panic + int" where
  "elapsedSlices d now start = go_div (Time_Sub now start) (Granularity (config d))"

definition getIndex :: "deviceData \<Rightarrow> Time \<Rightarrow> Time \<Rightarrow> panic + int" where
  "getIndex d now bufferStart =
     (case elapsedSlices d now bufferStart of
        Inl e \<Rightarrow> Inl e
      | Inr elapsed \<Rightarrow>
          (case go_rem elapsed (SampleSize (config d)) of
             Inl e \<Rightarrow> Inl e
           | Inr r \<Rightarrow> go_rem (wrap64 (r + SampleSize (config d))) (SampleSize (config d))))"

definition syncWindow :: "deviceData \<Rightarrow> Time \<Rightarrow> panic + deviceData" where
  "syncWindow d now =
     (case elapsedSlices d now (windowStartTime d) of
        Inl e \<Rightarrow> Inl e
      | Inr elapsed \<Rightarrow>
          if SampleSize (config d) \<le> elapsed \<or> elapsed < 0
          then Inr (d\<lparr>samples := map (\<lambda>_. False) (samples d),
                      windowStartTime := fst (calculateWindow d now)\<rparr>)
          else Inr d)"


text \<open>
  \<open>dd.samples[index] = true\<close>: an index outside the slice panics.
\<close>

definition setSample :: "deviceData \<Rightarrow> int \<Rightarrow> panic + deviceData" where
  "setSample d index =
     (if 0 \<le> index \<and> nat index < length (samples d)
      then Inr (d\<lparr>samples := (samples d)[nat index := True]\<rparr>)
      else Inl IndexOutOfRange)"

text \<open>The counting loop of \<open>HasExceededThreshold\<close>: one increment per sample seen.\<close>

fun countSeen :: "bool list \<Rightarrow> int" where
  "countSeen [] = 0"
| "countSeen (seen # rest) = (if seen then 1 + countSeen rest else countSeen rest)"

section \<open>Usage tracker: the tracker and its operations\<close>

text \<open>
  The tracker holds the global defaults, the per-group configuration and the device data by
  group. Every operation takes the clock readings it makes as arguments. A panic is the
  result \<open>Inl\<close>; the state a panicking call leaves behind is not modelled. Log lines of
  the tracker are left out: no claim is about them.
\<close>

record Tracker =
  cfgTrackerDefaults :: TrackerConfig
  cfgGroups :: "string \<rightharpoonup> TrackerConfig"
  devices :: "string \<rightharpoonup> deviceData"

definition getDefaultGroupTrackerConfig :: "TrackerConfig \<Rightarrow> panic + TrackerConfig" where
  "getDefaultGroupTrackerConfig t =
     (case getSampleSize t of
        Inl e \<Rightarrow> Inl e
      | Inr n \<Rightarrow>
          Inr \<lparr>Granularity = Granularity t, Retention = Retention t, Threshold = Threshold t,
               StartDayInt = StartDayInt t, StartDuration = StartDuration t,
               SampleFilePath = [], SampleFileSaveInterval = 0, SampleSize = n,
               Mode = ModeMonitor, ModeEndTime = 0\<rparr>)"

text \<open>
  \<open>AddSample\<close>. The group's configuration is a pointer that \<open>newDeviceData\<close> normalises
  in place before copying it into the device, so the configuration kept for the group
  afterwards is the one the fresh device holds. \<open>LoadOrStore\<close> evaluates
  \<open>newDeviceData\<close> whether or not the group already has a device.
\<close>

definition expireMode :: "deviceData \<Rightarrow> Time \<Rightarrow> deviceData" where
  "expireMode d now =
     (if (Mode (config d) = ModeAllow \<or> Mode (config d) = ModeBlock)
         \<and> Time_Before (ModeEndTime (config d)) now
      then d\<lparr>config := (config d)\<lparr>Mode := ModeMonitor\<rparr>\<rparr>
      else d)"

definition refreshDevice :: "Time \<Rightarrow> TrackerConfig \<Rightarrow> deviceData \<Rightarrow> panic + deviceData" where
  "refreshDevice now cfg dd0 =
     (case (if SampleSize (config dd0) \<noteq> SampleSize cfg \<or> Threshold (config dd0) \<noteq> Threshold cfg
            then (case newDeviceData now cfg of
                    Inl e \<Rightarrow> Inl e
                  | Inr dd1 \<Rightarrow>
                      Inr (dd1\<lparr>config := (config dd1)\<lparr>Mode := Mode (config dd0),
                                                     ModeEndTime := ModeEndTime (config dd0)\<rparr>\<rparr>))
            else Inr dd0) of
        Inl e \<Rightarrow> Inl e
      | Inr dd2 \<Rightarrow>
          Inr (if StartDuration cfg \<noteq> StartDuration (config dd2)
                  \<or> StartDayInt cfg \<noteq> StartDayInt (config dd2)
               then dd2\<lparr>config := (config dd2)\<lparr>StartDuration := StartDuration cfg,
                                                StartDayInt := StartDayInt cfg\<rparr>\<rparr>
               else dd2))"

definition markSample :: "deviceData \<Rightarrow> Time \<Rightarrow> panic + deviceData" where
  "markSample dd now =
     (case syncWindow dd now of
        Inl e \<Rightarrow> Inl e
      | Inr dd' \<Rightarrow>
          (case getIndex dd' now (windowStartTime dd') of
             Inl e \<Rightarrow> Inl e
           | Inr index \<Rightarrow> setSample dd' index))"

definition AddSample :: "Time \<Rightarrow> string \<Rightarrow> bool \<Rightarrow> Tracker \<Rightarrow> panic + Tracker" where
  "AddSample now ident active t =
     (case (case cfgGroups t ident of
              Some c \<Rightarrow> Inr c
            | None \<Rightarrow> getDefaultGroupTrackerConfig (cfgTrackerDefaults t)) of
        Inl e \<Rightarrow> Inl e
      | Inr cfg0 \<Rightarrow>
          (case newDeviceData now cfg0 of
             Inl e \<Rightarrow> Inl e
           | Inr fresh \<Rightarrow>
               (let cfg = config fresh in
                case (case devices t ident of
                        None \<Rightarrow> Inr fresh
                      | Some dd0 \<Rightarrow> refreshDevice now cfg dd0) of
                  Inl e \<Rightarrow> Inl e
                | Inr dd \<Rightarrow>
                    (case (if active \<and> Mode (config dd) = ModeMonitor
                           then markSample dd now else Inr dd) of
                       Inl e \<Rightarrow> Inl e
                     | Inr dd3 \<Rightarrow>
                         Inr (t\<lparr>cfgGroups := (cfgGroups t)(ident \<mapsto> cfg),
                                 devices := (devices t)(ident \<mapsto> expireMode dd3 now)\<rparr>)))))"

text \<open>
  \<open>HasExceededThreshold\<close> reads \<open>time.Now()\<close> up to twice: once in the mode test that
  applies (\<open>nowMode\<close>), once for the window synchronisation (\<open>nowSync\<close>). The product of
  the count and the granularity is a \<open>Duration\<close> product and wraps.
\<close>

definition HasExceededThreshold ::
  "Time \<Rightarrow> Time \<Rightarrow> string \<Rightarrow> Tracker \<Rightarrow> panic + (bool \<times> Tracker)" where
  "HasExceededThreshold nowMode nowSync ident t =
     (case devices t ident of
        None \<Rightarrow> Inr (False, t)
      | Some dd \<Rightarrow>
          if Mode (config dd) = ModeAllow \<and> Time_Before nowMode (ModeEndTime (config dd))
          then Inr (False, t)
          else if Mode (config dd) = ModeBlock \<and> Time_Before nowMode (ModeEndTime (config dd))
          then Inr (True, t)
          else
            (case syncWindow dd nowSync of
               Inl e \<Rightarrow> Inl e
             | Inr dd' \<Rightarrow>
                 Inr (Threshold (config dd') \<le> wrap64 (countSeen (samples dd') * Granularity (config dd')),
                      t\<lparr>devices := (devices t)(ident \<mapsto> dd')\<rparr>)))"

text \<open>
  \<open>loadSamples\<close> reads the samples file. The file's JSON object is an input: the parse
  error, or the entries by group with their optional configuration, samples and window
  start as written. An entry without configuration gets the defaults of the application's
  tracker configuration. Nothing compares the number of samples of an entry with the
  sample size of its configuration.
\<close>

record deviceDataDTO =
  Config :: "TrackerConfig option"
  Samples :: "bool list"
  WindowStartTime :: Time

definition loadDevice :: "TrackerConfig \<Rightarrow> deviceDataDTO \<Rightarrow> panic + deviceData" where
  "loadDevice appCfg v =
     (case (case Config v of
              None \<Rightarrow> getDefaultGroupTrackerConfig appCfg
            | Some c \<Rightarrow> Inr c) of
        Inl e \<Rightarrow> Inl e
      | Inr c \<Rightarrow> Inr \<lparr>config = c, samples = Samples v, windowStartTime = WindowStartTime v\<rparr>)"

fun storeDevices ::
  "TrackerConfig \<Rightarrow> (string \<times> deviceDataDTO) list \<Rightarrow> (string \<rightharpoonup> deviceData)
     \<Rightarrow> panic + (string \<rightharpoonup> deviceData)" where
  "storeDevices appCfg [] m = Inr m"
| "storeDevices appCfg ((k, v) # rest) m =
     (case loadDevice appCfg v of
        Inl e \<Rightarrow> Inl e
      | Inr d \<Rightarrow> storeDevices appCfg rest (m(k \<mapsto> d)))"

definition loadSamples ::
  "TrackerConfig \<Rightarrow> string + (string \<times> deviceDataDTO) list
     \<Rightarrow> panic + (string + (string \<rightharpoonup> deviceData))" where
  "loadSamples appCfg file =
     (case file of
        Inl err \<Rightarrow> Inr (Inl err)
      | Inr loadedData \<Rightarrow>
          (case storeDevices appCfg loadedData Map.empty of
             Inl e \<Rightarrow> Inl e
           | Inr m \<Rightarrow> Inr (Inr m)))"

text \<open>
  \<open>NewTracker\<close>. Inputs: the application's tracker configuration that \<open>loadSamples\<close>
  reads, the configuration passed (\<open>None\<close> for nil), the result of loading the group
  configuration (an error, or the map, \<open>None\<close> for a nil map), the result of locating the
  samples file, and the parse of that file. The devices loaded from the file become the
  tracker's devices as they are; a load error leaves the tracker without devices. The
  periodic save does not change the tracker and is left out.
\<close>

definition NewTracker ::
  "TrackerConfig \<Rightarrow> TrackerConfig option \<Rightarrow> string + (string \<rightharpoonup> TrackerConfig) option
     \<Rightarrow> string + string \<Rightarrow> string + (string \<times> deviceDataDTO) list
     \<Rightarrow> panic + (string + Tracker)" where
  "NewTracker appCfg cfgArg groupsLoaded samplesFile file =
     (case cfgArg of
        None \<Rightarrow> Inr (Inl ''logger and config must be provided'')
      | Some cfg \<Rightarrow>
          (case groupsLoaded of
             Inl err \<Rightarrow> Inr (Inl err)
           | Inr groups \<Rightarrow>
               (let t = \<lparr>cfgTrackerDefaults = cfg,
                         cfgGroups = (case groups of None \<Rightarrow> Map.empty | Some g \<Rightarrow> g),
                         devices = Map.empty\<rparr>
                in if SampleFilePath cfg \<noteq> []
                   then (case samplesFile of
                           Inl err \<Rightarrow> Inr (Inl err)
                         | Inr path \<Rightarrow>
                             (case loadSamples appCfg file of
                                Inl e \<Rightarrow> Inl e
                              | Inr (Inl err) \<Rightarrow> Inr (Inr t)
                              | Inr (Inr s) \<Rightarrow> Inr (Inr (t\<lparr>devices := s\<rparr>))))
                   else Inr (Inr t))))"

text \<open>
  The devices that \<open>newDeviceData\<close> created from a configuration of 64-bit fields,
  as the tracker's operations change them afterwards: a device is changed only by
  \<open>syncWindow\<close>, by marking a sample at a computed index, by \<open>AddSample\<close> copying the
  start day and start duration of the group's configuration, and by \<open>SetMode\<close> or the
  expiry of a mode changing \<open>Mode\<close> and \<open>ModeEndTime\<close>. A device that
  \<open>NewTracker\<close> took from the samples file is not among them: its configuration and
  samples are what the file holds, until \<open>AddSample\<close> replaces it by a created one.
\<close>

inductive created_device :: "deviceData \<Rightarrow> bool" where
  created: "int64_config cfg \<Longrightarrow> newDeviceData now cfg = Inr d \<Longrightarrow> created_device d"
| synced: "created_device d \<Longrightarrow> syncWindow d now = Inr d' \<Longrightarrow> created_device d'"
| marked: "created_device d \<Longrightarrow> getIndex d now start = Inr i \<Longrightarrow> setSample d i = Inr d'
           \<Longrightarrow> created_device d'"
| restarted: "created_device d \<Longrightarrow> is_int64 sd \<Longrightarrow> is_int64 day
           \<Longrightarrow> created_device (d\<lparr>config := (config d)\<lparr>StartDuration := sd, StartDayInt := day\<rparr>\<rparr>)"
| moded: "created_device d
           \<Longrightarrow> created_device (d\<lparr>config := (config d)\<lparr>Mode := m, ModeEndTime := e\<rparr>\<rparr>)"

text \<open>
  What every created device satisfies: a non-zero granularity, a sample size that is the
  truncated quotient of retention by granularity and within the allocation limit, one
  sample slot per unit of the sample size, and a 64-bit retention of at most seven days.
\<close>

definition device_inv :: "deviceData \<Rightarrow> bool" where
  "device_inv d \<longleftrightarrow>
     Granularity (config d) \<noteq> 0
     \<and> 0 \<le> SampleSize (config d)
     \<and> SampleSize (config d) \<le> maxAlloc
     \<and> length (samples d) = nat (SampleSize (config d))
     \<and> SampleSize (config d) = wrap64 (Retention (config d) sdiv Granularity (config d))
     \<and> Retention (config d) \<le> 7 * 24 * Hour
     \<and> is_int64 (Granularity (config d))
     \<and> is_int64 (Retention (config d))"

section \<open>Traffic monitor\<close>

text \<open>
  Identifiers are strings. A Go map whose length, iteration or element-wise comparison the
  code uses is an association list with distinct keys, in iteration order (which Go leaves
  unspecified); \<open>nil\<close> and the empty map are both the empty list.
\<close>

type_synonym Ip = string
type_synonym MAC = string
type_synonym Group = string
type_synonym Domain = string

datatype Direction = Ingress | Egress

text \<open>
  The per-minute average is a \<open>float64\<close> quotient that only the statistics log reads. It
  is kept as an exact rational, with the special values a zero divisor produces.
\<close>

datatype float64 = Finite rat | NaN | PosInf | NegInf

definition float64_div :: "int \<Rightarrow> int \<Rightarrow> float64" where
  "float64_div a b =
     (if b = 0 then (if a = 0 then NaN else if 0 < a then PosInf else NegInf)
      else Finite (of_int a / of_int b))"

definition bindP :: "panic + 'a \<Rightarrow> ('a \<Rightarrow> panic + 'b) \<Rightarrow> panic + 'b" where
  "bindP m f = (case m of Inl e \<Rightarrow> Inl e | Inr x \<Rightarrow> f x)"

definition idx_get :: "'a list \<Rightarrow> int \<Rightarrow> panic + 'a" where
  "idx_get xs i = (if 0 \<le> i \<and> nat i < length xs then Inr (xs ! nat i) else Inl IndexOutOfRange)"

definition idx_set :: "'a list \<Rightarrow> int \<Rightarrow> 'a \<Rightarrow> panic + 'a list" where
  "idx_set xs i v =
     (if 0 \<le> i \<and> nat i < length xs then Inr (xs[nat i := v]) else Inl IndexOutOfRange)"

definition make_ints :: "int \<Rightarrow> panic + int list" where
  "make_ints n =
     (if n < 0 \<or> maxAlloc div 8 < n then Inl MakesliceLenOutOfRange
      else Inr (replicate (nat n) 0))"

definition make_floats :: "int \<Rightarrow> panic + float64 list" where
  "make_floats n =
     (if n < 0 \<or> maxAlloc div 8 < n then Inl MakesliceLenOutOfRange
      else Inr (replicate (nat n) (Finite 0)))"

record ActivityMonitorConfig =
  ThresholdIngressEgressKB :: int
  EnableThresholdLogic :: bool

record MonitorConfig =
  PurgeStatsAfterDuration :: Duration

record trafficStats =
  monitorName :: string
  windowSize :: int
  totalCount :: "Direction \<Rightarrow> int"
  rollingCounts :: "Direction \<Rightarrow> int list"
  rollingPacketLenTotal :: "Direction \<Rightarrow> int list"
  rollingMinPacketLen :: "Direction \<Rightarrow> int list"
  rollingMaxPacketLen :: "Direction \<Rightarrow> int list"
  rollingAvgPacketLen :: "Direction \<Rightarrow> float64 list"
  lastMinuteIdx :: "Direction \<Rightarrow> int"
  isLastMinuteActive :: bool
  lastActiveTimeUTC :: Time

definition Time_Minute :: "Time \<Rightarrow> int" where
  "Time_Minute t = (t div Minute) mod 60"

definition newTrafficStats :: "Time \<Rightarrow> string \<Rightarrow> int \<Rightarrow> panic + trafficStats" where
  "newTrafficStats now name rollingWindowSize =
     bindP (make_ints rollingWindowSize) (\<lambda>zeros.
     bindP (make_floats rollingWindowSize) (\<lambda>fzeros.
       Inr \<lparr>monitorName = name, windowSize = rollingWindowSize,
            totalCount = (\<lambda>_. 0),
            rollingCounts = (\<lambda>_. zeros),
            rollingPacketLenTotal = (\<lambda>_. zeros),
            rollingMinPacketLen = (\<lambda>_. zeros),
            rollingMaxPacketLen = (\<lambda>_. zeros),
            rollingAvgPacketLen = (\<lambda>_. fzeros),
            lastMinuteIdx = (\<lambda>_. 0),
            isLastMinuteActive = True,
            lastActiveTimeUTC = now\<rparr>))"

text \<open>
  \<open>isActive\<close> reads the byte totals of the last minute in both directions; with
  \<open>logStats\<close> it also reads the other arrays at that index for the log line.
\<close>

definition isActive :: "ActivityMonitorConfig \<Rightarrow> trafficStats \<Rightarrow> int \<Rightarrow> bool \<Rightarrow> panic + bool" where
  "isActive amc a lastMinuteIndex logStats =
     bindP (idx_get (rollingPacketLenTotal a Ingress) lastMinuteIndex) (\<lambda>bytesIn.
     bindP (idx_get (rollingPacketLenTotal a Egress) lastMinuteIndex) (\<lambda>bytesOut.
       (let activeStatus =
              (if EnableThresholdLogic amc
               then ThresholdIngressEgressKB amc \<le> bytesIn \<and> bytesOut < bytesIn
               else 0 < bytesIn \<or> 0 < bytesOut)
        in if logStats
           then bindP (make_ints (windowSize a)) (\<lambda>deltas.
                bindP (if length (rollingPacketLenTotal a Egress)
                            < length (rollingPacketLenTotal a Ingress)
                          \<or> length deltas < length (rollingPacketLenTotal a Ingress)
                       then Inl IndexOutOfRange else Inr ()) (\<lambda>_.
                bindP (idx_get (rollingCounts a Ingress) lastMinuteIndex) (\<lambda>_.
                bindP (idx_get (rollingCounts a Egress) lastMinuteIndex) (\<lambda>_.
                bindP (idx_get (rollingMaxPacketLen a Ingress) lastMinuteIndex) (\<lambda>_.
                bindP (idx_get (rollingMaxPacketLen a Egress) lastMinuteIndex) (\<lambda>_.
                bindP (idx_get (rollingAvgPacketLen a Ingress) lastMinuteIndex) (\<lambda>_.
                bindP (idx_get (rollingAvgPacketLen a Egress) lastMinuteIndex) (\<lambda>_.
                bindP (idx_get deltas lastMinuteIndex) (\<lambda>_.
                  Inr activeStatus)))))))))
           else Inr activeStatus)))"

definition getLastMinuteIdx :: "int \<Rightarrow> int \<Rightarrow> int" where
  "getLastMinuteIdx currentIndex moduloSize =
     (if currentIndex = 0 then wrap64 (moduloSize - 1) else wrap64 (currentIndex - 1))"

text \<open>
  \<open>countTraffic\<close> of one statistics record. \<open>nowIdx\<close> is the clock reading whose minute
  selects the slot; \<open>nowActive\<close> is the reading taken when the last minute is found
  active.
\<close>

definition rollMinute ::
  "ActivityMonitorConfig \<Rightarrow> Time \<Rightarrow> int \<Rightarrow> Direction \<Rightarrow> int \<Rightarrow> int \<Rightarrow> trafficStats
     \<Rightarrow> panic + trafficStats" where
  "rollMinute amc nowActive packetLen dir currentMinuteIdx lastMinuteIndex a =
     bindP (idx_get (rollingPacketLenTotal a dir) lastMinuteIndex) (\<lambda>total.
     bindP (idx_get (rollingCounts a dir) lastMinuteIndex) (\<lambda>cnt.
     bindP (idx_set (rollingAvgPacketLen a dir) lastMinuteIndex (float64_div total cnt)) (\<lambda>avgs.
       (let a1 = a\<lparr>rollingAvgPacketLen := (rollingAvgPacketLen a)(dir := avgs)\<rparr> in
        bindP (isActive amc a1 lastMinuteIndex (dir = Ingress)) (\<lambda>active.
          (let a2 = a1\<lparr>isLastMinuteActive := active\<rparr>;
               a3 = (if active
                     then a2\<lparr>lastActiveTimeUTC := Time_Truncate nowActive Minute\<rparr> else a2)
           in
           bindP (idx_get (rollingCounts a3 dir) currentMinuteIdx) (\<lambda>old.
           bindP (idx_set (rollingMinPacketLen a3 dir) currentMinuteIdx packetLen) (\<lambda>mins.
           bindP (idx_set (rollingMaxPacketLen a3 dir) currentMinuteIdx packetLen) (\<lambda>maxs.
           bindP (idx_set (rollingCounts a3 dir) currentMinuteIdx 0) (\<lambda>counts.
           bindP (idx_set (rollingPacketLenTotal a3 dir) currentMinuteIdx 0) (\<lambda>totals.
             Inr (a3\<lparr>totalCount := (totalCount a3)(dir := wrap64 (totalCount a3 dir - old)),
                     rollingMinPacketLen := (rollingMinPacketLen a3)(dir := mins),
                     rollingMaxPacketLen := (rollingMaxPacketLen a3)(dir := maxs),
                     rollingCounts := (rollingCounts a3)(dir := counts),
                     rollingPacketLenTotal := (rollingPacketLenTotal a3)(dir := totals),
                     lastMinuteIdx := (lastMinuteIdx a3)
                        (dir := getLastMinuteIdx currentMinuteIdx (windowSize a3))\<rparr>))))))))))))"

definition addPacket :: "int \<Rightarrow> int \<Rightarrow> Direction \<Rightarrow> int \<Rightarrow> trafficStats \<Rightarrow> panic + trafficStats" where
  "addPacket count packetLen dir currentMinuteIdx a =
     bindP (idx_get (rollingCounts a dir) currentMinuteIdx) (\<lambda>c.
     bindP (idx_set (rollingCounts a dir) currentMinuteIdx (wrap64 (c + count))) (\<lambda>counts.
     bindP (idx_get (rollingPacketLenTotal a dir) currentMinuteIdx) (\<lambda>b.
     bindP (idx_set (rollingPacketLenTotal a dir) currentMinuteIdx (wrap64 (b + packetLen))) (\<lambda>totals.
     bindP (idx_get (rollingMaxPacketLen a dir) currentMinuteIdx) (\<lambda>mx.
     bindP (if mx < packetLen then idx_set (rollingMaxPacketLen a dir) currentMinuteIdx packetLen
            else Inr (rollingMaxPacketLen a dir)) (\<lambda>maxs.
     bindP (idx_get (rollingMinPacketLen a dir) currentMinuteIdx) (\<lambda>mn.
     bindP (if packetLen < mn then idx_set (rollingMinPacketLen a dir) currentMinuteIdx packetLen
            else Inr (rollingMinPacketLen a dir)) (\<lambda>mins.
       Inr (a\<lparr>rollingCounts := (rollingCounts a)(dir := counts),
               rollingPacketLenTotal := (rollingPacketLenTotal a)(dir := totals),
               totalCount := (totalCount a)(dir := wrap64 (totalCount a dir + count)),
               rollingMaxPacketLen := (rollingMaxPacketLen a)(dir := maxs),
               rollingMinPacketLen := (rollingMinPacketLen a)(dir := mins)\<rparr>)))))))))"

definition countTraffic ::
  "ActivityMonitorConfig \<Rightarrow> Time \<Rightarrow> Time \<Rightarrow> int \<Rightarrow> int \<Rightarrow> Direction \<Rightarrow> trafficStats
     \<Rightarrow> panic + (bool \<times> trafficStats)" where
  "countTraffic amc nowIdx nowActive count packetLen trafficDirection a =
     bindP (go_rem (Time_Minute nowIdx) (windowSize a)) (\<lambda>currentMinuteIdx.
       (let lastMinuteIndex = lastMinuteIdx a trafficDirection in
        bindP (go_rem (wrap64 (lastMinuteIndex + 1)) (windowSize a)) (\<lambda>next.
        bindP (if currentMinuteIdx \<noteq> next
               then rollMinute amc nowActive packetLen trafficDirection currentMinuteIdx
                      lastMinuteIndex a
               else Inr a) (\<lambda>a'.
        bindP (addPacket count packetLen trafficDirection currentMinuteIdx a') (\<lambda>a''.
          Inr (isLastMinuteActive a'', a''))))))"

record TrafficMap =
  rollingWindowSize :: int
  trafficMap :: "(string \<times> trafficStats) list"
  trafficMapLen :: int
  ipMACs :: "(Ip \<times> MAC) list"

definition defaultTrafficMapKeySeparator :: char where
  "defaultTrafficMapKeySeparator = CHR ''/''"

definition getTrafficMapKey :: "Group \<Rightarrow> MAC \<Rightarrow> string" where
  "getTrafficMapKey grp mac = grp @ [defaultTrafficMapKeySeparator] @ mac"

text \<open>\<open>strings.Split\<close> on a one-character separator: the pieces between its occurrences.\<close>

fun splitOn :: "char \<Rightarrow> string \<Rightarrow> string list" where
  "splitOn sep [] = [[]]"
| "splitOn sep (c # cs) =
     (if c = sep then [] # splitOn sep cs
      else (case splitOn sep cs of
              [] \<Rightarrow> [[c]]
            | piece # pieces \<Rightarrow> (c # piece) # pieces))"

definition getTrafficMapMACFromKey :: "string \<Rightarrow> panic + MAC" where
  "getTrafficMapMACFromKey key = idx_get (splitOn defaultTrafficMapKeySeparator key) 1"

text \<open>
  \<open>CountTraffic\<close>. \<open>nowCreate\<close> is the clock reading of \<open>newTrafficStats\<close>, which
  \<open>LoadOrStore\<close> evaluates on every call that finds a MAC for the address.
\<close>

definition CountTraffic ::
  "ActivityMonitorConfig \<Rightarrow> Time \<Rightarrow> Time \<Rightarrow> Time \<Rightarrow> Group \<Rightarrow> Ip \<Rightarrow> Direction \<Rightarrow> int \<Rightarrow> int
     \<Rightarrow> TrafficMap \<Rightarrow> panic + (bool \<times> TrafficMap)" where
  "CountTraffic amc nowCreate nowIdx nowActive grp ip direction count packetLen t =
     (case map_of (ipMACs t) ip of
        None \<Rightarrow> Inr (True, t)
      | Some mac \<Rightarrow>
          (let key = getTrafficMapKey grp mac in
           bindP (newTrafficStats nowCreate key (rollingWindowSize t)) (\<lambda>fresh.
             (let loaded = map_of (trafficMap t) key;
                  tm = (case loaded of Some v \<Rightarrow> v | None \<Rightarrow> fresh);
                  t1 = (case loaded of
                          Some v \<Rightarrow> t
                        | None \<Rightarrow> t\<lparr>trafficMap := trafficMap t @ [(key, fresh)],
                                     trafficMapLen := wrap64 (trafficMapLen t + 1)\<rparr>)
              in bindP (countTraffic amc nowIdx nowActive count packetLen direction tm)
                   (\<lambda>(active, tm').
                      Inr (active,
                           t1\<lparr>trafficMap :=
                                 map (\<lambda>(k, v). if k = key then (k, tm') else (k, v))
                                   (trafficMap t1)\<rparr>))))))"

text \<open>
  \<open>UpdateSourceIpMACs\<close>: the \<open>Range\<close> loop visits every entry once; an entry whose key's
  MAC is not a value of the new map and whose last activity is before the cut-off is
  deleted and the tracked length decremented.
\<close>

fun purgeStale ::
  "(Ip \<times> MAC) list \<Rightarrow> Time \<Rightarrow> (string \<times> trafficStats) list \<Rightarrow> int
     \<Rightarrow> panic + ((string \<times> trafficStats) list \<times> int)" where
  "purgeStale newData minAllowedTime [] n = Inr ([], n)"
| "purgeStale newData minAllowedTime ((key, v) # rest) n =
     bindP (getTrafficMapMACFromKey key) (\<lambda>keyMac.
       (let macExists = (keyMac \<in> set (map snd newData));
            stale = (\<not> macExists \<and> Time_Before (lastActiveTimeUTC v) minAllowedTime)
        in bindP (purgeStale newData minAllowedTime rest (if stale then wrap64 (n - 1) else n))
             (\<lambda>(kept, n'). Inr (if stale then kept else (key, v) # kept, n'))))"

definition UpdateSourceIpMACs ::
  "MonitorConfig \<Rightarrow> Time \<Rightarrow> (Ip \<times> MAC) list \<Rightarrow> TrafficMap \<Rightarrow> panic + TrafficMap" where
  "UpdateSourceIpMACs mc now newData t =
     (let t1 = t\<lparr>ipMACs := newData\<rparr>;
          minAllowedTime = Time_Add now (wrap64 (- PurgeStatsAfterDuration mc))
      in if int (length newData) \<noteq> trafficMapLen t1
         then bindP (purgeStale newData minAllowedTime (trafficMap t1) (trafficMapLen t1))
                (\<lambda>(kept, n). Inr (t1\<lparr>trafficMap := kept, trafficMapLen := n\<rparr>))
         else Inr t1)"

section \<open>Group manager\<close>

text \<open>
  The manager's four snapshots are only looked up by key. The package-level flag
  \<open>managerModeMatchAllSourceIps\<close>, which the net watcher sets, is an argument.
\<close>

record Manager =
  sourceIpGroups :: "Ip \<rightharpoonup> Group list"
  destIpGroups :: "Ip \<rightharpoonup> Group list"
  destIpDomains :: "Ip \<rightharpoonup> Domain"
  destDomainGroups :: "Domain \<rightharpoonup> Group list"

definition getMetaSrcIpDestGroup :: "Ip \<Rightarrow> Group \<Rightarrow> Group" where
  "getMetaSrcIpDestGroup srcIp dstGroup = srcIp @ ''/'' @ dstGroup"

definition isSrcIpGroupKnown :: "Manager \<Rightarrow> Ip \<Rightarrow> Group list \<times> bool" where
  "isSrcIpGroupKnown m ip =
     (case sourceIpGroups m ip of None \<Rightarrow> ([], False) | Some groups \<Rightarrow> (groups, True))"

definition isDstIpGroupKnown :: "Manager \<Rightarrow> Ip \<Rightarrow> Group list \<times> bool" where
  "isDstIpGroupKnown m ip =
     (case destIpGroups m ip of None \<Rightarrow> ([], False) | Some groups \<Rightarrow> (groups, True))"

definition IsSrcDestIpKnown :: "bool \<Rightarrow> Manager \<Rightarrow> Ip \<Rightarrow> Ip \<Rightarrow> Group list \<times> bool" where
  "IsSrcDestIpKnown managerModeMatchAllSourceIps m srcIp dstIp =
     (if managerModeMatchAllSourceIps
      then (case isDstIpGroupKnown m dstIp of
              (dstGroup, True) \<Rightarrow> (map (getMetaSrcIpDestGroup srcIp) dstGroup, True)
            | (dstGroup, False) \<Rightarrow> ([], False))
      else (case (isSrcIpGroupKnown m srcIp, isDstIpGroupKnown m dstIp) of
              ((srcGroup, srcOk), (dstGroup, dstOk)) \<Rightarrow>
                if \<not> srcOk \<or> \<not> dstOk then ([], False) else (srcGroup, True)))"

section \<open>Packet filter\<close>

text \<open>
  The verdicts of the queue library, the levels of the logger, and the filter's
  configuration. The drop and delay percentages are \<open>float32\<close> and the random draws are
  floating-point numbers in \<open>[0, 1)\<close>; both are exact rationals here, and the draws are a
  stream \<open>rnd\<close> read at a position that each draw advances.
\<close>

datatype Verdict = NfDrop | NfAccept | NfStolen | NfQeueue | NfRepeat

datatype Level = DebugLevel | InfoLevel | WarnLevel | ErrorLevel

record FilterConfig =
  PacketDropPercentage :: rat
  PacketDelayPercentage :: rat
  PacketDelayMs :: Duration
  PacketJitterMs :: Duration
  PacketDropUDP :: bool
  OutboundQueueNumber :: nat
  InboundQueueNumber :: nat

record Attribute =
  PacketID :: "32 word"
  Payload :: "8 word list option"

record packetIPs =
  src :: "8 word list"
  dst :: "8 word list"

definition getPacketIPs :: "Attribute \<Rightarrow> string + (packetIPs \<times> int)" where
  "getPacketIPs a =
     (case Payload a of
        None \<Rightarrow> Inl ''payload is nil''
      | Some payload \<Rightarrow>
          if length payload < 20 then Inl ''payload too short for IPv4 header''
          else Inr (\<lparr>src = take 4 (drop 12 payload), dst = take 4 (drop 16 payload)\<rparr>,
                    int (length payload)))"

text \<open>\<open>net.IP.String\<close> of a four-byte address: the bytes in decimal, joined by dots.\<close>

definition digit :: "nat \<Rightarrow> char" where
  "digit n = ''0123456789'' ! n"

definition byteString :: "8 word \<Rightarrow> string" where
  "byteString b =
     (let n = unat b in
      if n < 10 then [digit n]
      else if n < 100 then [digit (n div 10), digit (n mod 10)]
      else [digit (n div 100), digit (n div 10 mod 10), digit (n mod 10)])"

fun joinDots :: "string list \<Rightarrow> string" where
  "joinDots [] = []"
| "joinDots [s] = s"
| "joinDots (s # rest) = s @ ''.'' @ joinDots rest"

definition IP_String :: "8 word list \<Rightarrow> Ip" where
  "IP_String ip = joinDots (map byteString ip)"

text \<open>
  \<open>ApplyJitter\<close>: the jitter is the draw scaled to \<open>[-jitterRange, +jitterRange)\<close> and
  truncated towards zero by the conversion to \<open>Duration\<close>; a negative total is zero.
\<close>

definition truncate_rat :: "rat \<Rightarrow> int" where
  "truncate_rat x = (if 0 \<le> x then \<lfloor>x\<rfloor> else \<lceil>x\<rceil>)"

definition ApplyJitter :: "Duration \<Rightarrow> Duration \<Rightarrow> rat \<Rightarrow> Duration" where
  "ApplyJitter baseDelayMs jitterRangeMs u =
     (let jitter = truncate_rat ((u * 2 - 1) * of_int jitterRangeMs);
          totalDelay = wrap64 (baseDelayMs + jitter)
      in if totalDelay < 0 then 0 else totalDelay)"

text \<open>
  The filter reaches the group manager, the traffic counter and the usage tracker through
  interfaces. An implementation is a set of functions over a state of its own; a call of
  the counter or the tracker may panic. The handler runs under a deferred recovery
  function, so a panic ends it at once: what it logged and emitted so far stands, and the
  recovery function logs the panic.
\<close>

record 's Collaborators =
  gmIsSrcDestIpKnown :: "'s \<Rightarrow> Ip \<Rightarrow> Ip \<Rightarrow> Group list \<times> bool"
  tcCountTraffic :: "Group \<Rightarrow> Ip \<Rightarrow> Direction \<Rightarrow> int \<Rightarrow> int \<Rightarrow> 's \<Rightarrow> panic + (bool \<times> 's)"
  utAddSample :: "string \<Rightarrow> bool \<Rightarrow> 's \<Rightarrow> panic + 's"
  utHasExceededThreshold :: "string \<Rightarrow> 's \<Rightarrow> panic + (bool \<times> 's)"

datatype call = CallIsSrcDestIpKnown | CallCountTraffic | CallAddSample | CallHasExceededThreshold

text \<open>
  What one run of the handler produced: the collaborators' state, the position in the
  random stream, the verdict variable, the decision logged for each group, the sleeps
  made, the collaborator calls made and the log lines written, each in order.
\<close>

record 's run =
  world :: 's
  rng :: nat
  verdict :: Verdict
  decisions :: "string list"
  sleeps :: "Duration list"
  calls :: "call list"
  logs :: "(Level \<times> string) list"

text \<open>
  The body of the loop over the matched groups. The drop test draws before it looks at
  the protocol; the delay test draws only when a delay is configured.
\<close>

definition degrade :: "FilterConfig \<Rightarrow> string \<Rightarrow> (nat \<Rightarrow> rat) \<Rightarrow> 's run \<Rightarrow> string \<times> 's run" where
  "degrade cfg proto rnd r =
     (let u1 = rnd (rng r); r1 = r\<lparr>rng := rng r + 1\<rparr> in
      if u1 < PacketDropPercentage cfg \<or> (proto = ''UDP'' \<and> PacketDropUDP cfg)
      then (''drop'', r1\<lparr>verdict := NfDrop\<rparr>)
      else if 0 < PacketDelayMs cfg
      then (let u2 = rnd (rng r1); r2 = r1\<lparr>rng := rng r1 + 1\<rparr> in
            if u2 < PacketDelayPercentage cfg
            then (let u3 = rnd (rng r2);
                      d = ApplyJitter (PacketDelayMs cfg) (PacketJitterMs cfg) u3
                  in (''delay'', r2\<lparr>rng := rng r2 + 1, sleeps := sleeps r2 @ [d]\<rparr>))
            else (''accept'', r2))
      else (''accept'', r1))"

definition handleGroup ::
  "FilterConfig \<Rightarrow> Direction \<Rightarrow> 's Collaborators \<Rightarrow> (nat \<Rightarrow> rat) \<Rightarrow> string \<Rightarrow> Ip \<Rightarrow> int
     \<Rightarrow> Group \<Rightarrow> 's run \<Rightarrow> panic \<times> 's run + 's run" where
  "handleGroup cfg direction col rnd proto srcIp l grp r =
     (let r0 = r\<lparr>calls := calls r @ [CallCountTraffic]\<rparr> in
      case tcCountTraffic col grp srcIp direction 1 l (world r0) of
        Inl e \<Rightarrow> Inl (e, r0)
      | Inr (active, s1) \<Rightarrow>
          (let r1 = r0\<lparr>world := s1, calls := calls r0 @ [CallAddSample]\<rparr> in
           case utAddSample col grp active s1 of
             Inl e \<Rightarrow> Inl (e, r1)
           | Inr s2 \<Rightarrow>
               (let r2 = r1\<lparr>world := s2, calls := calls r1 @ [CallHasExceededThreshold]\<rparr> in
                case utHasExceededThreshold col grp s2 of
                  Inl e \<Rightarrow> Inl (e, r2)
                | Inr (exceeded, s3) \<Rightarrow>
                    (let r3 = r2\<lparr>world := s3\<rparr>;
                         (decision, r4) =
                           (if exceeded then degrade cfg proto rnd r3 else (''accept'', r3))
                     in Inr (r4\<lparr>decisions := decisions r4 @ [decision],
                                 logs := logs r4 @ [(DebugLevel, ''handled packet'')]\<rparr>)))))"

fun handleGroups ::
  "FilterConfig \<Rightarrow> Direction \<Rightarrow> 's Collaborators \<Rightarrow> (nat \<Rightarrow> rat) \<Rightarrow> string \<Rightarrow> Ip \<Rightarrow> int
     \<Rightarrow> Group list \<Rightarrow> 's run \<Rightarrow> panic \<times> 's run + 's run" where
  "handleGroups cfg direction col rnd proto srcIp l [] r = Inr r"
| "handleGroups cfg direction col rnd proto srcIp l (grp # rest) r =
     (case handleGroup cfg direction col rnd proto srcIp l grp r of
        Inl p \<Rightarrow> Inl p
      | Inr r' \<Rightarrow> handleGroups cfg direction col rnd proto srcIp l rest r')"

text \<open>
  The panic that ends a run, read off the collaborators alone: the calls of the traffic
  counter and the usage tracker that the loop makes for the matched groups, in its order
  and each on the state the call before it left, up to the first one that panics.
  \<open>None\<close> says that no call of the run panics.
\<close>

fun firstPanic ::
  "'s Collaborators \<Rightarrow> Ip \<Rightarrow> Direction \<Rightarrow> int \<Rightarrow> Group list \<Rightarrow> 's \<Rightarrow> panic option" where
  "firstPanic col srcIp direction l [] s = None"
| "firstPanic col srcIp direction l (grp # rest) s =
     (case tcCountTraffic col grp srcIp direction 1 l s of
        Inl e \<Rightarrow> Some e
      | Inr (active, s1) \<Rightarrow>
          (case utAddSample col grp active s1 of
             Inl e \<Rightarrow> Some e
           | Inr s2 \<Rightarrow>
               (case utHasExceededThreshold col grp s2 of
                  Inl e \<Rightarrow> Some e
                | Inr (exceeded, s3) \<Rightarrow> firstPanic col srcIp direction l rest s3)))"

text \<open>
  What holds of a run between two groups: the verdict variable is drop exactly when a drop
  was decided, it is accept otherwise, every decision logged is one of the three, and one
  sleep was made per delay decided.
\<close>

definition run_consistent :: "'s run \<Rightarrow> bool" where
  "run_consistent r \<longleftrightarrow>
     (verdict r = NfDrop) = (''drop'' \<in> set (decisions r))
     \<and> (verdict r = NfAccept \<or> verdict r = NfDrop)
     \<and> set (decisions r) \<subseteq> {''accept'', ''delay'', ''drop''}
     \<and> length (sleeps r) = length (filter (\<lambda>d. d = ''delay'') (decisions r))"

text \<open>
  The sleeps the handler can make: \<open>ApplyJitter\<close> of the configured delay and jitter at
  a draw of the stream, and only when a delay is configured.
\<close>

definition jitterValues :: "FilterConfig \<Rightarrow> (nat \<Rightarrow> rat) \<Rightarrow> Duration set" where
  "jitterValues cfg rnd =
     {d. 0 < PacketDelayMs cfg
         \<and> (\<exists>u \<in> range rnd. d = ApplyJitter (PacketDelayMs cfg) (PacketJitterMs cfg) u)}"

text \<open>
  The result of the handler: its return value, the verdicts written to the queue with
  their packet ids, the panic the recovery function caught if there was one, and the run.
  \<open>setVerdictFails\<close> says whether the write of the verdict returns an error.
\<close>

record 's handled =
  retval :: int
  verdicts :: "(32 word \<times> Verdict) list"
  recovered :: "panic option"
  outcome :: "'s run"

text \<open>
  The protocol byte at offset 9 of a payload that \<open>getPacketIPs\<close> accepted (at least 20
  bytes), and the two addresses as the classifier sees them: on the inbound queue source
  and destination are swapped, so that the source is the LAN device.
\<close>

definition protocolByte :: "Attribute \<Rightarrow> 8 word" where
  "protocolByte a = (case Payload a of Some payload \<Rightarrow> payload ! 9 | None \<Rightarrow> 0)"

definition protoName :: "8 word \<Rightarrow> string" where
  "protoName protocol =
     (if protocol = 6 then ''TCP'' else if protocol = 17 then ''UDP'' else ''proto-unknown'')"

definition classifierSrc :: "Direction \<Rightarrow> packetIPs \<Rightarrow> Ip" where
  "classifierSrc direction pips =
     (if direction = Egress then IP_String (src pips) else IP_String (dst pips))"

definition classifierDst :: "Direction \<Rightarrow> packetIPs \<Rightarrow> Ip" where
  "classifierDst direction pips =
     (if direction = Egress then IP_String (dst pips) else IP_String (src pips))"

definition fnPacketHandler ::
  "FilterConfig \<Rightarrow> Direction \<Rightarrow> 's Collaborators \<Rightarrow> (nat \<Rightarrow> rat) \<Rightarrow> nat \<Rightarrow> bool \<Rightarrow> Attribute
     \<Rightarrow> 's \<Rightarrow> 's handled" where
  "fnPacketHandler cfg direction col rnd k setVerdictFails a s =
     (let r0 = \<lparr>world = s, rng = k, verdict = NfAccept, decisions = [], sleeps = [],
                calls = [], logs = []\<rparr>;
          verdictError = (if setVerdictFails then [(ErrorLevel, ''Error setting verdict'')] else [])
      in case getPacketIPs a of
           Inl err \<Rightarrow>
             \<lparr>retval = 0, verdicts = [(PacketID a, NfAccept)], recovered = None,
              outcome = r0\<lparr>logs := [(ErrorLevel, ''Error getting packet data'')] @ verdictError\<rparr>\<rparr>
         | Inr (pips, l) \<Rightarrow>
             (let proto = protoName (protocolByte a);
                  srcIp = classifierSrc direction pips;
                  dstIp = classifierDst direction pips;
                  (groups, ok) = gmIsSrcDestIpKnown col s srcIp dstIp;
                  r1 = r0\<lparr>calls := [CallIsSrcDestIpKnown]\<rparr>
              in case (if ok then handleGroups cfg direction col rnd proto srcIp l groups r1
                       else Inr (r1\<lparr>logs := [(DebugLevel, ''Accept unregistered'')]\<rparr>)) of
                   Inl (e, r) \<Rightarrow>
                     \<lparr>retval = 0, verdicts = [], recovered = Some e,
                      outcome = r\<lparr>logs := logs r @ [(ErrorLevel, ''Recovered from panic'')]\<rparr>\<rparr>
                 | Inr r \<Rightarrow>
                     \<lparr>retval = 0, verdicts = [(PacketID a, verdict r)], recovered = None,
                      outcome = r\<lparr>logs := logs r @ verdictError\<rparr>\<rparr>))"

text \<open>
  The production implementations behind the interfaces: the group manager, the traffic
  monitor and the usage tracker modelled above, at one instant \<open>now\<close> of the clock.
\<close>

record World =
  wMatchAll :: bool
  wManager :: Manager
  wTraffic :: TrafficMap
  wTracker :: Tracker

definition production :: "ActivityMonitorConfig \<Rightarrow> Time \<Rightarrow> World Collaborators" where
  "production amc now =
     \<lparr>gmIsSrcDestIpKnown = (\<lambda>w srcIp dstIp. IsSrcDestIpKnown (wMatchAll w) (wManager w) srcIp dstIp),
      tcCountTraffic = (\<lambda>grp ip direction count packetLen w.
         case CountTraffic amc now now now grp ip direction count packetLen (wTraffic w) of
           Inl e \<Rightarrow> Inl e
         | Inr (active, t) \<Rightarrow> Inr (active, w\<lparr>wTraffic := t\<rparr>)),
      utAddSample = (\<lambda>ident active w.
         case AddSample now ident active (wTracker w) of
           Inl e \<Rightarrow> Inl e
         | Inr t \<Rightarrow> Inr (w\<lparr>wTracker := t\<rparr>)),
      utHasExceededThreshold = (\<lambda>ident w.
         case HasExceededThreshold now now ident (wTracker w) of
           Inl e \<Rightarrow> Inl e
         | Inr (exceeded, t) \<Rightarrow> Inr (exceeded, w\<lparr>wTracker := t\<rparr>))\<rparr>"

section \<open>Go maps that are iterated\<close>

text \<open>
  Assignment to a key of a map kept as an association list: an existing key keeps its
  place, a new key goes last. \<open>maps.Copy\<close> assigns every entry of the source.
\<close>

fun put :: "'k \<Rightarrow> 'v \<Rightarrow> ('k \<times> 'v) list \<Rightarrow> ('k \<times> 'v) list" where
  "put k v [] = [(k, v)]"
| "put k v ((k', v') # rest) = (if k = k' then (k, v) # rest else (k', v') # put k v rest)"

definition maps_Copy :: "('k \<times> 'v) list \<Rightarrow> ('k \<times> 'v) list \<Rightarrow> ('k \<times> 'v) list" where
  "maps_Copy older newer = fold (\<lambda>(k, v). put k v) newer older"

definition maps_Equal :: "('k \<times> 'v) list \<Rightarrow> ('k \<times> 'v) list \<Rightarrow> bool" where
  "maps_Equal m1 m2 \<longleftrightarrow>
     length m1 = length m2 \<and> list_all (\<lambda>(k, v). map_of m2 k = Some v) m1"

section \<open>Domain watcher\<close>

text \<open>
  One tick of the domain watcher. The loader's result and the DNS answers of the tick are
  inputs: \<open>lookup\<close> gives the addresses of a domain, or \<open>None\<close> when the lookup fails.
  Receivers are counted, and every call of a receiver is a publication. A loader error
  ends the process (\<open>Fatalf\<close>).
\<close>

record DomainWatcher =
  groupDomains :: "(Group \<times> Domain list) list"
  dwDestIpDomains :: "(Ip \<times> Domain) list"
  dwDestIpGroups :: "(Ip \<times> Group list) list"
  dwDestDomainGroups :: "(Domain \<times> Group list) list"
  destIpDomainReceivers :: nat
  destIpGroupReceivers :: nat
  destDomainGroupsReceivers :: nat

datatype dwPublication =
    UpdateDestDomainGroups nat "(Domain \<times> Group list) list"
  | UpdateDestIpDomains nat "(Ip \<times> Domain) list"
  | UpdateDestIpGroups nat "(Ip \<times> Group list) list"

definition NewDomainWatcher :: DomainWatcher where
  "NewDomainWatcher =
     \<lparr>groupDomains = [], dwDestIpDomains = [], dwDestIpGroups = [], dwDestDomainGroups = [],
      destIpDomainReceivers = 0, destIpGroupReceivers = 0, destDomainGroupsReceivers = 0\<rparr>"

text \<open>
  The resolver: every address of every domain that resolved, in the order the lookups
  finished (the order of \<open>domains\<close> here), merged with the last one winning.
\<close>

definition resolveDomains :: "(Domain \<Rightarrow> Ip list option) \<Rightarrow> Domain list \<Rightarrow> (Ip \<times> Domain) list" where
  "resolveDomains lookup domains =
     (let allIPs = concat (map (\<lambda>d. case lookup d of
                                        None \<Rightarrow> []
                                      | Some ips \<Rightarrow> map (\<lambda>ip. (ip, d)) ips) domains)
      in fold (\<lambda>(ip, d). put ip d) allIPs [])"

definition appendTo :: "'k \<Rightarrow> 'v \<Rightarrow> ('k \<times> 'v list) list \<Rightarrow> ('k \<times> 'v list) list" where
  "appendTo k v m = put k ((case map_of m k of None \<Rightarrow> [] | Some vs \<Rightarrow> vs) @ [v]) m"

definition loadGroupDomains ::
  "string + (Group \<times> Domain list) list \<Rightarrow> DomainWatcher
     \<Rightarrow> string + (DomainWatcher \<times> dwPublication list)" where
  "loadGroupDomains loaded dw =
     (case loaded of
        Inl err \<Rightarrow> Inl err
      | Inr gd \<Rightarrow>
          (let pairs = concat (map (\<lambda>(grp, domains). map (\<lambda>domain. (domain, grp)) domains) gd);
               dg = fold (\<lambda>(domain, grp). appendTo domain grp) pairs (dwDestDomainGroups dw)
           in Inr (dw\<lparr>groupDomains := gd, dwDestDomainGroups := dg\<rparr>,
                   map (\<lambda>i. UpdateDestDomainGroups i dg) [0..<destDomainGroupsReceivers dw])))"

definition generateIPGroups :: "DomainWatcher \<Rightarrow> DomainWatcher" where
  "generateIPGroups dw =
     (let hits = concat (map (\<lambda>(grp, domains).
                    concat (map (\<lambda>domain.
                      map (\<lambda>(ip, resolvedDomain). (ip, grp))
                        (filter (\<lambda>(ip, resolvedDomain). resolvedDomain = domain)
                           (dwDestIpDomains dw))) domains)) (groupDomains dw))
      in dw\<lparr>dwDestIpGroups := fold (\<lambda>(ip, grp). appendTo ip grp) hits []\<rparr>)"

definition notifyReceivers :: "DomainWatcher \<Rightarrow> dwPublication list" where
  "notifyReceivers dw =
     map (\<lambda>i. UpdateDestIpDomains i (dwDestIpDomains dw)) [0..<destIpDomainReceivers dw]
     @ map (\<lambda>i. UpdateDestIpGroups i (dwDestIpGroups dw)) [0..<destIpGroupReceivers dw]"

definition domainTick ::
  "string + (Group \<times> Domain list) list \<Rightarrow> (Domain \<Rightarrow> Ip list option) \<Rightarrow> DomainWatcher
     \<Rightarrow> string + (DomainWatcher \<times> dwPublication list)" where
  "domainTick loaded lookup dw =
     (case loadGroupDomains loaded dw of
        Inl err \<Rightarrow> Inl err
      | Inr (dw1, pubs1) \<Rightarrow>
          (let merged = fold (\<lambda>(grp, domains) acc. maps_Copy acc (resolveDomains lookup domains))
                          (groupDomains dw1) (dwDestIpDomains dw1);
               dw2 = generateIPGroups (dw1\<lparr>dwDestIpDomains := merged\<rparr>)
           in Inr (dw2, pubs1 @ notifyReceivers dw2)))"

text \<open>The addresses a tick resolved: those of the domains of the loaded configuration.\<close>

definition resolvedIps :: "(Group \<times> Domain list) list \<Rightarrow> (Domain \<Rightarrow> Ip list option) \<Rightarrow> Ip set" where
  "resolvedIps gd lookup =
     set (concat (map (\<lambda>(grp, domains).
            concat (map (\<lambda>domain. case lookup domain of None \<Rightarrow> [] | Some ips \<Rightarrow> ips) domains)) gd))"

section \<open>Group-MACs configuration file\<close>

text \<open>
  The YAML document is the \<open>GroupMACsConfig\<close> it encodes: marshalling and unmarshalling
  are the library's and inverse to each other. A missing \<open>groups\<close> key is the nil map
  \<open>None\<close>. The file is absent, unreadable, or holds text.
\<close>

record NamedMAC =
  MAC :: string
  Name :: string

record GroupMACsConfig =
  Groups :: "(Group \<times> NamedMAC list) list option"
  UnusedMACs :: "NamedMAC list"

record FlatGroupMAC =
  flatGroup :: string
  flatMAC :: string
  flatName :: string

datatype fileText = EmptyText | Yaml GroupMACsConfig | Malformed

datatype configFile = Absent | Unreadable | Holds fileText

datatype loadError = ErrorGroupMacFileNotFound | ErrorUnmarshal | ErrorCreate

definition emptyGroupMACsConfig :: GroupMACsConfig where
  "emptyGroupMACsConfig = \<lparr>Groups = None, UnusedMACs = []\<rparr>"

definition NewGroup :: "string \<Rightarrow> string" where
  "NewGroup grp = filter (\<lambda>c. c \<noteq> CHR ''/'') grp"

definition toUpperChar :: "char \<Rightarrow> char" where
  "toUpperChar c =
     (case map_of (zip ''abcdefghijklmnopqrstuvwxyz'' ''ABCDEFGHIJKLMNOPQRSTUVWXYZ'') c of
        None \<Rightarrow> c
      | Some u \<Rightarrow> u)"

definition NewMAC :: "string \<Rightarrow> string" where
  "NewMAC mac = map toUpperChar (map (\<lambda>c. if c = CHR '':'' then CHR ''-'' else c) mac)"

text \<open>
  \<open>GetConfig\<close> returns the configuration with the error, and the file as it leaves it: a
  missing file is created empty.
\<close>

definition GetConfig :: "configFile \<Rightarrow> (GroupMACsConfig \<times> loadError option) \<times> configFile" where
  "GetConfig file =
     (case file of
        Absent \<Rightarrow> ((emptyGroupMACsConfig, None), Holds EmptyText)
      | Unreadable \<Rightarrow> ((emptyGroupMACsConfig, Some ErrorGroupMacFileNotFound), Unreadable)
      | Holds EmptyText \<Rightarrow> ((emptyGroupMACsConfig, None), file)
      | Holds (Yaml gc) \<Rightarrow> ((gc, None), file)
      | Holds Malformed \<Rightarrow> ((emptyGroupMACsConfig, Some ErrorUnmarshal), file))"

text \<open>
  \<open>SaveGroupMACs\<close> sorts the flat entries into groups and unused MACs, and marshals a
  configuration built from the groups.
\<close>

fun sortFlat ::
  "FlatGroupMAC list \<Rightarrow> (Group \<times> NamedMAC list) list \<Rightarrow> NamedMAC list
     \<Rightarrow> (Group \<times> NamedMAC list) list \<times> NamedMAC list" where
  "sortFlat [] groups unusedMACs = (groups, unusedMACs)"
| "sortFlat (f # rest) groups unusedMACs =
     (if flatGroup f \<noteq> [] \<and> flatMAC f \<noteq> []
      then sortFlat rest
             (appendTo (NewGroup (flatGroup f)) \<lparr>MAC = flatMAC f, Name = flatName f\<rparr> groups)
             unusedMACs
      else if flatMAC f \<noteq> []
      then sortFlat rest groups (unusedMACs @ [\<lparr>MAC = flatMAC f, Name = flatName f\<rparr>])
      else sortFlat rest groups unusedMACs)"

definition SaveGroupMACs :: "FlatGroupMAC list \<Rightarrow> configFile \<Rightarrow> configFile" where
  "SaveGroupMACs flatGroupMACs file =
     (let (groups, unusedMACs) = sortFlat flatGroupMACs [] [];
          gc = \<lparr>Groups = Some groups, UnusedMACs = []\<rparr>
      in Holds (Yaml gc))"

text \<open>
  What the claim expects to read back: the entries with a group under their sanitised
  group name and the entries without one as unused MACs, every MAC in canonical form.
\<close>

definition canonical :: "NamedMAC \<Rightarrow> NamedMAC" where
  "canonical m = m\<lparr>MAC := NewMAC (MAC m)\<rparr>"

definition expectedConfig :: "FlatGroupMAC list \<Rightarrow> GroupMACsConfig" where
  "expectedConfig flatGroupMACs =
     (let (groups, unusedMACs) = sortFlat flatGroupMACs [] []
      in \<lparr>Groups = Some (map (\<lambda>(grp, macs). (grp, map canonical macs)) groups),
          UnusedMACs = map canonical unusedMACs\<rparr>)"

section \<open>Net watcher\<close>

definition defaultGroupName :: Group where
  "defaultGroupName = ''default''"

definition isSpace :: "char \<Rightarrow> bool" where
  "isSpace c \<longleftrightarrow> c \<in> {CHR 0x09, CHR 0x0A, CHR 0x0B, CHR 0x0C, CHR 0x0D, CHR 0x20}"

text \<open>\<open>strings.Fields\<close>: the maximal runs of characters that are not white space.\<close>

fun fieldsFrom :: "string \<Rightarrow> string \<Rightarrow> string list" where
  "fieldsFrom cur [] = (if cur = [] then [] else [rev cur])"
| "fieldsFrom cur (c # cs) =
     (if isSpace c then (if cur = [] then fieldsFrom [] cs else rev cur # fieldsFrom [] cs)
      else fieldsFrom (c # cur) cs)"

definition Fields :: "string \<Rightarrow> string list" where
  "Fields s = fieldsFrom [] s"

definition Trim :: "string \<Rightarrow> string \<Rightarrow> string" where
  "Trim s cutset =
     rev (dropWhile (\<lambda>c. c \<in> set cutset) (rev (dropWhile (\<lambda>c. c \<in> set cutset) s)))"

text \<open>
  The regular expression \<open>(?i)^(?:[0-9A-F]{2}[:-]){5}[0-9A-F]{2}$\<close>: six pairs of
  hexadecimal digits of either case, separated by a colon or a hyphen.
\<close>

definition isHex :: "char \<Rightarrow> bool" where
  "isHex c \<longleftrightarrow> c \<in> set ''0123456789ABCDEFabcdef''"

fun macPairs :: "nat \<Rightarrow> string \<Rightarrow> bool" where
  "macPairs 0 s = (case s of [a, b] \<Rightarrow> isHex a \<and> isHex b | _ \<Rightarrow> False)"
| "macPairs (Suc n) s =
     (case s of
        a # b # sep # rest \<Rightarrow>
          isHex a \<and> isHex b \<and> (sep = CHR '':'' \<or> sep = CHR ''-'') \<and> macPairs n rest
      | _ \<Rightarrow> False)"

definition macRegex_Match :: "string \<Rightarrow> bool" where
  "macRegex_Match s = macPairs 5 s"

text \<open>
  \<open>scanNetwork\<close>. The loader's result and the ARP command's result are inputs. It sets
  the package flag \<open>managerModeMatchAllSourceIps\<close>, returned first. A line of exactly
  three fields passes the length test and panics at \<open>fields[3]\<close>.
\<close>

definition joinGroups :: "GroupMACsConfig \<Rightarrow> Ip \<Rightarrow> string \<Rightarrow> (Ip \<times> Group list) list
    \<Rightarrow> (Ip \<times> Group list) list" where
  "joinGroups gm arpIp arpMAC mig =
     (let hits = concat (map (\<lambda>(grp, macs). map (\<lambda>gmac. grp) (filter (\<lambda>gmac. MAC gmac = arpMAC) macs))
                   (case Groups gm of None \<Rightarrow> [] | Some gs \<Rightarrow> gs))
      in fold (\<lambda>grp m.
                 (let existingGroups = (case map_of m arpIp of None \<Rightarrow> [] | Some gs \<Rightarrow> gs)
                  in if grp \<in> set existingGroups then m else put arpIp (existingGroups @ [grp]) m))
           hits mig)"

definition scanLine ::
  "bool \<Rightarrow> GroupMACsConfig \<Rightarrow> string \<Rightarrow> (Ip \<times> Group list) list \<times> (Ip \<times> MAC) list
     \<Rightarrow> panic + (Ip \<times> Group list) list \<times> (Ip \<times> MAC) list" where
  "scanLine matchAll gm line acc =
     (let fields = Fields line in
      if length fields < 3 then Inr acc
      else
        (let arpIp = Trim (fields ! 1) ''()'' in
         bindP (idx_get fields 3) (\<lambda>arpMAC0.
           if \<not> macRegex_Match arpMAC0 then Inr acc
           else
             (let arpMAC = NewMAC arpMAC0;
                  mim = put arpIp arpMAC (snd acc)
              in if matchAll \<and> Groups gm = None
                 then Inr (put arpIp [defaultGroupName] (fst acc), mim)
                 else Inr (joinGroups gm arpIp arpMAC (fst acc), mim)))))"

fun scanLines ::
  "bool \<Rightarrow> GroupMACsConfig \<Rightarrow> string list \<Rightarrow> (Ip \<times> Group list) list \<times> (Ip \<times> MAC) list
     \<Rightarrow> panic + (Ip \<times> Group list) list \<times> (Ip \<times> MAC) list" where
  "scanLines matchAll gm [] acc = Inr acc"
| "scanLines matchAll gm (line # rest) acc =
     bindP (scanLine matchAll gm line acc) (scanLines matchAll gm rest)"

definition scanNetwork ::
  "GroupMACsConfig \<times> loadError option \<Rightarrow> string + string
     \<Rightarrow> panic + (bool \<times> (Ip \<times> Group list) list \<times> (Ip \<times> MAC) list)" where
  "scanNetwork loaded arp =
     (let gm = fst loaded;
          managerModeMatchAllSourceIps = (snd loaded \<noteq> None)
      in case arp of
           Inl err \<Rightarrow> Inr (managerModeMatchAllSourceIps, [], [])
         | Inr output \<Rightarrow>
             bindP (scanLines managerModeMatchAllSourceIps gm (splitOn (CHR 0x0A) output) ([], []))
               (\<lambda>(mig, mim). Inr (managerModeMatchAllSourceIps, mig, mim)))"

text \<open>
  \<open>scanNetworkAndNotify\<close>: one tick of the net watcher. It returns the flag, the watcher
  with the snapshot it keeps, and the calls of the registered receivers in order.
\<close>

record NetWatcher =
  nwSourceIpGroups :: "(Ip \<times> Group list) list"
  callbacksForIpGroups :: nat
  callbacksForIpMACs :: nat

datatype nwPublication =
    UpdateSourceIpGroupsCall nat "(Ip \<times> Group list) list"
  | UpdateSourceIpMACsCall nat "(Ip \<times> MAC) list"

definition scanNetworkAndNotify ::
  "GroupMACsConfig \<times> loadError option \<Rightarrow> string + string \<Rightarrow> NetWatcher
     \<Rightarrow> panic + (bool \<times> NetWatcher \<times> nwPublication list)" where
  "scanNetworkAndNotify loaded arp nw =
     bindP (scanNetwork loaded arp) (\<lambda>(managerModeMatchAllSourceIps, newMapIpGroups, newMapIpMACs).
       (let changed = (managerModeMatchAllSourceIps
                       \<or> \<not> maps_Equal (nwSourceIpGroups nw) newMapIpGroups);
            nw' = (if changed then nw\<lparr>nwSourceIpGroups := newMapIpGroups\<rparr> else nw);
            groupCalls = (if changed
                          then map (\<lambda>i. UpdateSourceIpGroupsCall i newMapIpGroups)
                                 [0..<callbacksForIpGroups nw]
                          else []);
            macCalls = (if newMapIpMACs \<noteq> []
                        then map (\<lambda>i. UpdateSourceIpMACsCall i newMapIpMACs)
                               [0..<callbacksForIpMACs nw]
                        else [])
        in Inr (managerModeMatchAllSourceIps, nw', groupCalls @ macCalls)))"

section \<open>Concrete inputs\<close>

text \<open>
  Monday, 2 December 2024, 15:00:00 UTC, the instant the repository's window tests use:
  day 739221 after the zero time.
\<close>

definition monday1500 :: Time where
  "monday1500 = (739221 * 24 + 15) * Hour"

text \<open>A group tracked over one hour in one-minute slots, as in the tracker's own tests.\<close>

definition hourlyConfig :: TrackerConfig where
  "hourlyConfig =
     \<lparr>Granularity = 1 * Minute, Retention = 1 * Hour, Threshold = 30 * Minute,
      StartDayInt = 0, StartDuration = 0, SampleFilePath = [], SampleFileSaveInterval = 0,
      SampleSize = 0, Mode = ModeMonitor, ModeEndTime = 0\<rparr>"

definition hourlyDevice :: deviceData where
  "hourlyDevice =
     \<lparr>config = hourlyConfig\<lparr>SampleSize := 60\<rparr>,
      samples = replicate 60 False,
      windowStartTime = monday1500\<rparr>"

definition hourlyTracker :: Tracker where
  "hourlyTracker =
     \<lparr>cfgTrackerDefaults = hourlyConfig,
      cfgGroups = [''kids'' \<mapsto> config hourlyDevice],
      devices = [''kids'' \<mapsto> hourlyDevice]\<rparr>"







text \<open>
  A samples file written without configuration, holding four samples for group
  \<open>kids\<close> as the files of the repository's save-and-load test do; the application's
  tracker configuration with a samples file; and the tracker \<open>NewTracker\<close> builds from
  them, whose device has the default sample size of 60 and four samples.
\<close>

definition appDefaults :: TrackerConfig where
  "appDefaults = hourlyConfig\<lparr>SampleFilePath := ''samples.json'',
                              SampleFileSaveInterval := 1 * Minute\<rparr>"

definition legacySamples :: "(string \<times> deviceDataDTO) list" where
  "legacySamples =
     [(''kids'', \<lparr>Config = None, Samples = [True, False, True, False],
                  WindowStartTime = monday1500\<rparr>)]"

definition loadedDevice :: deviceData where
  "loadedDevice =
     \<lparr>config = hourlyConfig\<lparr>SampleSize := 60\<rparr>,
      samples = [True, False, True, False],
      windowStartTime = monday1500\<rparr>"

definition loadedTracker :: Tracker where
  "loadedTracker =
     \<lparr>cfgTrackerDefaults = appDefaults, cfgGroups = Map.empty,
      devices = [''kids'' \<mapsto> loadedDevice]\<rparr>"

text \<open>
  An hourly window whose start offset of two hours exceeds the retention, and the device
  \<open>newDeviceData\<close> builds for it at 15:10.
\<close>

definition lateStartConfig :: TrackerConfig where
  "lateStartConfig = hourlyConfig\<lparr>StartDuration := 2 * Hour\<rparr>"

definition lateStartDevice :: deviceData where
  "lateStartDevice =
     \<lparr>config = lateStartConfig\<lparr>SampleSize := 60\<rparr>,
      samples = replicate 60 False,
      windowStartTime = monday1500 + 1 * Hour\<rparr>"

text \<open>
  The weekly configuration of the repository's window test (start on Monday at 10:00,
  granularity and threshold left at zero), and the device built for it on the following
  Saturday at 15:00.
\<close>

definition weeklyConfig :: TrackerConfig where
  "weeklyConfig =
     \<lparr>Granularity = 0, Retention = 7 * 24 * Hour, Threshold = 0,
      StartDayInt = 1, StartDuration = 10 * Hour, SampleFilePath = [],
      SampleFileSaveInterval = 0, SampleSize = 0, Mode = ModeMonitor, ModeEndTime = 0\<rparr>"

definition saturday1500 :: Time where
  "saturday1500 = monday1500 + 5 * 24 * Hour"

definition weeklyDevice :: deviceData where
  "weeklyDevice =
     \<lparr>config = weeklyConfig\<lparr>Granularity := 1 * Minute, Threshold := 1 * Minute,
                                SampleSize := 10080\<rparr>,
      samples = replicate 10080 False,
      windowStartTime = ((739221 - 5) * 24 + 10) * Hour\<rparr>"

text \<open>
  A traffic monitor that knows one device, the state it is in after counting one outbound
  packet of 1500 bytes for group \<open>kids\<close> thirty days before \<open>monday1500\<close>, and a later
  ARP snapshot that holds one other device.
\<close>

definition defaultActivity :: ActivityMonitorConfig where
  "defaultActivity = \<lparr>ThresholdIngressEgressKB = 0, EnableThresholdLogic = False\<rparr>"

definition weekPurge :: MonitorConfig where
  "weekPurge = \<lparr>PurgeStatsAfterDuration = 168 * Hour\<rparr>"

definition lastMonth :: Time where
  "lastMonth = monday1500 - 30 * 24 * Hour"

definition freshMonitor :: TrafficMap where
  "freshMonitor =
     \<lparr>rollingWindowSize = 5, trafficMap = [], trafficMapLen = 0,
      ipMACs = [(''192.168.1.10'', ''AA-AA-AA-AA-AA-AA'')]\<rparr>"

definition oldStats :: trafficStats where
  "oldStats =
     \<lparr>monitorName = ''kids/AA-AA-AA-AA-AA-AA'', windowSize = 5,
      totalCount = (\<lambda>_. 0)(Egress := 1),
      rollingCounts = (\<lambda>_. [0, 0, 0, 0, 0])(Egress := [1, 0, 0, 0, 0]),
      rollingPacketLenTotal = (\<lambda>_. [0, 0, 0, 0, 0])(Egress := [1500, 0, 0, 0, 0]),
      rollingMinPacketLen = (\<lambda>_. [0, 0, 0, 0, 0])(Egress := [1500, 0, 0, 0, 0]),
      rollingMaxPacketLen = (\<lambda>_. [0, 0, 0, 0, 0])(Egress := [1500, 0, 0, 0, 0]),
      rollingAvgPacketLen =
        (\<lambda>_. [Finite 0, Finite 0, Finite 0, Finite 0, Finite 0])
          (Egress := [NaN, Finite 0, Finite 0, Finite 0, Finite 0]),
      lastMinuteIdx = (\<lambda>_. 0)(Egress := 4),
      isLastMinuteActive = False,
      lastActiveTimeUTC = lastMonth\<rparr>"

definition staleMonitor :: TrafficMap where
  "staleMonitor =
     \<lparr>rollingWindowSize = 5,
      trafficMap = [(''kids/AA-AA-AA-AA-AA-AA'', oldStats)],
      trafficMapLen = 1,
      ipMACs = [(''192.168.1.10'', ''AA-AA-AA-AA-AA-AA'')]\<rparr>"

definition otherDevice :: "(Ip \<times> MAC) list" where
  "otherDevice = [(''192.168.1.11'', ''BB-BB-BB-BB-BB-BB'')]"

definition twoDevices :: "(Ip \<times> MAC) list" where
  "twoDevices =
     [(''192.168.1.11'', ''BB-BB-BB-BB-BB-BB''), (''192.168.1.12'', ''CC-CC-CC-CC-CC-CC'')]"

text \<open>
  The filter's default configuration, and a world in which the manager knows the LAN
  device \<open>192.168.1.10\<close> in group \<open>kids\<close> and the remote address \<open>142.250.0.1\<close>, the
  traffic monitor has no IP-to-MAC snapshot yet, and the tracker is the hourly one.
\<close>

definition cfg0 :: FilterConfig where
  "cfg0 =
     \<lparr>PacketDropPercentage = 2 / 5, PacketDelayPercentage = 9 / 10,
      PacketDelayMs = 100000000, PacketJitterMs = 50000000, PacketDropUDP = True,
      OutboundQueueNumber = 100, InboundQueueNumber = 101\<rparr>"

definition kidsManager :: Manager where
  "kidsManager =
     \<lparr>sourceIpGroups = [''192.168.1.10'' \<mapsto> [''kids'']],
      destIpGroups = [''142.250.0.1'' \<mapsto> [''youtube'']],
      destIpDomains = [''142.250.0.1'' \<mapsto> ''youtube.com''],
      destDomainGroups = [''youtube.com'' \<mapsto> [''youtube'']]\<rparr>"

definition noSnapshot :: TrafficMap where
  "noSnapshot = \<lparr>rollingWindowSize = 5, trafficMap = [], trafficMapLen = 0, ipMACs = []\<rparr>"

definition quietWorld :: World where
  "quietWorld =
     \<lparr>wMatchAll = False, wManager = kidsManager, wTraffic = noSnapshot,
      wTracker = hourlyTracker\<rparr>"

text \<open>
  An outbound TCP packet (a bare 20-byte IPv4 header) from \<open>192.168.1.10\<close> to
  \<open>142.250.0.1\<close>, and a world whose tracker has group \<open>kids\<close> configured with a
  retention of thirty seconds, shorter than the one-minute granularity.
\<close>

definition tcpPacket :: Attribute where
  "tcpPacket =
     \<lparr>PacketID = 7,
      Payload = Some [69, 0, 0, 20, 0, 0, 0, 0, 64, 6, 0, 0,
                      192, 168, 1, 10, 142, 250, 0, 1]\<rparr>"

definition shortConfig :: TrackerConfig where
  "shortConfig = hourlyConfig\<lparr>Retention := 30 * Second\<rparr>"

definition shortDevice :: deviceData where
  "shortDevice = \<lparr>config = shortConfig, samples = [], windowStartTime = monday1500\<rparr>"

definition shortTracker :: Tracker where
  "shortTracker =
     \<lparr>cfgTrackerDefaults = hourlyConfig,
      cfgGroups = [''kids'' \<mapsto> shortConfig],
      devices = Map.empty\<rparr>"

definition shortWorld :: World where
  "shortWorld =
     \<lparr>wMatchAll = False, wManager = kidsManager, wTraffic = noSnapshot,
      wTracker = shortTracker\<rparr>"

text \<open>
  A world whose tracker allows group \<open>kids\<close> one minute per hour, and the tracker after
  the first active sample at \<open>monday1500\<close>.
\<close>

definition strictConfig :: TrackerConfig where
  "strictConfig = hourlyConfig\<lparr>Threshold := 1 * Minute\<rparr>"

definition strictTracker :: Tracker where
  "strictTracker =
     \<lparr>cfgTrackerDefaults = hourlyConfig,
      cfgGroups = [''kids'' \<mapsto> strictConfig],
      devices = Map.empty\<rparr>"

definition strictTracker1 :: Tracker where
  "strictTracker1 =
     \<lparr>cfgTrackerDefaults = hourlyConfig,
      cfgGroups = [''kids'' \<mapsto> strictConfig\<lparr>SampleSize := 60\<rparr>],
      devices = [''kids'' \<mapsto>
                   \<lparr>config = strictConfig\<lparr>SampleSize := 60\<rparr>,
                    samples = True # replicate 59 False,
                    windowStartTime = monday1500\<rparr>]\<rparr>"

definition strictWorld :: World where
  "strictWorld =
     \<lparr>wMatchAll = False, wManager = kidsManager, wTraffic = noSnapshot,
      wTracker = strictTracker\<rparr>"

text \<open>
  A domain watcher with one receiver of the IP-to-domain table, a configuration with one
  group and one domain, and the DNS answers of two ticks: the domain resolves to
  \<open>1.1.1.1\<close> in the first and to \<open>2.2.2.2\<close> in the second.
\<close>

definition oneReceiver :: DomainWatcher where
  "oneReceiver = NewDomainWatcher\<lparr>destIpDomainReceivers := 1\<rparr>"

definition youtubeDomains :: "(Group \<times> Domain list) list" where
  "youtubeDomains = [(''youtube'', [''youtube.com''])]"

definition firstAnswers :: "Domain \<Rightarrow> Ip list option" where
  "firstAnswers d = (if d = ''youtube.com'' then Some [''1.1.1.1''] else None)"

definition secondAnswers :: "Domain \<Rightarrow> Ip list option" where
  "secondAnswers d = (if d = ''youtube.com'' then Some [''2.2.2.2''] else None)"

definition afterFirstTick :: DomainWatcher where
  "afterFirstTick =
     oneReceiver\<lparr>groupDomains := youtubeDomains,
                  dwDestIpDomains := [(''1.1.1.1'', ''youtube.com'')],
                  dwDestIpGroups := [(''1.1.1.1'', [''youtube''])],
                  dwDestDomainGroups := [(''youtube.com'', [''youtube''])]\<rparr>"

definition afterSecondTick :: DomainWatcher where
  "afterSecondTick =
     oneReceiver\<lparr>groupDomains := youtubeDomains,
                  dwDestIpDomains := [(''1.1.1.1'', ''youtube.com''), (''2.2.2.2'', ''youtube.com'')],
                  dwDestIpGroups := [(''1.1.1.1'', [''youtube'']), (''2.2.2.2'', [''youtube''])],
                  dwDestDomainGroups := [(''youtube.com'', [''youtube'', ''youtube''])]\<rparr>"

text \<open>
  A net watcher that published one device of group \<open>kids\<close>, with one receiver of each
  kind; the group-MACs configuration it loads; and the ARP table of the repository's scan
  test.
\<close>

definition kidsGroupMACs :: GroupMACsConfig where
  "kidsGroupMACs =
     \<lparr>Groups = Some [(''kids'', [\<lparr>MAC = ''AA-AA-AA-AA-AA-AA'', Name = ''phone''\<rparr>])],
      UnusedMACs = []\<rparr>"

definition watching :: NetWatcher where
  "watching =
     \<lparr>nwSourceIpGroups = [(''192.168.1.10'', [''kids''])],
      callbacksForIpGroups = 1, callbacksForIpMACs = 1\<rparr>"

definition testGroupMACs :: GroupMACsConfig where
  "testGroupMACs =
     \<lparr>Groups = Some [(''group1'', [\<lparr>MAC = ''00-11-22-33-44-55'', Name = []\<rparr>,
                                   \<lparr>MAC = ''66-77-88-99-AA-BB'', Name = []\<rparr>]),
                     (''group2'', [\<lparr>MAC = ''CC-DD-EE-FF-00-11'', Name = []\<rparr>])],
      UnusedMACs = []\<rparr>"

definition testArpOutput :: string where
  "testArpOutput =
     [CHR 0x0A] @ ''? (192.168.1.10) at 00:11:22:33:44:55'' @
     [CHR 0x0A] @ ''? (192.168.1.11) at 66:77:88:99:AA:BB'' @
     [CHR 0x0A] @ ''? (192.168.1.12) at CC:DD:EE:FF:00:11 on wlan0'' @
     [CHR 0x0A] @ ''? (192.168.1.12) at CC:DD:EE:FF:00:11 on eth0'' @
     [CHR 0x0A]"

text \<open>
  Two flat entries sent by the admin interface: a phone in group \<open>kids\<close> and a named
  television without a group, both with their MAC in canonical form; and the phone with
  its MAC in lower case with colons.
\<close>

definition flatEntries :: "FlatGroupMAC list" where
  "flatEntries =
     [\<lparr>flatGroup = ''kids'', flatMAC = ''AA-BB-CC-DD-EE-FF'', flatName = ''phone''\<rparr>,
      \<lparr>flatGroup = [], flatMAC = ''11-22-33-44-55-66'', flatName = ''tv''\<rparr>]"

definition colonEntries :: "FlatGroupMAC list" where
  "colonEntries =
     [\<lparr>flatGroup = ''kids'', flatMAC = ''aa:bb:cc:dd:ee:ff'', flatName = ''phone''\<rparr>]"

section \<open>Arithmetic of the machine-integer model\<close>

lemma wrap64_id: "minInt64 \<le> x \<Longrightarrow> x \<le> maxInt64 \<Longrightarrow> wrap64 x = x"
  unfolding wrap64_def minInt64_def maxInt64_def
  by (simp add: mod_pos_pos_trivial)

lemma wrap64_range: "minInt64 \<le> wrap64 x \<and> wrap64 x \<le> maxInt64"
proof -
  have "0 \<le> (x + 2 ^ 63) mod 2 ^ 64" "(x + 2 ^ 63) mod 2 ^ 64 < (2 * 2 ^ 63 :: int)"
    using pos_mod_bound [of "2 ^ 64" "x + 2 ^ 63"] by simp_all
  then show ?thesis
    unfolding wrap64_def minInt64_def maxInt64_def by linarith
qed

lemma Time_Sub_range: "minInt64 \<le> Time_Sub t u \<and> Time_Sub t u \<le> maxInt64"
  unfolding Time_Sub_def Let_def minInt64_def maxInt64_def by simp

lemma Time_Sub_exact:
  "minInt64 \<le> t - u \<Longrightarrow> t - u \<le> maxInt64 \<Longrightarrow> Time_Sub t u = t - u"
  unfolding Time_Sub_def Let_def by simp

lemma sdiv_abs_le:
  fixes a b :: int
  shows "\<bar>a sdiv b\<bar> \<le> \<bar>a\<bar>"
  using sdiv_int_range [of a b] by auto

lemma wrap64_sdiv:
  assumes "minInt64 < a" and "a \<le> maxInt64"
  shows "wrap64 (a sdiv b) = a sdiv b"
proof -
  have "\<bar>a sdiv b\<bar> \<le> \<bar>a\<bar>" by (rule sdiv_abs_le)
  moreover have "\<bar>a\<bar> \<le> maxInt64"
    using assms by (simp add: minInt64_def maxInt64_def)
  ultimately have "minInt64 \<le> a sdiv b" "a sdiv b \<le> maxInt64"
    by (simp_all add: minInt64_def maxInt64_def)
  then show ?thesis by (rule wrap64_id)
qed

lemma smod_nonneg:
  fixes x n :: int
  shows "0 \<le> x \<Longrightarrow> 0 < n \<Longrightarrow> x smod n = x mod n"
  by (cases "x = 0") (simp_all add: smod_int_alt_def sgn_if)

lemma smod_mod_cancel:
  fixes e n :: int
  assumes "0 < n"
  shows "(e smod n) mod n = e mod n"
proof (cases "0 \<le> e")
  case True
  then show ?thesis using assms by (simp add: smod_nonneg)
next
  case False
  then have "e smod n = - ((- e) mod n)"
    using assms by (simp add: smod_int_alt_def sgn_if)
  then have "(e smod n) mod n = (- ((- e) mod n)) mod n" by simp
  also have "\<dots> = (- (- e)) mod n" by (rule mod_minus_eq)
  finally show ?thesis by simp
qed

lemma smod_floor_mod:
  fixes e n :: int
  assumes "1 \<le> n"
  shows "(e smod n + n) smod n = e mod n"
proof -
  have r: "- n < e smod n" "e smod n < n"
    using smod_int_range [where a = e and b = n] assms by auto
  have pos: "0 \<le> e smod n + n" using r by simp
  have "(e smod n + n) smod n = (e smod n + n) mod n"
    using pos assms by (simp add: smod_nonneg)
  also have "\<dots> = (e smod n) mod n" by simp
  also have "\<dots> = e mod n"
    using assms by (simp add: smod_mod_cancel)
  finally show ?thesis .
qed

section \<open>Invariant of the devices the tracker creates\<close>

lemma make_bools_Inr:
  "make_bools n = Inr s \<Longrightarrow> 0 \<le> n \<and> n \<le> maxAlloc \<and> s = replicate (nat n) False"
  by (auto simp: make_bools_def split: if_splits)

lemma is_int64_week: "is_int64 (7 * 24 * Hour)"
  by (simp add: is_int64_def minInt64_def maxInt64_def Hour_def Minute_def Second_def)

lemma is_int64_Minute: "is_int64 (1 * Minute)"
  by (simp add: is_int64_def minInt64_def maxInt64_def Minute_def Second_def)

lemma newDeviceData_inv:
  assumes "int64_config cfg" and "newDeviceData now0 cfg = Inr d"
  shows "device_inv d"
  using assms is_int64_week is_int64_Minute
  unfolding newDeviceData_def Let_def getSampleSize_def go_div_def device_inv_def int64_config_def
  by (auto split: sum.splits if_splits dest!: make_bools_Inr simp: Minute_def Second_def)

lemma syncWindow_Inr:
  assumes "syncWindow d now = Inr d'"
  shows "config d' = config d" and "length (samples d') = length (samples d)"
  using assms unfolding syncWindow_def
  by (auto split: sum.splits if_splits)

lemma setSample_Inr:
  assumes "setSample d i = Inr d'"
  shows "config d' = config d" and "length (samples d') = length (samples d)"
    and "windowStartTime d' = windowStartTime d"
  using assms unfolding setSample_def
  by (auto split: if_splits)

lemma created_device_inv: "created_device d \<Longrightarrow> device_inv d"
proof (induction rule: created_device.induct)
  case (created cfg now d)
  then show ?case by (rule newDeviceData_inv)
next
  case (synced d now d')
  then show ?case by (simp add: device_inv_def syncWindow_Inr)
next
  case (marked d now start i d')
  then show ?case by (simp add: device_inv_def setSample_Inr)
next
  case (restarted d sd day)
  then show ?case by (simp add: device_inv_def)
next
  case (moded d m e)
  then show ?case by (simp add: device_inv_def)
qed

lemma elapsedSlices_total:
  "Granularity (config d) \<noteq> 0 \<Longrightarrow>
   elapsedSlices d now start = Inr (wrap64 (Time_Sub now start sdiv Granularity (config d)))"
  by (simp add: elapsedSlices_def go_div_def)

lemma getIndex_eq:
  assumes n1: "1 \<le> SampleSize (config d)" and n2: "SampleSize (config d) \<le> 2 ^ 62"
    and e: "elapsedSlices d now start = Inr e"
  shows "getIndex d now start =
           Inr ((e smod SampleSize (config d) + SampleSize (config d)) smod SampleSize (config d))"
proof -
  let ?n = "SampleSize (config d)"
  have r: "- ?n < e smod ?n" "e smod ?n < ?n"
    using smod_int_range [where a = e and b = ?n] n1 by auto
  have "minInt64 \<le> e smod ?n + ?n" "e smod ?n + ?n \<le> maxInt64"
    using r n1 n2 by (simp_all add: minInt64_def maxInt64_def)
  then have w: "wrap64 (e smod ?n + ?n) = e smod ?n + ?n"
    by (rule wrap64_id)
  show ?thesis
    using n1 e by (simp add: getIndex_def go_rem_def w)
qed

lemma getIndex_zero_size:
  assumes "Granularity (config d) \<noteq> 0" and "SampleSize (config d) = 0"
  shows "getIndex d now start = Inl IntegerDivideByZero"
  using assms by (simp add: getIndex_def elapsedSlices_total go_rem_def)

lemma getIndex_zero_granularity:
  assumes "Granularity (config d) = 0"
  shows "getIndex d now start = Inl IntegerDivideByZero"
  using assms by (simp add: getIndex_def elapsedSlices_def go_div_def)

lemma created_device_slots:
  assumes "created_device d"
  shows "Granularity (config d) \<noteq> 0 \<and> 0 \<le> SampleSize (config d)
       \<and> SampleSize (config d) \<le> 2 ^ 62
       \<and> length (samples d) = nat (SampleSize (config d))"
proof -
  have "device_inv d" using assms by (rule created_device_inv)
  then show ?thesis by (simp add: device_inv_def maxAlloc_def)
qed

text \<open>
  C8. For every device, whether \<open>newDeviceData\<close> created it or \<open>NewTracker\<close> took it
  from the samples file, and every pair of times, also with \<open>now\<close> before the start of
  the window: when the granularity is not zero and \<open>SampleSize\<close> is at least 1 (and at
  most \<open>2 ^ 62\<close>, so that the sum in the formula is an \<open>int\<close>), \<open>getIndex\<close> returns
  \<open>((elapsed % SampleSize) + SampleSize) % SampleSize\<close> (Go's truncating remainder),
  where \<open>elapsed\<close> is the truncated quotient of \<open>now - start\<close> by the granularity; the
  index is the non-negative residue of \<open>elapsed\<close> and lies in \<open>[0, SampleSize)\<close>. The
  write \<open>samples[index] = true\<close> is in bounds exactly when the device has more than
  \<open>index\<close> samples, and panics otherwise. A created device has \<open>SampleSize\<close> samples, so
  its write is in bounds; a device from the samples file has the samples of the file.
  With a sample size or a granularity of zero \<open>getIndex\<close> panics with a division by
  zero.
\<close>

theorem getIndex_in_bounds:
  "(Granularity (config d) \<noteq> 0 \<and> 1 \<le> SampleSize (config d) \<and> SampleSize (config d) \<le> 2 ^ 62
      \<longrightarrow> (\<exists>e i. elapsedSlices d now start = Inr e
                 \<and> (minInt64 < now - start \<and> now - start \<le> maxInt64
                      \<longrightarrow> e = (now - start) sdiv Granularity (config d))
                 \<and> getIndex d now start = Inr i
                 \<and> i = (e smod SampleSize (config d) + SampleSize (config d))
                         smod SampleSize (config d)
                 \<and> i = e mod SampleSize (config d)
                 \<and> 0 \<le> i \<and> i < SampleSize (config d)
                 \<and> setSample d i
                     = (if nat i < length (samples d)
                        then Inr (d\<lparr>samples := (samples d)[nat i := True]\<rparr>)
                        else Inl IndexOutOfRange)))
   \<and> (Granularity (config d) = 0 \<or> SampleSize (config d) = 0
        \<longrightarrow> getIndex d now start = Inl IntegerDivideByZero)
   \<and> (created_device d
        \<longrightarrow> Granularity (config d) \<noteq> 0 \<and> 0 \<le> SampleSize (config d)
            \<and> SampleSize (config d) \<le> 2 ^ 62
            \<and> length (samples d) = nat (SampleSize (config d)))"
proof (intro conjI impI)
  let ?n = "SampleSize (config d)"
  let ?g = "Granularity (config d)"
  assume a: "?g \<noteq> 0 \<and> 1 \<le> ?n \<and> ?n \<le> 2 ^ 62"
  then have g: "?g \<noteq> 0" and n1: "1 \<le> ?n" and n2: "?n \<le> 2 ^ 62" by simp_all
  define e where "e = wrap64 (Time_Sub now start sdiv ?g)"
  have el: "elapsedSlices d now start = Inr e"
    using g by (simp add: e_def elapsedSlices_total)
  have exact: "e = (now - start) sdiv ?g"
    if "minInt64 < now - start" "now - start \<le> maxInt64"
    using that by (simp add: e_def Time_Sub_exact wrap64_sdiv)
  define i where "i = (e smod ?n + ?n) smod ?n"
  have gi: "getIndex d now start = Inr i"
    using n1 n2 el by (simp add: i_def getIndex_eq)
  have im: "i = e mod ?n" using n1 by (simp add: i_def smod_floor_mod)
  have rng: "0 \<le> i" "i < ?n" using n1 by (simp_all add: im)
  have w: "setSample d i
             = (if nat i < length (samples d)
                then Inr (d\<lparr>samples := (samples d)[nat i := True]\<rparr>)
                else Inl IndexOutOfRange)"
    using rng by (simp add: setSample_def)
  show "\<exists>e i. elapsedSlices d now start = Inr e
          \<and> (minInt64 < now - start \<and> now - start \<le> maxInt64
               \<longrightarrow> e = (now - start) sdiv ?g)
          \<and> getIndex d now start = Inr i
          \<and> i = (e smod ?n + ?n) smod ?n
          \<and> i = e mod ?n
          \<and> 0 \<le> i \<and> i < ?n
          \<and> setSample d i
              = (if nat i < length (samples d)
                 then Inr (d\<lparr>samples := (samples d)[nat i := True]\<rparr>)
                 else Inl IndexOutOfRange)"
    using el exact gi im rng w i_def by blast
next
  assume "Granularity (config d) = 0 \<or> SampleSize (config d) = 0"
  then show "getIndex d now start = Inl IntegerDivideByZero"
    using getIndex_zero_granularity [of d now start] getIndex_zero_size [of d now start]
    by (cases "Granularity (config d) = 0") auto
next
  assume "created_device d"
  then show "Granularity (config d) \<noteq> 0" "0 \<le> SampleSize (config d)"
    "SampleSize (config d) \<le> 2 ^ 62" "length (samples d) = nat (SampleSize (config d))"
    using created_device_slots [of d] by simp_all
qed

lemma hourlyDevice_created: "newDeviceData monday1500 hourlyConfig = Inr hourlyDevice"
  by (simp add: newDeviceData_def hourlyConfig_def hourlyDevice_def monday1500_def
      getSampleSize_def go_div_def make_bools_def maxAlloc_def calculateWindow_def
      Time_Truncate_def Time_Add_def Time_Before_def wrap64_def
      Hour_def Minute_def Second_def signed_divide_int_def Let_def)

lemma hourlyConfig_int64: "int64_config hourlyConfig"
  by (simp add: int64_config_def is_int64_def hourlyConfig_def minInt64_def maxInt64_def
      Hour_def Minute_def Second_def)

lemma hourlyDevice_is_created: "created_device hourlyDevice"
  using hourlyConfig_int64 hourlyDevice_created by (rule created_device.created)

lemma hourlyDevice_regress:
  "elapsedSlices hourlyDevice (monday1500 - 1 * Minute) monday1500 = Inr (- 1)"
  by (simp add: elapsedSlices_def go_div_def hourlyDevice_def hourlyConfig_def Time_Sub_def
      minInt64_def maxInt64_def wrap64_def Minute_def Second_def signed_divide_int_def Let_def)

lemma loadedTracker_built:
  "NewTracker appDefaults (Some appDefaults) (Inr None) (Inr ''samples.json'') (Inr legacySamples)
     = Inr (Inr loadedTracker)"
  by (simp add: NewTracker_def loadSamples_def loadDevice_def getDefaultGroupTrackerConfig_def
      getSampleSize_def go_div_def appDefaults_def hourlyConfig_def legacySamples_def
      loadedTracker_def loadedDevice_def wrap64_def Hour_def Minute_def Second_def
      signed_divide_int_def Let_def)

lemma loadedTracker_AddSample:
  "AddSample (monday1500 + 5 * Minute) ''kids'' True loadedTracker = Inl IndexOutOfRange"
  by (simp add: AddSample_def loadedTracker_def loadedDevice_def appDefaults_def hourlyConfig_def
      getDefaultGroupTrackerConfig_def refreshDevice_def
      newDeviceData_def getSampleSize_def go_div_def make_bools_def maxAlloc_def
      calculateWindow_def Time_Truncate_def Time_Add_def Time_Before_def wrap64_def
      markSample_def syncWindow_def elapsedSlices_def Time_Sub_def minInt64_def maxInt64_def
      getIndex_def go_rem_def monday1500_def setSample_def
      Hour_def Minute_def Second_def signed_divide_int_def signed_modulo_int_def Let_def)

lemma loadedDevice_elapsed:
  "elapsedSlices loadedDevice (monday1500 + 5 * Minute) monday1500 = Inr 5"
  by (simp add: elapsedSlices_def go_div_def loadedDevice_def hourlyConfig_def Time_Sub_def
      minInt64_def maxInt64_def wrap64_def Minute_def Second_def signed_divide_int_def Let_def)

lemma shortDevice_created: "newDeviceData monday1500 shortConfig = Inr shortDevice"
  by (simp add: newDeviceData_def shortConfig_def shortDevice_def hourlyConfig_def monday1500_def
      getSampleSize_def go_div_def make_bools_def maxAlloc_def calculateWindow_def
      Time_Truncate_def Time_Add_def Time_Before_def wrap64_def
      Hour_def Minute_def Second_def signed_divide_int_def Let_def)

lemma shortDevice_is_created: "created_device shortDevice"
proof -
  have "int64_config shortConfig"
    by (simp add: int64_config_def is_int64_def shortConfig_def hourlyConfig_def minInt64_def
        maxInt64_def Hour_def Minute_def Second_def)
  then show ?thesis using shortDevice_created by (rule created_device.created)
qed

text \<open>
  The theorem at three devices. The created hourly device, asked one minute before its
  window started, gets index 59 and the write is in bounds. The device created for a
  retention of thirty seconds has a sample size of 0 and \<open>getIndex\<close> divides by zero. The
  device that \<open>NewTracker\<close> took from a samples file without configuration has a sample
  size of 60 and four samples: five minutes into its window its index is 5, the write is
  out of range, and \<open>AddSample\<close> panics.
\<close>

theorem getIndex_in_bounds_witness:
  "created_device hourlyDevice
   \<and> Granularity (config hourlyDevice) \<noteq> 0
   \<and> SampleSize (config hourlyDevice) = 60
   \<and> minInt64 < (monday1500 - 1 * Minute) - monday1500
   \<and> (monday1500 - 1 * Minute) - monday1500 \<le> maxInt64
   \<and> elapsedSlices hourlyDevice (monday1500 - 1 * Minute) monday1500 = Inr (- 1)
   \<and> created_device shortDevice
   \<and> SampleSize (config shortDevice) = 0
   \<and> getIndex shortDevice monday1500 monday1500 = Inl IntegerDivideByZero
   \<and> getIndex hourlyDevice (monday1500 - 1 * Minute) monday1500 = Inr 59
   \<and> setSample hourlyDevice 59
       = Inr (hourlyDevice\<lparr>samples := (samples hourlyDevice)[59 := True]\<rparr>)
   \<and> NewTracker appDefaults (Some appDefaults) (Inr None) (Inr ''samples.json'')
        (Inr legacySamples) = Inr (Inr loadedTracker)
   \<and> devices loadedTracker ''kids'' = Some loadedDevice
   \<and> Granularity (config loadedDevice) \<noteq> 0
   \<and> SampleSize (config loadedDevice) = 60
   \<and> length (samples loadedDevice) = 4
   \<and> getIndex loadedDevice (monday1500 + 5 * Minute) monday1500 = Inr 5
   \<and> setSample loadedDevice 5 = Inl IndexOutOfRange
   \<and> AddSample (monday1500 + 5 * Minute) ''kids'' True loadedTracker = Inl IndexOutOfRange"
proof -
  have hn: "SampleSize (config hourlyDevice) = 60" "Granularity (config hourlyDevice) \<noteq> 0"
    "length (samples hourlyDevice) = 60"
    by (simp_all add: hourlyDevice_def hourlyConfig_def Minute_def Second_def)
  have "\<exists>e i. elapsedSlices hourlyDevice (monday1500 - 1 * Minute) monday1500 = Inr e
          \<and> getIndex hourlyDevice (monday1500 - 1 * Minute) monday1500 = Inr i
          \<and> i = e mod SampleSize (config hourlyDevice)
          \<and> setSample hourlyDevice i
              = (if nat i < length (samples hourlyDevice)
                 then Inr (hourlyDevice\<lparr>samples := (samples hourlyDevice)[nat i := True]\<rparr>)
                 else Inl IndexOutOfRange)"
    using getIndex_in_bounds [of hourlyDevice "monday1500 - 1 * Minute" monday1500] hn
    by auto
  then have h: "getIndex hourlyDevice (monday1500 - 1 * Minute) monday1500 = Inr 59
     \<and> setSample hourlyDevice 59
         = Inr (hourlyDevice\<lparr>samples := (samples hourlyDevice)[59 := True]\<rparr>)"
    using hourlyDevice_regress hn by auto
  have ln: "SampleSize (config loadedDevice) = 60" "Granularity (config loadedDevice) \<noteq> 0"
    "length (samples loadedDevice) = 4"
    by (simp_all add: loadedDevice_def hourlyConfig_def Minute_def Second_def)
  have "\<exists>e i. elapsedSlices loadedDevice (monday1500 + 5 * Minute) monday1500 = Inr e
          \<and> getIndex loadedDevice (monday1500 + 5 * Minute) monday1500 = Inr i
          \<and> i = e mod SampleSize (config loadedDevice)
          \<and> setSample loadedDevice i
              = (if nat i < length (samples loadedDevice)
                 then Inr (loadedDevice\<lparr>samples := (samples loadedDevice)[nat i := True]\<rparr>)
                 else Inl IndexOutOfRange)"
    using getIndex_in_bounds [of loadedDevice "monday1500 + 5 * Minute" monday1500] ln
    by auto
  then have l: "getIndex loadedDevice (monday1500 + 5 * Minute) monday1500 = Inr 5
     \<and> setSample loadedDevice 5 = Inl IndexOutOfRange"
    using loadedDevice_elapsed ln by auto
  have d: "devices loadedTracker ''kids'' = Some loadedDevice"
    by (simp add: loadedTracker_def)
  have sn: "SampleSize (config shortDevice) = 0"
    by (simp add: shortDevice_def shortConfig_def hourlyConfig_def)
  have s: "getIndex shortDevice monday1500 monday1500 = Inl IntegerDivideByZero"
    using getIndex_in_bounds [of shortDevice monday1500 monday1500] sn by simp
  have r: "minInt64 < (monday1500 - 1 * Minute) - monday1500"
    "(monday1500 - 1 * Minute) - monday1500 \<le> maxInt64"
    by (simp_all add: minInt64_def maxInt64_def Minute_def Second_def)
  show ?thesis
    using h l hn ln d s sn r hourlyDevice_regress hourlyDevice_is_created shortDevice_is_created
      loadedTracker_built loadedTracker_AddSample
    by simp
qed

section \<open>Threshold test\<close>


lemma countSeen_bounds: "0 \<le> countSeen xs \<and> countSeen xs \<le> int (length xs)"
  by (induction xs) auto

lemma syncWindow_total:
  assumes "Granularity (config d) \<noteq> 0"
  shows "\<exists>d'. syncWindow d now = Inr d'"
  using assms by (simp add: syncWindow_def elapsedSlices_total)










section \<open>The retention window\<close>

lemma Time_Truncate_le: "0 < d \<Longrightarrow> Time_Truncate t d \<le> t"
  by (simp add: Time_Truncate_def)

lemma Time_Truncate_gt: "0 < d \<Longrightarrow> t < Time_Truncate t d + d"
  by (simp add: Time_Truncate_def)

lemma Time_Truncate_dvd: "0 < d \<Longrightarrow> d dvd Time_Truncate t d"
  by (simp add: Time_Truncate_def dvd_eq_mod_eq_0 mod_diff_left_eq [symmetric] minus_mod_eq_mult_div)

lemma Time_Truncate_exact: "0 < g \<Longrightarrow> g dvd x \<Longrightarrow> Time_Truncate x g = x"
  by (simp add: Time_Truncate_def)

lemma Time_Truncate_shift:
  assumes "0 < g" and "g dvd b"
  shows "Time_Truncate (b + s) g = b + Time_Truncate s g"
proof -
  have "(b + s) mod g = s mod g"
    using assms(2) by (metis dvd_eq_mod_eq_0 mod_add_left_eq add_0)
  then show ?thesis using assms(1) by (simp add: Time_Truncate_def)
qed

lemma Time_Truncate_nonneg: "0 < g \<Longrightarrow> 0 \<le> s \<Longrightarrow> 0 \<le> Time_Truncate s g"
  by (simp add: Time_Truncate_def zmod_le_nonneg_dividend)

lemma Hour_pos: "0 < Hour"
  by (simp add: Hour_def Minute_def Second_def)

text \<open>Sub-daily retention: the window found for \<open>now\<close> contains \<open>now\<close>.\<close>

lemma calculateWindow_subdaily:
  assumes g: "0 < Granularity (config d)"
    and gr: "Granularity (config d) dvd Retention (config d)"
    and r0: "0 < Retention (config d)"
    and r1: "Retention (config d) < 24 * Hour"
    and s0: "0 \<le> StartDuration (config d)"
    and s1: "StartDuration (config d) \<le> Retention (config d)"
  shows "fst (calculateWindow d now) \<le> now
       \<and> now < fst (calculateWindow d now) + Retention (config d)"
proof -
  let ?G = "Granularity (config d)" and ?R = "Retention (config d)"
  let ?S = "StartDuration (config d)"
  define base where "base = Time_Truncate now ?R"
  define s' where "s' = Time_Truncate ?S ?G"
  have b1: "base \<le> now" and b2: "now < base + ?R" and b3: "?R dvd base"
    using r0 by (simp_all add: base_def Time_Truncate_le Time_Truncate_gt Time_Truncate_dvd)
  have gb: "?G dvd base" using gr b3 by (rule dvd_trans)
  have gbr: "?G dvd base + - ?R" using gb gr by simp
  have s'0: "0 \<le> s'" and s'1: "s' \<le> ?S"
    using g s0 by (simp_all add: s'_def Time_Truncate_nonneg Time_Truncate_le)
  have l0: "Time_Truncate (base + ?S) ?G = base + s'"
    using g gb by (simp add: s'_def Time_Truncate_shift)
  have l1: "Time_Truncate (base + - ?R + ?S) ?G = base + - ?R + s'"
    using g gbr by (simp only: s'_def Time_Truncate_shift)
  have branch: "\<not> 7 * 24 * Hour \<le> ?R" "\<not> 24 * Hour \<le> ?R"
    using r1 Hour_pos by simp_all
  have w: "fst (calculateWindow d now) = (if now < base + s' then base + - ?R + s' else base + s')"
    using branch l0 l1
    by (simp add: calculateWindow_def Let_def Time_Add_def Time_Before_def base_def [symmetric])
  show ?thesis
  proof (cases "now < base + s'")
    case True
    then show ?thesis using w b1 s'1 s1 by simp
  next
    case False
    then show ?thesis using w b2 s'0 by simp
  qed
qed

text \<open>Daily retention: the same, for a start within the day on a slot boundary.\<close>

lemma calculateWindow_daily:
  assumes g: "0 < Granularity (config d)"
    and gd: "Granularity (config d) dvd 24 * Hour"
    and gs: "Granularity (config d) dvd StartDuration (config d)"
    and r0: "24 * Hour \<le> Retention (config d)"
    and r1: "Retention (config d) < 7 * 24 * Hour"
    and s0: "0 \<le> StartDuration (config d)"
    and s1: "StartDuration (config d) \<le> 24 * Hour"
  shows "fst (calculateWindow d now) \<le> now
       \<and> now < fst (calculateWindow d now) + Retention (config d)"
proof -
  let ?G = "Granularity (config d)" and ?R = "Retention (config d)"
  let ?S = "StartDuration (config d)"
  define sod where "sod = Time_Truncate now (24 * Hour)"
  have d0: "0 < 24 * Hour" using Hour_pos by simp
  have b1: "sod \<le> now" and b2: "now < sod + 24 * Hour" and b3: "24 * Hour dvd sod"
    using d0 by (simp_all only: sod_def Time_Truncate_le Time_Truncate_gt Time_Truncate_dvd)
  have gb: "?G dvd sod" using gd b3 by (rule dvd_trans)
  have "?G dvd sod + ?S + - (24 * Hour)" using gb gs gd by simp
  then have l1: "Time_Truncate (sod + ?S + - (24 * Hour)) ?G = sod + ?S + - (24 * Hour)"
    using g by (rule Time_Truncate_exact [rotated])
  have branch: "\<not> 7 * 24 * Hour \<le> ?R" using r1 by simp
  have w: "fst (calculateWindow d now)
             = (if now < sod + ?S then sod + ?S + - (24 * Hour) else sod + ?S)"
    using branch r0 l1
    by (simp add: calculateWindow_def Let_def Time_Add_def Time_Before_def sod_def [symmetric])
  show ?thesis
  proof (cases "now < sod + ?S")
    case True
    then show ?thesis using w b1 s1 r0 by simp
  next
    case False
    then show ?thesis using w b2 s0 r0 by simp
  qed
qed

text \<open>A window that \<open>syncWindow\<close> keeps: \<open>now\<close> is less than one slot before its start.\<close>

lemma div_le_self_nonneg:
  fixes a b :: int
  assumes "0 \<le> a" and "0 < b"
  shows "0 \<le> a div b \<and> a div b \<le> a"
proof (cases "a = 0")
  case True
  then show ?thesis by simp
next
  case False
  then have "0 < a" using assms(1) by simp
  then have "a div b \<le> a" by (rule int_div_le_self)
  then show ?thesis using assms by (simp add: pos_imp_zdiv_nonneg_iff)
qed

lemma sdiv_pos_divisor:
  fixes s g :: int
  assumes "0 < g"
  shows "s sdiv g = (if 0 \<le> s then s div g else - ((- s) div g))"
  using assms by (cases "s = 0") (simp_all add: signed_divide_int_def sgn_if)

lemma kept_window_bounds:
  assumes inv: "device_inv d"
    and g: "0 < Granularity (config d)" and r0: "0 < Retention (config d)"
    and el: "elapsedSlices d now (windowStartTime d) = Inr e"
    and e0: "0 \<le> e" and e1: "e < SampleSize (config d)"
  shows "windowStartTime d - Granularity (config d) < now
       \<and> now < windowStartTime d + Retention (config d)"
proof -
  let ?G = "Granularity (config d)" and ?R = "Retention (config d)"
  let ?n = "SampleSize (config d)" and ?w = "windowStartTime d"
  define s where "s = Time_Sub now ?w"
  have sr: "minInt64 \<le> s" "s \<le> maxInt64"
    using Time_Sub_range [of now ?w] by (simp_all add: s_def)
  have gi: "is_int64 ?G" and ri: "is_int64 ?R" and rw: "?R \<le> 7 * 24 * Hour"
    and n: "?n = wrap64 (?R sdiv ?G)"
    using inv by (simp_all add: device_inv_def)
  have q: "s sdiv ?G = (if 0 \<le> s then s div ?G else - ((- s) div ?G))"
    using g by (rule sdiv_pos_divisor)
  have qr: "minInt64 \<le> s sdiv ?G \<and> s sdiv ?G \<le> maxInt64"
  proof (cases "0 \<le> s")
    case True
    then have "0 \<le> s div ?G" "s div ?G \<le> s"
      using g div_le_self_nonneg [of s ?G] by simp_all
    then show ?thesis using q True sr by (simp add: minInt64_def)
  next
    case False
    then have "0 \<le> (- s) div ?G" "(- s) div ?G \<le> - s"
      using g div_le_self_nonneg [of "- s" ?G] by simp_all
    then show ?thesis using q False sr by (simp add: maxInt64_def)
  qed
  have e: "e = s sdiv ?G"
    using el g qr by (simp add: elapsedSlices_def go_div_def s_def wrap64_id)
  have nq: "?n = ?R div ?G"
  proof -
    have "?R sdiv ?G = ?R div ?G" using g r0 by (simp add: sdiv_pos_divisor)
    moreover have "0 \<le> ?R div ?G" "?R div ?G \<le> ?R"
      using g r0 div_le_self_nonneg [of ?R ?G] by simp_all
    ultimately show ?thesis
      using n ri by (simp add: wrap64_id is_int64_def minInt64_def)
  qed
  have lo: "- ?G < s"
  proof (rule ccontr)
    assume "\<not> - ?G < s"
    then have "?G \<le> - s" "\<not> 0 \<le> s" using g by simp_all
    then have "0 < (- s) div ?G"
      using g by (simp add: pos_imp_zdiv_pos_iff)
    then show False using e e0 q \<open>\<not> 0 \<le> s\<close> by simp
  qed
  have hi: "s < ?R"
  proof (rule ccontr)
    assume "\<not> s < ?R"
    then have "?R \<le> s" by simp
    then have "?R div ?G \<le> s div ?G" using g by (simp add: zdiv_mono1)
    moreover have "0 \<le> s" using \<open>?R \<le> s\<close> r0 by simp
    ultimately show False using e e1 q nq by simp
  qed
  have "minInt64 < s" using lo gi by (simp add: is_int64_def minInt64_def maxInt64_def)
  moreover have "s < maxInt64"
    using hi rw by (simp add: maxInt64_def Hour_def Minute_def Second_def)
  ultimately have "s = now - ?w"
    unfolding s_def Time_Sub_def Let_def by (simp split: if_splits)
  then show ?thesis using lo hi by simp
qed

text \<open>
  C7, as amended. For every created device whose granularity
  is positive and divides the retention, the start offset and 24 hours, whose retention is
  positive and below seven days, and whose start offset lies between zero and the smaller
  of the retention and 24 hours: after \<open>syncWindow\<close> at \<open>now\<close> the number of true
  samples is at most \<open>SampleSize\<close>, and \<open>now\<close> lies less than one granularity before
  the window start and less than the retention after it. The window start is at or before
  \<open>now\<close> unless the call kept, unchanged, a window that starts after \<open>now\<close>; in
  particular it is whenever \<open>now\<close> is not before the window start held before the call.
\<close>

theorem syncWindow_window_bounds:
  assumes "created_device d" and "syncWindow d now = Inr d'"
    and "0 < Granularity (config d)"
    and "Granularity (config d) dvd Retention (config d)"
    and "Granularity (config d) dvd StartDuration (config d)"
    and "Granularity (config d) dvd 24 * Hour"
    and "0 < Retention (config d)"
    and "Retention (config d) < 7 * 24 * Hour"
    and "0 \<le> StartDuration (config d)"
    and "StartDuration (config d) \<le> Retention (config d)"
    and "StartDuration (config d) \<le> 24 * Hour"
  shows "countSeen (samples d') \<le> SampleSize (config d')
       \<and> windowStartTime d' - Granularity (config d') < now
       \<and> now < windowStartTime d' + Retention (config d')
       \<and> (windowStartTime d' \<le> now \<or> (d' = d \<and> now < windowStartTime d))
       \<and> (windowStartTime d \<le> now \<longrightarrow> windowStartTime d' \<le> now)"
proof -
  let ?G = "Granularity (config d)" and ?R = "Retention (config d)"
  have inv: "device_inv d" using assms(1) by (rule created_device_inv)
  have cfg: "config d' = config d" and len: "length (samples d') = length (samples d)"
    using assms(2) by (rule syncWindow_Inr)+
  have "countSeen (samples d') \<le> int (length (samples d'))"
    using countSeen_bounds by blast
  also have "\<dots> = SampleSize (config d')"
    using inv len cfg by (simp add: device_inv_def)
  finally have count: "countSeen (samples d') \<le> SampleSize (config d')" .
  have calc: "fst (calculateWindow d now) \<le> now
            \<and> now < fst (calculateWindow d now) + ?R"
  proof (cases "?R < 24 * Hour")
    case True
    then show ?thesis using assms by (simp add: calculateWindow_subdaily)
  next
    case False
    then show ?thesis using assms by (simp add: calculateWindow_daily)
  qed
  obtain e where el: "elapsedSlices d now (windowStartTime d) = Inr e"
    using assms(2) by (auto simp: syncWindow_def split: sum.splits)
  show ?thesis
  proof (cases "SampleSize (config d) \<le> e \<or> e < 0")
    case True
    then have "windowStartTime d' = fst (calculateWindow d now)"
      using assms(2) el by (auto simp: syncWindow_def)
    then show ?thesis using calc count cfg assms(3) by simp
  next
    case False
    then have same: "d' = d" using assms(2) el by (auto simp: syncWindow_def)
    have "windowStartTime d - ?G < now \<and> now < windowStartTime d + ?R"
      using inv assms(3) assms(7) el False by (simp add: kept_window_bounds)
    then show ?thesis using same count by auto
  qed
qed

lemma lateStartDevice_created:
  "newDeviceData (monday1500 + 10 * Minute) lateStartConfig = Inr lateStartDevice"
  by (simp add: newDeviceData_def lateStartConfig_def hourlyConfig_def lateStartDevice_def
      monday1500_def getSampleSize_def go_div_def make_bools_def maxAlloc_def
      calculateWindow_def Time_Truncate_def Time_Add_def Time_Before_def wrap64_def
      Hour_def Minute_def Second_def signed_divide_int_def Let_def)

lemma lateStartDevice_is_created: "created_device lateStartDevice"
proof -
  have "int64_config lateStartConfig"
    by (simp add: int64_config_def is_int64_def lateStartConfig_def hourlyConfig_def
        minInt64_def maxInt64_def Hour_def Minute_def Second_def)
  then show ?thesis using lateStartDevice_created by (rule created_device.created)
qed

lemma lateStartDevice_sync:
  "syncWindow lateStartDevice (monday1500 + 10 * Minute) = Inr lateStartDevice"
  by (simp add: syncWindow_def elapsedSlices_def go_div_def lateStartDevice_def
      lateStartConfig_def hourlyConfig_def monday1500_def
      calculateWindow_def Time_Truncate_def Time_Add_def Time_Before_def Time_Sub_def
      minInt64_def maxInt64_def wrap64_def
      Hour_def Minute_def Second_def signed_divide_int_def Let_def)

lemma weeklyDevice_created: "newDeviceData saturday1500 weeklyConfig = Inr weeklyDevice"
  by (simp add: newDeviceData_def weeklyConfig_def weeklyDevice_def saturday1500_def
      monday1500_def getSampleSize_def go_div_def make_bools_def maxAlloc_def
      calculateWindow_def Time_Truncate_def Time_Add_def Time_Before_def Time_AddDays_def
      Time_Weekday_def wrap64_def
      Hour_def Minute_def Second_def signed_divide_int_def Let_def)

lemma weeklyDevice_is_created: "created_device weeklyDevice"
proof -
  have "int64_config weeklyConfig"
    by (simp add: int64_config_def is_int64_def weeklyConfig_def
        minInt64_def maxInt64_def Hour_def Minute_def Second_def)
  then show ?thesis using weeklyDevice_created by (rule created_device.created)
qed

lemma weeklyDevice_sync: "syncWindow weeklyDevice saturday1500 = Inr weeklyDevice"
  by (simp add: syncWindow_def elapsedSlices_def go_div_def weeklyDevice_def
      weeklyConfig_def saturday1500_def monday1500_def
      calculateWindow_def Time_Truncate_def Time_Add_def Time_Before_def Time_Sub_def
      Time_AddDays_def Time_Weekday_def minInt64_def maxInt64_def wrap64_def
      Hour_def Minute_def Second_def signed_divide_int_def Let_def)

lemma hourlyDevice_sync_regress:
  "syncWindow hourlyDevice (monday1500 - 30 * Second) = Inr hourlyDevice"
  by (simp add: syncWindow_def elapsedSlices_def go_div_def hourlyDevice_def hourlyConfig_def
      Time_Sub_def minInt64_def maxInt64_def wrap64_def Minute_def Second_def
      signed_divide_int_def Let_def)

text \<open>
  The claim as stated fails at three inputs. A one-hour retention with a start offset of
  two hours: at 15:10 the window is built, and kept by \<open>syncWindow\<close>, with its start at
  16:00, after \<open>now\<close>. The weekly test configuration on a Saturday: the window starts ten
  days and five hours before \<open>now\<close>, more than the retention of seven days. A clock that
  steps back thirty seconds before the start of an hourly window: the window is kept and
  starts after \<open>now\<close>.
\<close>

theorem window_invariant_counterexample:
  "created_device lateStartDevice
   \<and> syncWindow lateStartDevice (monday1500 + 10 * Minute) = Inr lateStartDevice
   \<and> monday1500 + 10 * Minute < windowStartTime lateStartDevice
   \<and> created_device weeklyDevice
   \<and> syncWindow weeklyDevice saturday1500 = Inr weeklyDevice
   \<and> windowStartTime weeklyDevice + Retention (config weeklyDevice) \<le> saturday1500
   \<and> created_device hourlyDevice
   \<and> syncWindow hourlyDevice (monday1500 - 30 * Second) = Inr hourlyDevice
   \<and> monday1500 - 30 * Second < windowStartTime hourlyDevice"
proof -
  have a: "monday1500 + 10 * Minute < windowStartTime lateStartDevice"
    by (simp add: lateStartDevice_def Hour_def Minute_def Second_def)
  have b: "windowStartTime weeklyDevice + Retention (config weeklyDevice) \<le> saturday1500"
    by (simp add: weeklyDevice_def weeklyConfig_def saturday1500_def monday1500_def
        Hour_def Minute_def Second_def)
  have c: "monday1500 - 30 * Second < windowStartTime hourlyDevice"
    by (simp add: hourlyDevice_def Second_def)
  show ?thesis
    using a b c lateStartDevice_is_created lateStartDevice_sync weeklyDevice_is_created
      weeklyDevice_sync hourlyDevice_is_created hourlyDevice_sync_regress
    by simp
qed

lemma hourlyDevice_sync_later:
  "syncWindow hourlyDevice (monday1500 + 125 * Minute)
     = Inr (hourlyDevice\<lparr>windowStartTime := monday1500 + 2 * Hour\<rparr>)"
  by (simp add: syncWindow_def elapsedSlices_def go_div_def hourlyDevice_def hourlyConfig_def
      monday1500_def calculateWindow_def Time_Truncate_def Time_Add_def Time_Before_def
      Time_Sub_def minInt64_def maxInt64_def wrap64_def
      Hour_def Minute_def Second_def signed_divide_int_def Let_def)

theorem syncWindow_window_bounds_witness:
  "created_device hourlyDevice
   \<and> syncWindow hourlyDevice (monday1500 + 125 * Minute)
       = Inr (hourlyDevice\<lparr>windowStartTime := monday1500 + 2 * Hour\<rparr>)
   \<and> 0 < Granularity (config hourlyDevice)
   \<and> Granularity (config hourlyDevice) dvd Retention (config hourlyDevice)
   \<and> Granularity (config hourlyDevice) dvd StartDuration (config hourlyDevice)
   \<and> Granularity (config hourlyDevice) dvd 24 * Hour
   \<and> 0 < Retention (config hourlyDevice)
   \<and> Retention (config hourlyDevice) < 7 * 24 * Hour
   \<and> 0 \<le> StartDuration (config hourlyDevice)
   \<and> StartDuration (config hourlyDevice) \<le> Retention (config hourlyDevice)
   \<and> StartDuration (config hourlyDevice) \<le> 24 * Hour
   \<and> countSeen (samples hourlyDevice) \<le> 60
   \<and> monday1500 + 2 * Hour \<le> monday1500 + 125 * Minute
   \<and> monday1500 + 125 * Minute < monday1500 + 2 * Hour + 1 * Hour"
proof -
  have h: "0 < Granularity (config hourlyDevice)"
    "Granularity (config hourlyDevice) dvd Retention (config hourlyDevice)"
    "Granularity (config hourlyDevice) dvd StartDuration (config hourlyDevice)"
    "Granularity (config hourlyDevice) dvd 24 * Hour"
    "0 < Retention (config hourlyDevice)"
    "Retention (config hourlyDevice) < 7 * 24 * Hour"
    "0 \<le> StartDuration (config hourlyDevice)"
    "StartDuration (config hourlyDevice) \<le> Retention (config hourlyDevice)"
    "StartDuration (config hourlyDevice) \<le> 24 * Hour"
    by (simp_all add: hourlyDevice_def hourlyConfig_def Hour_def Minute_def Second_def)
  have r: "Retention (config hourlyDevice) = 1 * Hour" "SampleSize (config hourlyDevice) = 60"
    by (simp_all add: hourlyDevice_def hourlyConfig_def)
  have "monday1500 \<le> monday1500 + 125 * Minute"
    by (simp add: Minute_def Second_def)
  then show ?thesis
    using syncWindow_window_bounds [OF hourlyDevice_is_created hourlyDevice_sync_later h]
      hourlyDevice_is_created hourlyDevice_sync_later h r
    by (simp add: hourlyDevice_def)
qed

section \<open>Traffic monitor\<close>

text \<open>
  C10. When the address has no entry in the current IP-to-MAC snapshot, \<open>CountTraffic\<close>
  returns true and leaves the monitor as it was: no statistics record is created or
  changed, for any group, direction, count and packet length.
\<close>

theorem CountTraffic_unknown_ip:
  assumes "map_of (ipMACs t) ip = None"
  shows "CountTraffic amc nowCreate nowIdx nowActive grp ip direction count packetLen t
           = Inr (True, t)"
  using assms by (simp add: CountTraffic_def)

theorem CountTraffic_unknown_ip_witness:
  "map_of (ipMACs staleMonitor) ''192.168.1.77'' = None
   \<and> CountTraffic defaultActivity monday1500 monday1500 monday1500 ''kids'' ''192.168.1.77''
         Egress 1 1500 staleMonitor = Inr (True, staleMonitor)"
proof -
  have n: "map_of (ipMACs staleMonitor) ''192.168.1.77'' = None"
    by (simp add: staleMonitor_def)
  show ?thesis
    using n CountTraffic_unknown_ip [OF n] by simp
qed

lemma bindP_Inr: "bindP m f = Inr y \<longleftrightarrow> (\<exists>x. m = Inr x \<and> f x = Inr y)"
  by (simp add: bindP_def split: sum.splits)

lemma purgeStale_kept:
  assumes "purgeStale newData m entries n = Inr (kept, n')"
    and "(k, v) \<in> set kept"
    and "getTrafficMapMACFromKey k = Inr mac"
  shows "(k, v) \<in> set entries \<and> (mac \<in> snd ` set newData \<or> \<not> lastActiveTimeUTC v < m)"
  using assms
proof (induction entries arbitrary: kept n n')
  case Nil
  then show ?case by simp
next
  case (Cons a entries)
  obtain key b where a: "a = (key, b)" by (cases a)
  from Cons.prems(1) obtain keyMac kept0 n0 where
    km: "getTrafficMapMACFromKey key = Inr keyMac"
    and rec: "purgeStale newData m entries
                (if keyMac \<notin> snd ` set newData \<and> lastActiveTimeUTC b < m then wrap64 (n - 1) else n)
              = Inr (kept0, n0)"
    and kept: "kept = (if keyMac \<notin> snd ` set newData \<and> lastActiveTimeUTC b < m
                       then kept0 else (key, b) # kept0)"
    by (auto simp: a bindP_Inr Let_def Time_Before_def)
  show ?case
  proof (cases "(k, v) \<in> set kept0")
    case True
    then show ?thesis using Cons.IH [OF rec True Cons.prems(3)] by simp
  next
    case False
    then have "(k, v) = (key, b)" and "\<not> (keyMac \<notin> snd ` set newData \<and> lastActiveTimeUTC b < m)"
      using Cons.prems(2) kept by (auto split: if_splits)
    then show ?thesis using km Cons.prems(3) a by auto
  qed
qed

lemma splitOn_no_sep: "sep \<notin> set s \<Longrightarrow> splitOn sep s = [s]"
  by (induction s) auto

lemma splitOn_prefix:
  "sep \<notin> set g \<Longrightarrow> splitOn sep (g @ sep # rest) = g # splitOn sep rest"
  by (induction g) auto

lemma key_roundtrip:
  assumes "defaultTrafficMapKeySeparator \<notin> set grp"
    and "defaultTrafficMapKeySeparator \<notin> set mac"
  shows "getTrafficMapMACFromKey (getTrafficMapKey grp mac) = Inr mac"
  using assms
  by (simp add: getTrafficMapMACFromKey_def getTrafficMapKey_def splitOn_prefix splitOn_no_sep
      idx_get_def)

lemma minAllowedTime_eq:
  assumes "minInt64 < p" and "p \<le> maxInt64"
  shows "Time_Add now (wrap64 (- p)) = now - p"
proof -
  have "minInt64 \<le> - p" "- p \<le> maxInt64"
    using assms by (simp_all add: minInt64_def maxInt64_def)
  then show ?thesis by (simp add: Time_Add_def wrap64_id)
qed

text \<open>
  What the purge does when it runs, that is when the new map has a length different from
  the tracked number of statistics entries: the new map is the snapshot and no entry
  remains whose MAC, as \<open>getTrafficMapMACFromKey\<close> reads it from the key, is absent
  from the new map while its last activity is before \<open>now\<close> minus the purge horizon.
  For a key built from a group name and a MAC without the separator, that MAC is the key's
  MAC.
\<close>

lemma UpdateSourceIpMACs_purges:
  assumes "UpdateSourceIpMACs mc now newData t = Inr t'"
    and "int (length newData) \<noteq> trafficMapLen t"
    and "minInt64 < PurgeStatsAfterDuration mc"
    and "PurgeStatsAfterDuration mc \<le> maxInt64"
  shows "ipMACs t' = newData
       \<and> (\<forall>(k, v) \<in> set (trafficMap t'). \<forall>mac.
             getTrafficMapMACFromKey k = Inr mac \<longrightarrow>
             \<not> (mac \<notin> snd ` set newData
                \<and> lastActiveTimeUTC v < now - PurgeStatsAfterDuration mc))
       \<and> (\<forall>grp mac v.
             (getTrafficMapKey grp mac, v) \<in> set (trafficMap t')
             \<and> defaultTrafficMapKeySeparator \<notin> set grp
             \<and> defaultTrafficMapKeySeparator \<notin> set mac \<longrightarrow>
             \<not> (mac \<notin> snd ` set newData
                \<and> lastActiveTimeUTC v < now - PurgeStatsAfterDuration mc))"
proof -
  let ?m = "now - PurgeStatsAfterDuration mc"
  have m: "Time_Add now (wrap64 (- PurgeStatsAfterDuration mc)) = ?m"
    using assms(3,4) by (rule minAllowedTime_eq)
  from assms(1,2) obtain kept n where
    p: "purgeStale newData ?m (trafficMap t) (trafficMapLen t) = Inr (kept, n)"
    and t': "t' = t\<lparr>ipMACs := newData, trafficMap := kept, trafficMapLen := n\<rparr>"
    by (auto simp: UpdateSourceIpMACs_def Let_def m bindP_Inr)
  have gen: "\<not> (mac \<notin> snd ` set newData \<and> lastActiveTimeUTC v < ?m)"
    if "(k, v) \<in> set kept" "getTrafficMapMACFromKey k = Inr mac" for k v mac
    using purgeStale_kept [OF p that] by blast
  have a: "ipMACs t' = newData" by (simp add: t')
  have b: "\<forall>(k, v) \<in> set (trafficMap t'). \<forall>mac.
             getTrafficMapMACFromKey k = Inr mac \<longrightarrow>
             \<not> (mac \<notin> snd ` set newData \<and> lastActiveTimeUTC v < ?m)"
    using gen by (auto simp: t')
  have c: "\<forall>grp mac v.
             (getTrafficMapKey grp mac, v) \<in> set (trafficMap t')
             \<and> defaultTrafficMapKeySeparator \<notin> set grp
             \<and> defaultTrafficMapKeySeparator \<notin> set mac \<longrightarrow>
             \<not> (mac \<notin> snd ` set newData \<and> lastActiveTimeUTC v < ?m)"
  proof (intro allI impI)
    fix grp mac v
    assume h: "(getTrafficMapKey grp mac, v) \<in> set (trafficMap t')
             \<and> defaultTrafficMapKeySeparator \<notin> set grp
             \<and> defaultTrafficMapKeySeparator \<notin> set mac"
    then have "getTrafficMapMACFromKey (getTrafficMapKey grp mac) = Inr mac"
      by (simp add: key_roundtrip)
    moreover have "(getTrafficMapKey grp mac, v) \<in> set kept" using h by (simp add: t')
    ultimately show "\<not> (mac \<notin> snd ` set newData \<and> lastActiveTimeUTC v < ?m)"
      using gen by blast
  qed
  show ?thesis using a b c by blast
qed

lemma replicate5: "replicate 5 (x::'a) = [x, x, x, x, x]"
  by (simp add: numeral_eq_Suc)

lemma lastMonth_minute: "Time_Minute lastMonth = 0"
  by (simp add: Time_Minute_def lastMonth_def monday1500_def Hour_def Minute_def Second_def)

lemma oldStats_counted:
  "countTraffic defaultActivity lastMonth lastMonth 1 1500 Egress
     \<lparr>monitorName = ''kids/AA-AA-AA-AA-AA-AA'', windowSize = 5,
      totalCount = (\<lambda>_. 0),
      rollingCounts = (\<lambda>_. [0, 0, 0, 0, 0]),
      rollingPacketLenTotal = (\<lambda>_. [0, 0, 0, 0, 0]),
      rollingMinPacketLen = (\<lambda>_. [0, 0, 0, 0, 0]),
      rollingMaxPacketLen = (\<lambda>_. [0, 0, 0, 0, 0]),
      rollingAvgPacketLen = (\<lambda>_. [Finite 0, Finite 0, Finite 0, Finite 0, Finite 0]),
      lastMinuteIdx = (\<lambda>_. 0),
      isLastMinuteActive = True,
      lastActiveTimeUTC = lastMonth\<rparr>
   = Inr (False, oldStats)"
  by (simp add: countTraffic_def go_rem_def lastMonth_minute wrap64_def signed_modulo_int_def
      bindP_def rollMinute_def idx_get_def idx_set_def float64_div_def isActive_def
      defaultActivity_def getLastMinuteIdx_def addPacket_def oldStats_def Let_def
      cong: if_cong)

text \<open>The stale monitor is the state the code reaches from a fresh one by one packet.\<close>

lemma staleMonitor_reached:
  "CountTraffic defaultActivity lastMonth lastMonth lastMonth ''kids'' ''192.168.1.10''
     Egress 1 1500 freshMonitor = Inr (False, staleMonitor)"
  by (simp add: CountTraffic_def freshMonitor_def staleMonitor_def getTrafficMapKey_def
      defaultTrafficMapKeySeparator_def newTrafficStats_def make_ints_def make_floats_def
      maxAlloc_def replicate5 oldStats_counted bindP_def wrap64_def)

text \<open>
  C4. The purge is behind a comparison of the number of addresses in the new map with the
  tracked number of statistics entries. When the two are equal, \<open>UpdateSourceIpMACs\<close>
  replaces the snapshot and does nothing else, whatever the entries are: every
  statistics entry stays, also one whose MAC is absent from the new map and whose last
  activity is before \<open>now\<close> minus the purge horizon.
\<close>

theorem UpdateSourceIpMACs_equal_lengths:
  assumes "int (length newData) = trafficMapLen t"
  shows "UpdateSourceIpMACs mc now newData t = Inr (t\<lparr>ipMACs := newData\<rparr>)"
  using assms by (simp add: UpdateSourceIpMACs_def Let_def)

text \<open>
  The theorem at a monitor that holds one entry, last active thirty days ago, for a MAC
  that the new one-device map does not contain, with a purge horizon of a week: the entry
  is still there after the call.
\<close>

theorem UpdateSourceIpMACs_equal_lengths_witness:
  "int (length otherDevice) = trafficMapLen staleMonitor
   \<and> UpdateSourceIpMACs weekPurge monday1500 otherDevice staleMonitor
     = Inr (staleMonitor\<lparr>ipMACs := otherDevice\<rparr>)
   \<and> (getTrafficMapKey ''kids'' ''AA-AA-AA-AA-AA-AA'', oldStats)
       \<in> set (trafficMap (staleMonitor\<lparr>ipMACs := otherDevice\<rparr>))
   \<and> ''AA-AA-AA-AA-AA-AA'' \<notin> snd ` set otherDevice
   \<and> lastActiveTimeUTC oldStats < monday1500 - PurgeStatsAfterDuration weekPurge"
proof -
  have l: "int (length otherDevice) = trafficMapLen staleMonitor"
    by (simp add: otherDevice_def staleMonitor_def)
  have "(getTrafficMapKey ''kids'' ''AA-AA-AA-AA-AA-AA'', oldStats)
       \<in> set (trafficMap (staleMonitor\<lparr>ipMACs := otherDevice\<rparr>))
   \<and> ''AA-AA-AA-AA-AA-AA'' \<notin> snd ` set otherDevice
   \<and> lastActiveTimeUTC oldStats < monday1500 - PurgeStatsAfterDuration weekPurge"
    by (simp add: staleMonitor_def otherDevice_def getTrafficMapKey_def
        defaultTrafficMapKeySeparator_def oldStats_def lastMonth_def weekPurge_def
        Hour_def Minute_def Second_def)
  then show ?thesis
    using UpdateSourceIpMACs_equal_lengths [OF l, of weekPurge monday1500] l by simp
qed

text \<open>With a new map of two devices the lengths differ and the same entry is purged.\<close>

lemma staleMonitor_purged:
  "UpdateSourceIpMACs weekPurge monday1500 twoDevices staleMonitor
     = Inr (staleMonitor\<lparr>ipMACs := twoDevices, trafficMap := [], trafficMapLen := 0\<rparr>)"
  by (simp add: UpdateSourceIpMACs_def staleMonitor_def twoDevices_def bindP_def
      getTrafficMapMACFromKey_def defaultTrafficMapKeySeparator_def idx_get_def
      Time_Before_def Time_Add_def oldStats_def lastMonth_def monday1500_def weekPurge_def
      wrap64_def Hour_def Minute_def Second_def Let_def)
section \<open>Packet filter\<close>

lemma getPacketIPs_fails:
  assumes "Payload a = None \<or> (\<exists>payload. Payload a = Some payload \<and> length payload < 20)"
  shows "\<exists>err. getPacketIPs a = Inl err"
  using assms by (auto simp: getPacketIPs_def)

text \<open>
  C9, as amended. For a packet whose payload is nil or shorter than 20 bytes the handler
  writes the single verdict accept for the packet's id and returns 0 without calling the
  group manager, the traffic counter or the usage tracker: their state and the random
  stream are untouched and nothing is slept. The parse failure is logged at error level;
  no line is logged at debug level.
\<close>

theorem fnPacketHandler_parse_failure:
  assumes "Payload a = None \<or> (\<exists>payload. Payload a = Some payload \<and> length payload < 20)"
  shows "verdicts (fnPacketHandler cfg direction col rnd k setVerdictFails a s)
           = [(PacketID a, NfAccept)]
       \<and> retval (fnPacketHandler cfg direction col rnd k setVerdictFails a s) = 0
       \<and> recovered (fnPacketHandler cfg direction col rnd k setVerdictFails a s) = None
       \<and> calls (outcome (fnPacketHandler cfg direction col rnd k setVerdictFails a s)) = []
       \<and> world (outcome (fnPacketHandler cfg direction col rnd k setVerdictFails a s)) = s
       \<and> rng (outcome (fnPacketHandler cfg direction col rnd k setVerdictFails a s)) = k
       \<and> sleeps (outcome (fnPacketHandler cfg direction col rnd k setVerdictFails a s)) = []
       \<and> logs (outcome (fnPacketHandler cfg direction col rnd k setVerdictFails a s))
           = (ErrorLevel, ''Error getting packet data'')
             # (if setVerdictFails then [(ErrorLevel, ''Error setting verdict'')] else [])
       \<and> DebugLevel \<notin> fst ` set (logs (outcome
             (fnPacketHandler cfg direction col rnd k setVerdictFails a s)))"
proof -
  obtain err where "getPacketIPs a = Inl err"
    using getPacketIPs_fails [OF assms] by blast
  then show ?thesis by (auto simp: fnPacketHandler_def Let_def)
qed

text \<open>
  The claim as stated fails on the log level: for a packet without payload, whose verdict
  write succeeds, the only line logged is at error level.
\<close>

theorem fnPacketHandler_parse_failure_counterexample:
  "logs (outcome (fnPacketHandler cfg0 Egress (production defaultActivity monday1500)
                    (\<lambda>_. 1 / 2) 0 False \<lparr>PacketID = 7, Payload = None\<rparr> quietWorld))
     = [(ErrorLevel, ''Error getting packet data'')]
   \<and> DebugLevel \<notin> fst ` set (logs (outcome
         (fnPacketHandler cfg0 Egress (production defaultActivity monday1500)
            (\<lambda>_. 1 / 2) 0 False \<lparr>PacketID = 7, Payload = None\<rparr> quietWorld)))"
  by (simp add: fnPacketHandler_def getPacketIPs_def Let_def)

theorem fnPacketHandler_parse_failure_witness:
  "(Payload \<lparr>PacketID = 7, Payload = Some [69, 0, 0, 40]\<rparr> = None
      \<or> (\<exists>payload. Payload \<lparr>PacketID = 7, Payload = Some [69, 0, 0, 40]\<rparr> = Some payload
            \<and> length payload < 20))
   \<and> verdicts (fnPacketHandler cfg0 Ingress (production defaultActivity monday1500)
                 (\<lambda>_. 1 / 2) 0 False \<lparr>PacketID = 7, Payload = Some [69, 0, 0, 40]\<rparr> quietWorld)
       = [(7, NfAccept)]
   \<and> world (outcome (fnPacketHandler cfg0 Ingress (production defaultActivity monday1500)
                 (\<lambda>_. 1 / 2) 0 False \<lparr>PacketID = 7, Payload = Some [69, 0, 0, 40]\<rparr> quietWorld))
       = quietWorld"
proof -
  have h: "Payload \<lparr>PacketID = 7, Payload = Some [69, 0, 0, 40]\<rparr> = None
      \<or> (\<exists>payload. Payload \<lparr>PacketID = 7, Payload = Some [69, 0, 0, 40]\<rparr> = Some payload
            \<and> length payload < 20)"
    by simp
  show ?thesis
    using h fnPacketHandler_parse_failure [OF h, of cfg0 Ingress
        "production defaultActivity monday1500" "\<lambda>_. 1 / 2" 0 False quietWorld]
    by simp
qed

lemma truncate_rat_abs:
  assumes "\<bar>x\<bar> \<le> of_int m"
  shows "\<bar>truncate_rat x\<bar> \<le> m"
proof (cases "0 \<le> x")
  case True
  then have "0 \<le> \<lfloor>x\<rfloor>" by simp
  moreover have "\<lfloor>x\<rfloor> \<le> m" using assms True by (simp add: floor_le_iff)
  ultimately show ?thesis using True by (simp add: truncate_rat_def)
next
  case False
  then have "\<lceil>x\<rceil> \<le> 0" by (simp add: ceiling_le_iff)
  moreover have "- m \<le> \<lceil>x\<rceil>" using assms False by (simp add: le_ceiling_iff)
  ultimately show ?thesis using False by (simp add: truncate_rat_def)
qed

lemma ApplyJitter_range: "0 \<le> ApplyJitter b j u \<and> ApplyJitter b j u \<le> maxInt64"
  using wrap64_range [of "b + truncate_rat ((u * 2 - 1) * of_int j)"]
  by (simp add: ApplyJitter_def Let_def maxInt64_def)

lemma ApplyJitter_tight:
  assumes u: "0 \<le> u" "u < 1" and b: "0 \<le> b" and j: "is_int64 j"
    and sum: "b + \<bar>j\<bar> \<le> maxInt64"
  shows "ApplyJitter b j u \<le> b + \<bar>j\<bar>"
proof -
  define x where "x = (u * 2 - 1) * of_int j"
  have "\<bar>u * 2 - 1\<bar> \<le> 1" using u by (simp add: abs_le_iff)
  then have "\<bar>x\<bar> \<le> 1 * \<bar>of_int j\<bar>"
    unfolding x_def abs_mult by (rule mult_right_mono) simp
  then have "\<bar>x\<bar> \<le> of_int \<bar>j\<bar>" by simp
  then have t: "\<bar>truncate_rat x\<bar> \<le> \<bar>j\<bar>" by (rule truncate_rat_abs)
  have "\<bar>j\<bar> \<le> 2 ^ 63" using j by (auto simp: is_int64_def minInt64_def maxInt64_def)
  then have "minInt64 \<le> b + truncate_rat x" "b + truncate_rat x \<le> maxInt64"
    using t b sum by (simp_all add: minInt64_def)
  then have "wrap64 (b + truncate_rat x) = b + truncate_rat x" by (rule wrap64_id)
  moreover have "truncate_rat x \<le> \<bar>j\<bar>" using t by simp
  ultimately show ?thesis using b by (simp add: ApplyJitter_def Let_def x_def [symmetric])
qed

lemma decision_names:
  "''drop'' \<noteq> ''delay''" "''drop'' \<noteq> ''accept''" "''delay'' \<noteq> ''accept''"
  "''delay'' \<noteq> ''drop''" "''accept'' \<noteq> ''drop''" "''accept'' \<noteq> ''delay''"
  by simp_all

lemma degrade_cases:
  assumes "degrade cfg proto rnd r = (decision, r')"
  shows "(decision = ''drop'' \<and> verdict r' = NfDrop \<and> sleeps r' = sleeps r)
       \<or> (decision = ''delay'' \<and> verdict r' = verdict r \<and> 0 < PacketDelayMs cfg
            \<and> (\<exists>u. sleeps r' = sleeps r @ [ApplyJitter (PacketDelayMs cfg) (PacketJitterMs cfg) u]
                   \<and> u \<in> range rnd))
       \<or> (decision = ''accept'' \<and> verdict r' = verdict r \<and> sleeps r' = sleeps r)"
proof -
  let ?drop = "rnd (rng r) < PacketDropPercentage cfg \<or> (proto = ''UDP'' \<and> PacketDropUDP cfg)"
  let ?delay = "rnd (rng r + 1) < PacketDelayPercentage cfg"
  consider (a) ?drop | (b) "\<not> ?drop" "0 < PacketDelayMs cfg" ?delay
    | (c) "\<not> ?drop" "0 < PacketDelayMs cfg" "\<not> ?delay" | (d) "\<not> ?drop" "\<not> 0 < PacketDelayMs cfg"
    by blast
  then show ?thesis
  proof cases
    case a
    then have "degrade cfg proto rnd r = (''drop'', r\<lparr>rng := rng r + 1, verdict := NfDrop\<rparr>)"
      by (simp add: degrade_def Let_def)
    then show ?thesis using assms by auto
  next
    case b
    then have "degrade cfg proto rnd r =
        (''delay'', r\<lparr>rng := rng r + 3,
                       sleeps := sleeps r @ [ApplyJitter (PacketDelayMs cfg) (PacketJitterMs cfg)
                                               (rnd (rng r + 2))]\<rparr>)"
      by (simp add: degrade_def Let_def)
    then show ?thesis using assms b(2) by auto
  next
    case c
    then have "degrade cfg proto rnd r = (''accept'', r\<lparr>rng := rng r + 2\<rparr>)"
      by (simp add: degrade_def Let_def)
    then show ?thesis using assms by auto
  next
    case d
    then have "degrade cfg proto rnd r = (''accept'', r\<lparr>rng := rng r + 1\<rparr>)"
      by (simp add: degrade_def Let_def)
    then show ?thesis using assms by auto
  qed
qed

lemma degrade_frame:
  assumes "degrade cfg proto rnd r = (decision, r')"
  shows "decisions r' = decisions r \<and> world r' = world r \<and> calls r' = calls r
       \<and> logs r' = logs r"
  using assms by (auto simp: degrade_def Let_def split: if_splits)

lemma degrade_step:
  assumes c: "run_consistent r" and d: "degrade cfg proto rnd r = (decision, r')"
  shows "run_consistent (r'\<lparr>decisions := decisions r' @ [decision]\<rparr>)
       \<and> set (sleeps r') \<subseteq> set (sleeps r) \<union> jitterValues cfg rnd"
proof -
  have f: "decisions r' = decisions r" using degrade_frame [OF d] by simp
  from degrade_cases [OF d] show ?thesis
  proof (elim disjE conjE exE)
    assume "decision = ''drop''" "verdict r' = NfDrop" "sleeps r' = sleeps r"
    then show ?thesis using c f by (simp add: run_consistent_def decision_names)
  next
    fix u
    assume "decision = ''delay''" "verdict r' = verdict r" "0 < PacketDelayMs cfg"
      "sleeps r' = sleeps r @ [ApplyJitter (PacketDelayMs cfg) (PacketJitterMs cfg) u]"
      "u \<in> range rnd"
    then show ?thesis
      using c f by (auto simp: run_consistent_def decision_names jitterValues_def)
  next
    assume "decision = ''accept''" "verdict r' = verdict r" "sleeps r' = sleeps r"
    then show ?thesis using c f by (auto simp: run_consistent_def decision_names)
  qed
qed

lemma accept_step:
  assumes "run_consistent r"
  shows "run_consistent (r\<lparr>decisions := decisions r @ [''accept'']\<rparr>)"
  using assms by (auto simp: run_consistent_def decision_names)

lemma run_consistent_cong:
  assumes "verdict r' = verdict r" "decisions r' = decisions r" "sleeps r' = sleeps r"
  shows "run_consistent r' = run_consistent r"
  using assms by (simp add: run_consistent_def)

lemma handleGroup_step:
  assumes c: "run_consistent r"
    and h: "handleGroup cfg direction col rnd proto srcIp l grp r = Inr r'"
  shows "run_consistent r'
       \<and> length (decisions r') = Suc (length (decisions r))
       \<and> set (sleeps r') \<subseteq> set (sleeps r) \<union> jitterValues cfg rnd"
proof -
  from h obtain active s1 s2 exceeded s3 where
    "tcCountTraffic col grp srcIp direction 1 l (world r) = Inr (active, s1)"
    "utAddSample col grp active s1 = Inr s2"
    and ex: "utHasExceededThreshold col grp s2 = Inr (exceeded, s3)"
    and r': "r' = (let r3 = r\<lparr>calls := calls r @ [CallCountTraffic, CallAddSample,
                                                     CallHasExceededThreshold],
                               world := s3\<rparr>;
                      (decision, r4) =
                           (if exceeded then degrade cfg proto rnd r3 else (''accept'', r3))
                  in r4\<lparr>decisions := decisions r4 @ [decision],
                         logs := logs r4 @ [(DebugLevel, ''handled packet'')]\<rparr>)"
    by (auto simp: handleGroup_def Let_def split: sum.splits prod.splits)
  define r3 where "r3 = r\<lparr>calls := calls r @ [CallCountTraffic, CallAddSample,
                                                  CallHasExceededThreshold], world := s3\<rparr>"
  have c3: "run_consistent r3"
    using c run_consistent_cong [of r3 r] by (simp add: r3_def)
  have s3: "sleeps r3 = sleeps r" "decisions r3 = decisions r" by (simp_all add: r3_def)
  show ?thesis
  proof (cases exceeded)
    case True
    obtain decision r4 where d: "degrade cfg proto rnd r3 = (decision, r4)"
      by (cases "degrade cfg proto rnd r3")
    have r'eq: "r' = r4\<lparr>decisions := decisions r4 @ [decision],
                         logs := logs r4 @ [(DebugLevel, ''handled packet'')]\<rparr>"
      using r' True d by (simp add: r3_def [symmetric])
    have c4: "run_consistent (r4\<lparr>decisions := decisions r4 @ [decision]\<rparr>)"
      and sub: "set (sleeps r4) \<subseteq> set (sleeps r3) \<union> jitterValues cfg rnd"
      using degrade_step [OF c3 d] by simp_all
    have d4: "decisions r4 = decisions r3" using degrade_frame [OF d] by simp
    have "run_consistent r' = run_consistent (r4\<lparr>decisions := decisions r4 @ [decision]\<rparr>)"
      by (rule run_consistent_cong) (simp_all add: r'eq)
    then have "run_consistent r'" using c4 by simp
    moreover have "length (decisions r') = Suc (length (decisions r))"
      using d4 s3 by (simp add: r'eq)
    moreover have "set (sleeps r') \<subseteq> set (sleeps r) \<union> jitterValues cfg rnd"
      using sub s3 by (simp add: r'eq)
    ultimately show ?thesis by simp
  next
    case False
    then have r'eq: "r' = r3\<lparr>decisions := decisions r3 @ [''accept''],
                              logs := logs r3 @ [(DebugLevel, ''handled packet'')]\<rparr>"
      using r' by (simp add: r3_def [symmetric])
    have c4: "run_consistent (r3\<lparr>decisions := decisions r3 @ [''accept'']\<rparr>)"
      using c3 by (rule accept_step)
    have "run_consistent r' = run_consistent (r3\<lparr>decisions := decisions r3 @ [''accept'']\<rparr>)"
      by (rule run_consistent_cong) (simp_all add: r'eq)
    then have "run_consistent r'" using c4 by simp
    moreover have "length (decisions r') = Suc (length (decisions r))"
      using s3 by (simp add: r'eq)
    moreover have "set (sleeps r') \<subseteq> set (sleeps r) \<union> jitterValues cfg rnd"
      using s3 by (auto simp: r'eq)
    ultimately show ?thesis by simp
  qed
qed

lemma handleGroups_steps:
  assumes "run_consistent r"
    and "handleGroups cfg direction col rnd proto srcIp l groups r = Inr r'"
  shows "run_consistent r'
       \<and> length (decisions r') = length (decisions r) + length groups
       \<and> set (sleeps r') \<subseteq> set (sleeps r) \<union> jitterValues cfg rnd"
  using assms
proof (induction groups arbitrary: r)
  case Nil
  then show ?case by simp
next
  case (Cons grp rest)
  from Cons.prems(2) obtain r1 where
    one: "handleGroup cfg direction col rnd proto srcIp l grp r = Inr r1"
    and more: "handleGroups cfg direction col rnd proto srcIp l rest r1 = Inr r'"
    by (auto split: sum.splits)
  have s1: "run_consistent r1" "length (decisions r1) = Suc (length (decisions r))"
    "set (sleeps r1) \<subseteq> set (sleeps r) \<union> jitterValues cfg rnd"
    using handleGroup_step [OF Cons.prems(1) one] by simp_all
  have "run_consistent r'" "length (decisions r') = length (decisions r1) + length rest"
    "set (sleeps r') \<subseteq> set (sleeps r1) \<union> jitterValues cfg rnd"
    using Cons.IH [OF s1(1) more] by simp_all
  then show ?case using s1 by auto
qed

lemma handleGroup_world:
  "(case handleGroup cfg direction col rnd proto srcIp l grp r of
      Inl (e, r') \<Rightarrow> firstPanic col srcIp direction l (grp # rest) (world r) = Some e
    | Inr r' \<Rightarrow>
        firstPanic col srcIp direction l (grp # rest) (world r)
          = firstPanic col srcIp direction l rest (world r')
        \<and> logs r' = logs r @ [(DebugLevel, ''handled packet'')])"
proof (cases "tcCountTraffic col grp srcIp direction 1 l (world r)")
  case (Inl e)
  then show ?thesis by (simp add: handleGroup_def Let_def)
next
  case (Inr p)
  obtain active s1 where p: "p = (active, s1)" by (cases p)
  show ?thesis
  proof (cases "utAddSample col grp active s1")
    case (Inl e)
    then show ?thesis using Inr p by (simp add: handleGroup_def Let_def)
  next
    case s2: (Inr s2)
    show ?thesis
    proof (cases "utHasExceededThreshold col grp s2")
      case (Inl e)
      then show ?thesis using Inr p s2 by (simp add: handleGroup_def Let_def)
    next
      case q: (Inr q)
      obtain exceeded s3 where q': "q = (exceeded, s3)" by (cases q)
      define r3 where "r3 = r\<lparr>calls := calls r @ [CallCountTraffic, CallAddSample,
                                                      CallHasExceededThreshold], world := s3\<rparr>"
      obtain decision r4 where d: "degrade cfg proto rnd r3 = (decision, r4)"
        by (cases "degrade cfg proto rnd r3")
      have f: "world r4 = world r3" "logs r4 = logs r3"
        using degrade_frame [OF d] by simp_all
      have "handleGroup cfg direction col rnd proto srcIp l grp r
              = Inr (if exceeded
                     then r4\<lparr>decisions := decisions r4 @ [decision],
                             logs := logs r4 @ [(DebugLevel, ''handled packet'')]\<rparr>
                     else r3\<lparr>decisions := decisions r3 @ [''accept''],
                             logs := logs r3 @ [(DebugLevel, ''handled packet'')]\<rparr>)"
        using Inr p s2 q q' d by (simp add: handleGroup_def Let_def r3_def)
      then show ?thesis
        using Inr p s2 q q' f by (simp add: r3_def)
    qed
  qed
qed

lemma handleGroups_world:
  "(case handleGroups cfg direction col rnd proto srcIp l groups r of
      Inl (e, r') \<Rightarrow> firstPanic col srcIp direction l groups (world r) = Some e
    | Inr r' \<Rightarrow>
        firstPanic col srcIp direction l groups (world r) = None
        \<and> logs r' = logs r @ replicate (length groups) (DebugLevel, ''handled packet''))"
proof (induction groups arbitrary: r)
  case Nil
  show ?case by simp
next
  case (Cons grp rest)
  show ?case
  proof (cases "handleGroup cfg direction col rnd proto srcIp l grp r")
    case (Inl p)
    obtain e r' where p: "p = (e, r')" by (cases p)
    show ?thesis
      using handleGroup_world [where cfg = cfg and direction = direction and col = col
          and rnd = rnd and proto = proto and srcIp = srcIp and l = l and grp = grp and r = r
          and rest = rest] Inl p
      by simp
  next
    case (Inr r1)
    have one: "firstPanic col srcIp direction l (grp # rest) (world r)
                 = firstPanic col srcIp direction l rest (world r1)"
      "logs r1 = logs r @ [(DebugLevel, ''handled packet'')]"
      using handleGroup_world [where cfg = cfg and direction = direction and col = col
          and rnd = rnd and proto = proto and srcIp = srcIp and l = l and grp = grp and r = r
          and rest = rest] Inr
      by simp_all
    show ?thesis
    proof (cases "handleGroups cfg direction col rnd proto srcIp l rest r1")
      case (Inl p)
      obtain e r' where p: "p = (e, r')" by (cases p)
      show ?thesis using Cons.IH [of r1] Inl p Inr one by simp
    next
      case r2: (Inr r2)
      show ?thesis
        using Cons.IH [of r1] r2 Inr one by (simp add: replicate_append_same)
    qed
  qed
qed

text \<open>
  When no call of a collaborator can panic, no call of a run does; and a panic that ends a
  run is the result of a call of a collaborator for one of the matched groups.
\<close>

lemma firstPanic_never:
  assumes "\<And>grp w e. tcCountTraffic col grp srcIp direction 1 l w \<noteq> Inl e"
    and "\<And>grp active w e. utAddSample col grp active w \<noteq> Inl e"
    and "\<And>grp w e. utHasExceededThreshold col grp w \<noteq> Inl e"
  shows "firstPanic col srcIp direction l groups s = None"
proof (induction groups arbitrary: s)
  case Nil
  show ?case by simp
next
  case (Cons grp rest)
  show ?case
    using assms Cons.IH by (auto split: sum.splits)
qed

lemma firstPanic_call:
  assumes "firstPanic col srcIp direction l groups s = Some e"
  shows "\<exists>grp \<in> set groups. \<exists>w.
           tcCountTraffic col grp srcIp direction 1 l w = Inl e
           \<or> (\<exists>active. utAddSample col grp active w = Inl e)
           \<or> utHasExceededThreshold col grp w = Inl e"
  using assms
proof (induction groups arbitrary: s)
  case Nil
  then show ?case by simp
next
  case (Cons grp rest)
  then show ?case
    by (fastforce split: sum.splits prod.splits)
qed

text \<open>
  C1, as amended. For a queued packet that parses and whose classifier addresses the
  group manager knows, with matched groups \<open>groups\<close>. The handler returns 0, and a panic
  is recovered exactly when a call of the traffic counter or the usage tracker panics on
  the run (\<open>firstPanic\<close>, which reads only the collaborators).

  When no call panics, the handler writes exactly one verdict, for the packet's id, and it
  is accept or drop; one decision is logged per matched group, each accept, delay or drop;
  the verdict is drop exactly when drop was decided for at least one group, so it is accept
  when the most restrictive decision is delay or accept; one sleep is made per delay
  decision, each between zero and the largest \<open>Duration\<close>, and at most the configured delay
  plus the size of the jitter when the draws are in \<open>[0, 1)\<close> and that sum is a
  \<open>Duration\<close>; the log holds one debug line per group, then the error of the verdict write
  if it failed, and no recovery line.

  When a call panics, the recovery function ends the handler: no verdict is written and
  the last line of the log is the recovery function's error line.
\<close>

theorem fnPacketHandler_verdict:
  assumes "getPacketIPs a = Inr (pips, l)"
    and "gmIsSrcDestIpKnown col s (classifierSrc direction pips) (classifierDst direction pips)
           = (groups, True)"
  shows "(let h = fnPacketHandler cfg direction col rnd k setVerdictFails a s in
          retval h = 0
          \<and> recovered h = firstPanic col (classifierSrc direction pips) direction l groups s
          \<and> (case recovered h of
                Some e \<Rightarrow>
                  verdicts h = []
                  \<and> (\<exists>before. logs (outcome h)
                                = before @ [(ErrorLevel, ''Recovered from panic'')])
              | None \<Rightarrow>
                  (\<exists>v. verdicts h = [(PacketID a, v)]
                      \<and> (v = NfAccept \<or> v = NfDrop)
                      \<and> (v = NfDrop) = (''drop'' \<in> set (decisions (outcome h))))
                  \<and> length (decisions (outcome h)) = length groups
                  \<and> set (decisions (outcome h)) \<subseteq> {''accept'', ''delay'', ''drop''}
                  \<and> length (sleeps (outcome h))
                      = length (filter (\<lambda>d. d = ''delay'') (decisions (outcome h)))
                  \<and> (\<forall>d \<in> set (sleeps (outcome h)). 0 \<le> d \<and> d \<le> maxInt64)
                  \<and> ((\<forall>i. 0 \<le> rnd i \<and> rnd i < 1) \<and> is_int64 (PacketJitterMs cfg)
                       \<and> PacketDelayMs cfg + \<bar>PacketJitterMs cfg\<bar> \<le> maxInt64
                     \<longrightarrow> (\<forall>d \<in> set (sleeps (outcome h)).
                            d \<le> PacketDelayMs cfg + \<bar>PacketJitterMs cfg\<bar>))
                  \<and> logs (outcome h)
                      = replicate (length groups) (DebugLevel, ''handled packet'')
                        @ (if setVerdictFails then [(ErrorLevel, ''Error setting verdict'')]
                           else [])
                  \<and> (ErrorLevel, ''Recovered from panic'') \<notin> set (logs (outcome h))))"
proof -
  define r1 :: "'a run" where
    "r1 = \<lparr>world = s, rng = k, verdict = NfAccept, decisions = [], sleeps = [],
           calls = [CallIsSrcDestIpKnown], logs = []\<rparr>"
  define loop where
    "loop = handleGroups cfg direction col rnd (protoName (protocolByte a))
              (classifierSrc direction pips) l groups r1"
  define verdictError where
    "verdictError = (if setVerdictFails then [(ErrorLevel, ''Error setting verdict'')] else [])"
  have h: "fnPacketHandler cfg direction col rnd k setVerdictFails a s =
             (case loop of
                Inl (e, r) \<Rightarrow>
                  \<lparr>retval = 0, verdicts = [], recovered = Some e,
                   outcome = r\<lparr>logs := logs r @ [(ErrorLevel, ''Recovered from panic'')]\<rparr>\<rparr>
              | Inr r \<Rightarrow>
                  \<lparr>retval = 0, verdicts = [(PacketID a, verdict r)], recovered = None,
                   outcome = r\<lparr>logs := logs r @ verdictError\<rparr>\<rparr>)"
    unfolding loop_def r1_def verdictError_def
    using assms by (simp add: fnPacketHandler_def Let_def)
  have c1: "run_consistent r1" by (simp add: run_consistent_def r1_def)
  have r1w: "world r1 = s" "logs r1 = []" by (simp_all add: r1_def)
  have w: "(case loop of
              Inl (e, r') \<Rightarrow>
                firstPanic col (classifierSrc direction pips) direction l groups s = Some e
            | Inr r' \<Rightarrow>
                firstPanic col (classifierSrc direction pips) direction l groups s = None
                \<and> logs r' = replicate (length groups) (DebugLevel, ''handled packet''))"
    using handleGroups_world [where cfg = cfg and direction = direction and col = col
        and rnd = rnd and proto = "protoName (protocolByte a)"
        and srcIp = "classifierSrc direction pips" and l = l and groups = groups and r = r1]
    by (auto simp: loop_def r1w split: sum.splits)
  show ?thesis
  proof (cases loop)
    case (Inl p)
    obtain e r where p: "p = (e, r)" by (cases p)
    show ?thesis using h w Inl p by (simp add: Let_def)
  next
    case (Inr r)
    then have "handleGroups cfg direction col rnd (protoName (protocolByte a))
                 (classifierSrc direction pips) l groups r1 = Inr r"
      by (simp add: loop_def)
    from handleGroups_steps [OF c1 this]
    have c: "run_consistent r" and len: "length (decisions r) = length groups"
      and sl: "set (sleeps r) \<subseteq> jitterValues cfg rnd"
      by (simp_all add: r1_def)
    have fp: "firstPanic col (classifierSrc direction pips) direction l groups s = None"
      and lg: "logs r = replicate (length groups) (DebugLevel, ''handled packet'')"
      using w Inr by simp_all
    have range: "\<forall>d \<in> set (sleeps r). 0 \<le> d \<and> d \<le> maxInt64"
      using sl ApplyJitter_range by (fastforce simp: jitterValues_def)
    have tight: "\<forall>d \<in> set (sleeps r). d \<le> PacketDelayMs cfg + \<bar>PacketJitterMs cfg\<bar>"
      if t: "\<forall>i. 0 \<le> rnd i \<and> rnd i < 1" "is_int64 (PacketJitterMs cfg)"
        "PacketDelayMs cfg + \<bar>PacketJitterMs cfg\<bar> \<le> maxInt64"
    proof
      fix d assume "d \<in> set (sleeps r)"
      then obtain i where pos: "0 < PacketDelayMs cfg"
        and d: "d = ApplyJitter (PacketDelayMs cfg) (PacketJitterMs cfg) (rnd i)"
        using sl by (auto simp: jitterValues_def)
      have "0 \<le> rnd i" "rnd i < 1" using t(1) by simp_all
      then show "d \<le> PacketDelayMs cfg + \<bar>PacketJitterMs cfg\<bar>"
        unfolding d using pos t(2,3) by (intro ApplyJitter_tight) simp_all
    qed
    have hr: "fnPacketHandler cfg direction col rnd k setVerdictFails a s =
                \<lparr>retval = 0, verdicts = [(PacketID a, verdict r)], recovered = None,
                 outcome = r\<lparr>logs := logs r @ verdictError\<rparr>\<rparr>"
      using h Inr by simp
    have v: "(verdict r = NfAccept \<or> verdict r = NfDrop)"
      "(verdict r = NfDrop) = (''drop'' \<in> set (decisions r))"
      "set (decisions r) \<subseteq> {''accept'', ''delay'', ''drop''}"
      "length (sleeps r) = length (filter (\<lambda>d. d = ''delay'') (decisions r))"
      using c by (auto simp: run_consistent_def)
    have nolog: "(ErrorLevel, ''Recovered from panic'') \<notin> set (logs r @ verdictError)"
      by (simp add: lg verdictError_def)
    have lgs: "logs r @ verdictError
                 = replicate (length groups) (DebugLevel, ''handled packet'')
                   @ (if setVerdictFails then [(ErrorLevel, ''Error setting verdict'')] else [])"
      by (simp add: lg verdictError_def)
    show ?thesis
      unfolding hr Let_def using v len range tight fp nolog lgs by simp
  qed
qed

lemma tcpPacket_ips:
  "getPacketIPs tcpPacket = Inr (\<lparr>src = [192, 168, 1, 10], dst = [142, 250, 0, 1]\<rparr>, 20)"
  by (simp add: getPacketIPs_def tcpPacket_def)

lemma ip_strings:
  "IP_String [192, 168, 1, 10] = ''192.168.1.10''"
  "IP_String [142, 250, 0, 1] = ''142.250.0.1''"
  by (simp_all add: IP_String_def byteString_def digit_def Let_def)

lemma tcpPacket_proto: "protoName (protocolByte tcpPacket) = ''TCP''"
  by (simp add: protoName_def protocolByte_def tcpPacket_def)

lemma short_AddSample:
  "AddSample monday1500 ''kids'' True shortTracker = Inl IntegerDivideByZero"
  by (simp add: AddSample_def shortTracker_def shortConfig_def hourlyConfig_def
     newDeviceData_def getSampleSize_def go_div_def make_bools_def maxAlloc_def
      calculateWindow_def Time_Truncate_def Time_Add_def Time_Before_def wrap64_def
      markSample_def syncWindow_def elapsedSlices_def Time_Sub_def minInt64_def maxInt64_def
      getIndex_def go_rem_def monday1500_def
      Hour_def Minute_def Second_def signed_divide_int_def Let_def)

lemma replicate60: "replicate 60 False = False # replicate 59 False"
  by (simp add: numeral_eq_Suc)

lemma strict_AddSample:
  "AddSample monday1500 ''kids'' True strictTracker = Inr strictTracker1"
  by (simp add: AddSample_def strictTracker_def strictTracker1_def strictConfig_def hourlyConfig_def
     newDeviceData_def getSampleSize_def go_div_def make_bools_def maxAlloc_def
      calculateWindow_def Time_Truncate_def Time_Add_def Time_Before_def wrap64_def
      markSample_def syncWindow_def elapsedSlices_def Time_Sub_def minInt64_def maxInt64_def
      getIndex_def go_rem_def monday1500_def setSample_def expireMode_def replicate60
      Hour_def Minute_def Second_def signed_divide_int_def signed_modulo_int_def Let_def)

lemma countSeen_none: "countSeen (replicate n False) = 0"
  by (induction n) simp_all

lemma strict_exceeded:
  "HasExceededThreshold monday1500 monday1500 ''kids'' strictTracker1 = Inr (True, strictTracker1)"
  by (simp add: HasExceededThreshold_def strictTracker1_def strictConfig_def hourlyConfig_def
      syncWindow_def elapsedSlices_def go_div_def Time_Sub_def minInt64_def maxInt64_def
      wrap64_def countSeen_none Minute_def Second_def Let_def)

lemma production_known:
  "gmIsSrcDestIpKnown (production amc now) (w\<lparr>wMatchAll := False, wManager := kidsManager\<rparr>)
     ''192.168.1.10'' ''142.250.0.1'' = ([''kids''], True)"
  by (simp add: production_def IsSrcDestIpKnown_def isSrcIpGroupKnown_def isDstIpGroupKnown_def
      kidsManager_def)

lemma production_count_unknown:
  "tcCountTraffic (production amc now) grp ip direction count packetLen
     (w\<lparr>wTraffic := noSnapshot\<rparr>) = Inr (True, w\<lparr>wTraffic := noSnapshot\<rparr>)"
  by (simp add: production_def CountTraffic_def noSnapshot_def)

lemma tcpPacket_classified:
  "classifierSrc Egress \<lparr>src = [192, 168, 1, 10], dst = [142, 250, 0, 1]\<rparr> = ''192.168.1.10''"
  "classifierDst Egress \<lparr>src = [192, 168, 1, 10], dst = [142, 250, 0, 1]\<rparr> = ''142.250.0.1''"
  by (simp_all add: classifierSrc_def classifierDst_def ip_strings)

lemma shortWorld_handled:
  "fnPacketHandler cfg0 Egress (production defaultActivity monday1500) (\<lambda>_. 1 / 2) 0 False
     tcpPacket shortWorld
   = \<lparr>retval = 0, verdicts = [], recovered = Some IntegerDivideByZero,
      outcome = \<lparr>world = shortWorld, rng = 0, verdict = NfAccept, decisions = [], sleeps = [],
                 calls = [CallIsSrcDestIpKnown, CallCountTraffic, CallAddSample],
                 logs = [(ErrorLevel, ''Recovered from panic'')]\<rparr>\<rparr>"
proof -
  have k: "gmIsSrcDestIpKnown (production defaultActivity monday1500) shortWorld
             ''192.168.1.10'' ''142.250.0.1'' = ([''kids''], True)"
    using production_known [of defaultActivity monday1500 shortWorld]
    by (simp add: shortWorld_def)
  have c: "tcCountTraffic (production defaultActivity monday1500) ''kids'' ''192.168.1.10''
             Egress 1 20 shortWorld = Inr (True, shortWorld)"
    using production_count_unknown [of defaultActivity monday1500 "''kids''" "''192.168.1.10''"
        Egress 1 20 shortWorld]
    by (simp add: shortWorld_def)
  have a: "utAddSample (production defaultActivity monday1500) ''kids'' True shortWorld
             = Inl IntegerDivideByZero"
    by (simp add: production_def shortWorld_def short_AddSample)
  show ?thesis
    by (simp add: fnPacketHandler_def tcpPacket_ips tcpPacket_classified tcpPacket_proto k
        handleGroup_def c a Let_def)
qed

text \<open>
  The claim as stated fails when a collaborator panics. Group \<open>kids\<close> is configured with
  a retention of thirty seconds and a granularity of one minute, so its sample size is 0:
  for a parsed packet of a known pair, \<open>AddSample\<close> divides by zero in \<open>getIndex\<close>, the
  recovery function catches the panic, and the handler ends without writing a verdict.
\<close>

theorem fnPacketHandler_verdict_counterexample:
  "getPacketIPs tcpPacket = Inr (\<lparr>src = [192, 168, 1, 10], dst = [142, 250, 0, 1]\<rparr>, 20)
   \<and> gmIsSrcDestIpKnown (production defaultActivity monday1500) shortWorld
        (classifierSrc Egress \<lparr>src = [192, 168, 1, 10], dst = [142, 250, 0, 1]\<rparr>)
        (classifierDst Egress \<lparr>src = [192, 168, 1, 10], dst = [142, 250, 0, 1]\<rparr>)
       = ([''kids''], True)
   \<and> AddSample monday1500 ''kids'' True (wTracker shortWorld) = Inl IntegerDivideByZero
   \<and> verdicts (fnPacketHandler cfg0 Egress (production defaultActivity monday1500)
                 (\<lambda>_. 1 / 2) 0 False tcpPacket shortWorld) = []
   \<and> recovered (fnPacketHandler cfg0 Egress (production defaultActivity monday1500)
                 (\<lambda>_. 1 / 2) 0 False tcpPacket shortWorld) = Some IntegerDivideByZero"
proof -
  have k: "gmIsSrcDestIpKnown (production defaultActivity monday1500) shortWorld
             ''192.168.1.10'' ''142.250.0.1'' = ([''kids''], True)"
    using production_known [of defaultActivity monday1500 shortWorld]
    by (simp add: shortWorld_def)
  have t: "wTracker shortWorld = shortTracker" by (simp add: shortWorld_def)
  show ?thesis
    by (simp add: tcpPacket_ips tcpPacket_classified k t short_AddSample shortWorld_handled)
qed

lemma strictWorld_handled:
  "fnPacketHandler cfg0 Egress (production defaultActivity monday1500) (\<lambda>_. 1 / 2) 0 False
     tcpPacket strictWorld
   = \<lparr>retval = 0, verdicts = [(7, NfAccept)], recovered = None,
      outcome = \<lparr>world = strictWorld\<lparr>wTracker := strictTracker1\<rparr>, rng = 3,
                 verdict = NfAccept, decisions = [''delay''], sleeps = [100000000],
                 calls = [CallIsSrcDestIpKnown, CallCountTraffic, CallAddSample,
                          CallHasExceededThreshold],
                 logs = [(DebugLevel, ''handled packet'')]\<rparr>\<rparr>"
proof -
  have k: "gmIsSrcDestIpKnown (production defaultActivity monday1500) strictWorld
             ''192.168.1.10'' ''142.250.0.1'' = ([''kids''], True)"
    using production_known [of defaultActivity monday1500 strictWorld]
    by (simp add: strictWorld_def)
  have c: "tcCountTraffic (production defaultActivity monday1500) ''kids'' ''192.168.1.10''
             Egress 1 20 strictWorld = Inr (True, strictWorld)"
    using production_count_unknown [of defaultActivity monday1500 "''kids''" "''192.168.1.10''"
        Egress 1 20 strictWorld]
    by (simp add: strictWorld_def)
  have a: "utAddSample (production defaultActivity monday1500) ''kids'' True strictWorld
             = Inr (strictWorld\<lparr>wTracker := strictTracker1\<rparr>)"
    by (simp add: production_def strictWorld_def strict_AddSample)
  have e: "utHasExceededThreshold (production defaultActivity monday1500) ''kids''
             (strictWorld\<lparr>wTracker := strictTracker1\<rparr>)
             = Inr (True, strictWorld\<lparr>wTracker := strictTracker1\<rparr>)"
    by (simp add: production_def strictWorld_def strict_exceeded)
  have i: "PacketID tcpPacket = 7" by (simp add: tcpPacket_def)
  have j: "ApplyJitter 100000000 50000000 (1 / 2) = 100000000"
    by (simp add: ApplyJitter_def truncate_rat_def wrap64_def)
  show ?thesis
    by (simp add: fnPacketHandler_def tcpPacket_ips tcpPacket_classified tcpPacket_proto k
        handleGroup_def c a e degrade_def cfg0_def j i Let_def)
qed

lemma strictWorld_dropped:
  "fnPacketHandler cfg0 Egress (production defaultActivity monday1500) (\<lambda>_. 0) 0 False
     tcpPacket strictWorld
   = \<lparr>retval = 0, verdicts = [(7, NfDrop)], recovered = None,
      outcome = \<lparr>world = strictWorld\<lparr>wTracker := strictTracker1\<rparr>, rng = 1,
                 verdict = NfDrop, decisions = [''drop''], sleeps = [],
                 calls = [CallIsSrcDestIpKnown, CallCountTraffic, CallAddSample,
                          CallHasExceededThreshold],
                 logs = [(DebugLevel, ''handled packet'')]\<rparr>\<rparr>"
proof -
  have k: "gmIsSrcDestIpKnown (production defaultActivity monday1500) strictWorld
             ''192.168.1.10'' ''142.250.0.1'' = ([''kids''], True)"
    using production_known [of defaultActivity monday1500 strictWorld]
    by (simp add: strictWorld_def)
  have c: "tcCountTraffic (production defaultActivity monday1500) ''kids'' ''192.168.1.10''
             Egress 1 20 strictWorld = Inr (True, strictWorld)"
    using production_count_unknown [of defaultActivity monday1500 "''kids''" "''192.168.1.10''"
        Egress 1 20 strictWorld]
    by (simp add: strictWorld_def)
  have a: "utAddSample (production defaultActivity monday1500) ''kids'' True strictWorld
             = Inr (strictWorld\<lparr>wTracker := strictTracker1\<rparr>)"
    by (simp add: production_def strictWorld_def strict_AddSample)
  have e: "utHasExceededThreshold (production defaultActivity monday1500) ''kids''
             (strictWorld\<lparr>wTracker := strictTracker1\<rparr>)
             = Inr (True, strictWorld\<lparr>wTracker := strictTracker1\<rparr>)"
    by (simp add: production_def strictWorld_def strict_exceeded)
  have i: "PacketID tcpPacket = 7" by (simp add: tcpPacket_def)
  show ?thesis
    by (simp add: fnPacketHandler_def tcpPacket_ips tcpPacket_classified tcpPacket_proto k
        handleGroup_def c a e degrade_def cfg0_def i Let_def)
qed

text \<open>
  The theorem at three runs of the production collaborators on one TCP packet of a known
  pair. Group \<open>kids\<close> has exceeded a threshold of one minute: with every draw at one half
  the decision is delay, one sleep of 100 ms is made and the verdict is accept; with every
  draw at zero the decision is drop and the verdict is drop. With a retention shorter than
  the granularity \<open>AddSample\<close> panics: the panic is recovered, no verdict is written and
  the log ends with the recovery line.
\<close>

theorem fnPacketHandler_verdict_witness:
  "getPacketIPs tcpPacket = Inr (\<lparr>src = [192, 168, 1, 10], dst = [142, 250, 0, 1]\<rparr>, 20)
   \<and> gmIsSrcDestIpKnown (production defaultActivity monday1500) strictWorld
        (classifierSrc Egress \<lparr>src = [192, 168, 1, 10], dst = [142, 250, 0, 1]\<rparr>)
        (classifierDst Egress \<lparr>src = [192, 168, 1, 10], dst = [142, 250, 0, 1]\<rparr>)
       = ([''kids''], True)
   \<and> firstPanic (production defaultActivity monday1500)
        (classifierSrc Egress \<lparr>src = [192, 168, 1, 10], dst = [142, 250, 0, 1]\<rparr>)
        Egress 20 [''kids''] strictWorld = None
   \<and> recovered (fnPacketHandler cfg0 Egress (production defaultActivity monday1500)
                 (\<lambda>_. 1 / 2) 0 False tcpPacket strictWorld) = None
   \<and> verdicts (fnPacketHandler cfg0 Egress (production defaultActivity monday1500)
                 (\<lambda>_. 1 / 2) 0 False tcpPacket strictWorld) = [(7, NfAccept)]
   \<and> decisions (outcome (fnPacketHandler cfg0 Egress (production defaultActivity monday1500)
                 (\<lambda>_. 1 / 2) 0 False tcpPacket strictWorld)) = [''delay'']
   \<and> sleeps (outcome (fnPacketHandler cfg0 Egress (production defaultActivity monday1500)
                 (\<lambda>_. 1 / 2) 0 False tcpPacket strictWorld)) = [100000000]
   \<and> logs (outcome (fnPacketHandler cfg0 Egress (production defaultActivity monday1500)
                 (\<lambda>_. 1 / 2) 0 False tcpPacket strictWorld))
       = [(DebugLevel, ''handled packet'')]
   \<and> (\<forall>i. 0 \<le> (\<lambda>_. 1 / 2 :: rat) i \<and> (\<lambda>_. 1 / 2 :: rat) i < 1)
   \<and> is_int64 (PacketJitterMs cfg0)
   \<and> PacketDelayMs cfg0 + \<bar>PacketJitterMs cfg0\<bar> \<le> maxInt64
   \<and> verdicts (fnPacketHandler cfg0 Egress (production defaultActivity monday1500)
                 (\<lambda>_. 0) 0 False tcpPacket strictWorld) = [(7, NfDrop)]
   \<and> decisions (outcome (fnPacketHandler cfg0 Egress (production defaultActivity monday1500)
                 (\<lambda>_. 0) 0 False tcpPacket strictWorld)) = [''drop'']
   \<and> gmIsSrcDestIpKnown (production defaultActivity monday1500) shortWorld
        (classifierSrc Egress \<lparr>src = [192, 168, 1, 10], dst = [142, 250, 0, 1]\<rparr>)
        (classifierDst Egress \<lparr>src = [192, 168, 1, 10], dst = [142, 250, 0, 1]\<rparr>)
       = ([''kids''], True)
   \<and> firstPanic (production defaultActivity monday1500)
        (classifierSrc Egress \<lparr>src = [192, 168, 1, 10], dst = [142, 250, 0, 1]\<rparr>)
        Egress 20 [''kids''] shortWorld = Some IntegerDivideByZero
   \<and> recovered (fnPacketHandler cfg0 Egress (production defaultActivity monday1500)
                 (\<lambda>_. 1 / 2) 0 False tcpPacket shortWorld) = Some IntegerDivideByZero
   \<and> verdicts (fnPacketHandler cfg0 Egress (production defaultActivity monday1500)
                 (\<lambda>_. 1 / 2) 0 False tcpPacket shortWorld) = []
   \<and> logs (outcome (fnPacketHandler cfg0 Egress (production defaultActivity monday1500)
                 (\<lambda>_. 1 / 2) 0 False tcpPacket shortWorld))
       = [(ErrorLevel, ''Recovered from panic'')]"
proof -
  have p: "getPacketIPs tcpPacket
             = Inr (\<lparr>src = [192, 168, 1, 10], dst = [142, 250, 0, 1]\<rparr>, 20)"
    by (rule tcpPacket_ips)
  have k: "gmIsSrcDestIpKnown (production defaultActivity monday1500) strictWorld
        (classifierSrc Egress \<lparr>src = [192, 168, 1, 10], dst = [142, 250, 0, 1]\<rparr>)
        (classifierDst Egress \<lparr>src = [192, 168, 1, 10], dst = [142, 250, 0, 1]\<rparr>)
       = ([''kids''], True)"
    using production_known [of defaultActivity monday1500 strictWorld]
    by (simp add: strictWorld_def tcpPacket_classified)
  have ks: "gmIsSrcDestIpKnown (production defaultActivity monday1500) shortWorld
        (classifierSrc Egress \<lparr>src = [192, 168, 1, 10], dst = [142, 250, 0, 1]\<rparr>)
        (classifierDst Egress \<lparr>src = [192, 168, 1, 10], dst = [142, 250, 0, 1]\<rparr>)
       = ([''kids''], True)"
    using production_known [of defaultActivity monday1500 shortWorld]
    by (simp add: shortWorld_def tcpPacket_classified)
  have c: "is_int64 (PacketJitterMs cfg0)"
    "PacketDelayMs cfg0 + \<bar>PacketJitterMs cfg0\<bar> \<le> maxInt64"
    by (simp_all add: cfg0_def is_int64_def minInt64_def maxInt64_def)
  have delay: "firstPanic (production defaultActivity monday1500)
        (classifierSrc Egress \<lparr>src = [192, 168, 1, 10], dst = [142, 250, 0, 1]\<rparr>)
        Egress 20 [''kids''] strictWorld = None"
    using fnPacketHandler_verdict [OF p k, of cfg0 "\<lambda>_. 1 / 2" 0 False]
    by (simp add: strictWorld_handled)
  have drop: "verdicts (fnPacketHandler cfg0 Egress (production defaultActivity monday1500)
                 (\<lambda>_. 0) 0 False tcpPacket strictWorld) = [(7, NfDrop)]
     \<and> decisions (outcome (fnPacketHandler cfg0 Egress (production defaultActivity monday1500)
                 (\<lambda>_. 0) 0 False tcpPacket strictWorld)) = [''drop'']"
    using fnPacketHandler_verdict [OF p k, of cfg0 "\<lambda>_. 0" 0 False]
    by (simp add: strictWorld_dropped)
  have panic: "firstPanic (production defaultActivity monday1500)
        (classifierSrc Egress \<lparr>src = [192, 168, 1, 10], dst = [142, 250, 0, 1]\<rparr>)
        Egress 20 [''kids''] shortWorld = Some IntegerDivideByZero"
    using fnPacketHandler_verdict [OF p ks, of cfg0 "\<lambda>_. 1 / 2" 0 False]
    by (simp add: shortWorld_handled)
  show ?thesis
    using p k ks c delay drop panic
    by (simp add: strictWorld_handled shortWorld_handled)
qed
section \<open>Domain watcher\<close>

lemma put_keys: "fst ` set (put k v m) = insert k (fst ` set m)"
proof (induction m)
  case Nil
  show ?case by simp
next
  case (Cons a m)
  obtain k' v' where a: "a = (k', v')" by (cases a)
  show ?case
  proof (cases "k = k'")
    case True
    then show ?thesis by (simp add: a)
  next
    case False
    then show ?thesis using Cons.IH by (simp add: a insert_commute)
  qed
qed

lemma fold_put_keys:
  "fst ` set (fold (\<lambda>(k, v). put k v) xs m) = fst ` set xs \<union> fst ` set m"
proof (induction xs arbitrary: m)
  case Nil
  show ?case by simp
next
  case (Cons a xs)
  obtain k v where a: "a = (k, v)" by (cases a)
  show ?case
    using Cons.IH [of "put k v m"] by (auto simp: a put_keys)
qed

lemma maps_Copy_keys: "fst ` set (maps_Copy older newer) = fst ` set older \<union> fst ` set newer"
  by (auto simp: maps_Copy_def fold_put_keys)

lemma resolveDomains_keys:
  "fst ` set (resolveDomains lookup domains)
     = set (concat (map (\<lambda>domain. case lookup domain of None \<Rightarrow> [] | Some ips \<Rightarrow> ips) domains))"
proof -
  have "fst ` set (case lookup d of None \<Rightarrow> [] | Some ips \<Rightarrow> map (\<lambda>ip. (ip, d)) ips)
          = set (case lookup d of None \<Rightarrow> [] | Some ips \<Rightarrow> ips)" for d
    by (cases "lookup d") (auto simp: image_image)
  then show ?thesis
    by (simp add: resolveDomains_def fold_put_keys image_UN)
qed

lemma merged_keys:
  "fst ` set (fold (\<lambda>(grp, domains) acc. maps_Copy acc (resolveDomains lookup domains)) gd m)
     = fst ` set m \<union> resolvedIps gd lookup"
proof (induction gd arbitrary: m)
  case Nil
  show ?case by (simp add: resolvedIps_def)
next
  case (Cons a gd)
  obtain grp domains where a: "a = (grp, domains)" by (cases a)
  have "resolvedIps (a # gd) lookup
          = fst ` set (resolveDomains lookup domains) \<union> resolvedIps gd lookup"
    by (simp add: resolvedIps_def a resolveDomains_keys)
  then show ?case
    using Cons.IH [of "maps_Copy m (resolveDomains lookup domains)"]
    by (auto simp: a maps_Copy_keys)
qed

lemma domainTick_Inr:
  "domainTick (Inr gd) lookup dw
     = Inr (generateIPGroups
              ((fst (projr (loadGroupDomains (Inr gd) dw)))
                 \<lparr>dwDestIpDomains :=
                    fold (\<lambda>(grp, domains) acc. maps_Copy acc (resolveDomains lookup domains))
                      gd (dwDestIpDomains dw)\<rparr>),
            snd (projr (loadGroupDomains (Inr gd) dw))
            @ notifyReceivers (generateIPGroups
              ((fst (projr (loadGroupDomains (Inr gd) dw)))
                 \<lparr>dwDestIpDomains :=
                    fold (\<lambda>(grp, domains) acc. maps_Copy acc (resolveDomains lookup domains))
                      gd (dwDestIpDomains dw)\<rparr>)))"
  by (simp add: domainTick_def loadGroupDomains_def Let_def)

lemma generateIPGroups_frame:
  "dwDestIpDomains (generateIPGroups dw) = dwDestIpDomains dw"
  "destIpDomainReceivers (generateIPGroups dw) = destIpDomainReceivers dw"
  by (simp_all add: generateIPGroups_def Let_def)

lemma loadGroupDomains_frame:
  "destIpDomainReceivers (fst (projr (loadGroupDomains (Inr gd) dw))) = destIpDomainReceivers dw"
  by (simp add: loadGroupDomains_def Let_def)

text \<open>
  C3. What a tick publishes. The tick never fails on a loaded configuration; the
  addresses of the table it leaves are those of the table it found together with those it
  resolved; and every receiver of the table is called with that table. So an address of
  an earlier tick stays in the published table whether or not this tick resolved it.
\<close>

theorem domainTick_accumulates:
  "\<exists>dw' pubs.
     domainTick (Inr gd) lookup dw = Inr (dw', pubs)
     \<and> fst ` set (dwDestIpDomains dw') = fst ` set (dwDestIpDomains dw) \<union> resolvedIps gd lookup
     \<and> (\<forall>i < destIpDomainReceivers dw. UpdateDestIpDomains i (dwDestIpDomains dw') \<in> set pubs)"
  by (simp add: domainTick_Inr generateIPGroups_frame loadGroupDomains_frame merged_keys
      notifyReceivers_def)

lemma first_tick:
  "domainTick (Inr youtubeDomains) firstAnswers oneReceiver
     = Inr (afterFirstTick, [UpdateDestIpDomains 0 [(''1.1.1.1'', ''youtube.com'')]])"
  by (simp add: domainTick_def loadGroupDomains_def youtubeDomains_def firstAnswers_def
      oneReceiver_def NewDomainWatcher_def afterFirstTick_def appendTo_def resolveDomains_def
      maps_Copy_def generateIPGroups_def notifyReceivers_def Let_def)

lemma second_tick:
  "domainTick (Inr youtubeDomains) secondAnswers afterFirstTick
     = Inr (afterSecondTick,
            [UpdateDestIpDomains 0 [(''1.1.1.1'', ''youtube.com''), (''2.2.2.2'', ''youtube.com'')]])"
  by (simp add: domainTick_def loadGroupDomains_def youtubeDomains_def secondAnswers_def
      oneReceiver_def NewDomainWatcher_def afterFirstTick_def afterSecondTick_def appendTo_def
      resolveDomains_def maps_Copy_def generateIPGroups_def notifyReceivers_def Let_def)

lemma second_resolved: "resolvedIps youtubeDomains secondAnswers = {''2.2.2.2''}"
  by (simp add: resolvedIps_def youtubeDomains_def secondAnswers_def)

lemma afterFirstTick_table:
  "dwDestIpDomains afterFirstTick = [(''1.1.1.1'', ''youtube.com'')]"
  "destIpDomainReceivers afterFirstTick = 1"
  by (simp_all add: afterFirstTick_def oneReceiver_def NewDomainWatcher_def)

theorem domainTick_accumulates_witness:
  "domainTick (Inr youtubeDomains) firstAnswers oneReceiver
     = Inr (afterFirstTick, [UpdateDestIpDomains 0 [(''1.1.1.1'', ''youtube.com'')]])
   \<and> domainTick (Inr youtubeDomains) secondAnswers afterFirstTick
     = Inr (afterSecondTick,
            [UpdateDestIpDomains 0 [(''1.1.1.1'', ''youtube.com''), (''2.2.2.2'', ''youtube.com'')]])
   \<and> resolvedIps youtubeDomains secondAnswers = {''2.2.2.2''}
   \<and> fst ` set (dwDestIpDomains afterSecondTick) = {''1.1.1.1'', ''2.2.2.2''}"
proof -
  from domainTick_accumulates [of youtubeDomains secondAnswers afterFirstTick]
  have "fst ` set (dwDestIpDomains afterSecondTick)
          = fst ` set (dwDestIpDomains afterFirstTick) \<union> resolvedIps youtubeDomains secondAnswers"
    by (simp add: second_tick)
  then have "fst ` set (dwDestIpDomains afterSecondTick) = {''1.1.1.1'', ''2.2.2.2''}"
    by (simp add: afterFirstTick_table second_resolved insert_commute)
  then show ?thesis
    using first_tick second_tick second_resolved by simp
qed

section \<open>Net watcher\<close>

lemma maps_Equal_empty: "maps_Equal m [] \<longleftrightarrow> m = []"
  by (cases m) (auto simp: maps_Equal_def)

text \<open>
  C5. What a tick publishes when the ARP command fails. No IP-to-MAC update is sent, but
  when match-all mode is active or the snapshot of the previous tick is not empty, the
  snapshot is emptied and every receiver of the IP-to-groups table is called with an
  empty table.
\<close>

theorem scanNetworkAndNotify_arp_error:
  "scanNetworkAndNotify loaded (Inl err) nw
     = (if snd loaded \<noteq> None \<or> nwSourceIpGroups nw \<noteq> []
        then Inr (snd loaded \<noteq> None, nw\<lparr>nwSourceIpGroups := []\<rparr>,
                  map (\<lambda>i. UpdateSourceIpGroupsCall i []) [0..<callbacksForIpGroups nw])
        else Inr (False, nw, []))"
  by (simp add: scanNetworkAndNotify_def scanNetwork_def bindP_def Let_def maps_Equal_empty)

theorem scanNetworkAndNotify_arp_error_witness:
  "scanNetworkAndNotify (kidsGroupMACs, None) (Inl ''exit status 1'') watching
     = Inr (False, watching\<lparr>nwSourceIpGroups := []\<rparr>, [UpdateSourceIpGroupsCall 0 []])
   \<and> scanNetworkAndNotify (emptyGroupMACsConfig, Some ErrorGroupMacFileNotFound)
        (Inl ''exit status 1'') (watching\<lparr>nwSourceIpGroups := []\<rparr>)
     = Inr (True, watching\<lparr>nwSourceIpGroups := []\<rparr>, [UpdateSourceIpGroupsCall 0 []])"
  using scanNetworkAndNotify_arp_error [of "(kidsGroupMACs, None)" "''exit status 1''" watching]
    scanNetworkAndNotify_arp_error [of "(emptyGroupMACsConfig, Some ErrorGroupMacFileNotFound)"
      "''exit status 1''" "watching\<lparr>nwSourceIpGroups := []\<rparr>"]
  by (simp add: watching_def)

lemma scan_test:
  "scanNetwork (testGroupMACs, None) (Inr testArpOutput)
     = Inr (False,
            [(''192.168.1.10'', [''group1'']), (''192.168.1.11'', [''group1'']),
             (''192.168.1.12'', [''group2''])],
            [(''192.168.1.10'', ''00-11-22-33-44-55''), (''192.168.1.11'', ''66-77-88-99-AA-BB''),
             (''192.168.1.12'', ''CC-DD-EE-FF-00-11'')])"
  by (simp add: scanNetwork_def testGroupMACs_def testArpOutput_def bindP_def scanLine_def
      Fields_def isSpace_def Trim_def idx_get_def macRegex_Match_def isHex_def NewMAC_def
      toUpperChar_def joinGroups_def numeral_eq_Suc Let_def)

section \<open>Group-MACs file\<close>

text \<open>
  C6. What is read back after a save: the groups sorted from the entries, with the MAC
  text as it was passed, and no unused MACs, whatever the entries were.
\<close>

theorem SaveGroupMACs_then_GetConfig:
  "fst (GetConfig (SaveGroupMACs flatGroupMACs file))
     = (\<lparr>Groups = Some (fst (sortFlat flatGroupMACs [] [])), UnusedMACs = []\<rparr>, None)"
  by (simp add: GetConfig_def SaveGroupMACs_def Let_def split: prod.splits)

lemma flatEntries_sorted:
  "sortFlat flatEntries [] []
     = ([(''kids'', [\<lparr>MAC = ''AA-BB-CC-DD-EE-FF'', Name = ''phone''\<rparr>])],
        [\<lparr>MAC = ''11-22-33-44-55-66'', Name = ''tv''\<rparr>])"
  by (simp add: flatEntries_def appendTo_def NewGroup_def)

lemma flatEntries_expected:
  "expectedConfig flatEntries
     = \<lparr>Groups = Some [(''kids'', [\<lparr>MAC = ''AA-BB-CC-DD-EE-FF'', Name = ''phone''\<rparr>])],
        UnusedMACs = [\<lparr>MAC = ''11-22-33-44-55-66'', Name = ''tv''\<rparr>]\<rparr>"
  by (simp add: expectedConfig_def flatEntries_sorted canonical_def NewMAC_def toUpperChar_def)

theorem SaveGroupMACs_then_GetConfig_witness:
  "fst (GetConfig (SaveGroupMACs flatEntries Absent))
     = (\<lparr>Groups = Some [(''kids'', [\<lparr>MAC = ''AA-BB-CC-DD-EE-FF'', Name = ''phone''\<rparr>])],
         UnusedMACs = []\<rparr>, None)
   \<and> expectedConfig flatEntries
     = \<lparr>Groups = Some [(''kids'', [\<lparr>MAC = ''AA-BB-CC-DD-EE-FF'', Name = ''phone''\<rparr>])],
        UnusedMACs = [\<lparr>MAC = ''11-22-33-44-55-66'', Name = ''tv''\<rparr>]\<rparr>"
  using SaveGroupMACs_then_GetConfig [of flatEntries Absent]
  by (simp add: flatEntries_sorted flatEntries_expected)

lemma colonEntries_read_back:
  "fst (GetConfig (SaveGroupMACs colonEntries Absent))
     = (\<lparr>Groups = Some [(''kids'', [\<lparr>MAC = ''aa:bb:cc:dd:ee:ff'', Name = ''phone''\<rparr>])],
         UnusedMACs = []\<rparr>, None)
   \<and> expectedConfig colonEntries
     = \<lparr>Groups = Some [(''kids'', [\<lparr>MAC = ''AA-BB-CC-DD-EE-FF'', Name = ''phone''\<rparr>])],
        UnusedMACs = []\<rparr>"
  by (simp add: GetConfig_def SaveGroupMACs_def expectedConfig_def colonEntries_def appendTo_def
      NewGroup_def canonical_def NewMAC_def toUpperChar_def Let_def)

end
